theory Spec2Isabelle
  imports Complex_Main "HOL-Library.AList" "HOL-Library.Multiset"
begin

section \<open>Tensors\<close>

text \<open>
  A torch tensor (and a numpy array) is modelled by its shape and its elements in row-major
  (contiguous) order. Element types are idealised: every floating-point dtype is \<open>real\<close>,
  so rounding, infinities and NaN of tensor elements are outside the model, \<open>.float()\<close> is
  the identity and \<open>x + 0.0\<close> is \<open>x\<close>; a boolean or byte mask is a real tensor of
  zeros and ones. The one place where the source computes an integer from a Python float,
  the rank of \<open>ComputeScalingFactor\<close>, is modelled in double precision (section
  \<open>Python floats\<close>).
\<close>

record 'a tensor =
  shape :: "nat list"
  data :: "'a list"

definition wf_tensor :: "'a tensor \<Rightarrow> bool" where
  "wf_tensor t = (length (data t) = prod_list (shape t))"

text \<open>Python indexing of a sequence of length \<open>n\<close>: negative indices count from the end.\<close>

definition py_index :: "int \<Rightarrow> nat \<Rightarrow> nat option" where
  "py_index i n =
     (if 0 \<le> i \<and> i < int n then Some (nat i)
      else if - int n \<le> i \<and> i < 0 then Some (nat (i + int n))
      else None)"

text \<open>\<open>chunks m k xs\<close>: the first \<open>m\<close> consecutive blocks of \<open>k\<close> elements of \<open>xs\<close>.\<close>

fun chunks :: "nat \<Rightarrow> nat \<Rightarrow> 'a list \<Rightarrow> 'a list list" where
  "chunks 0 k xs = []"
| "chunks (Suc m) k xs = take k xs # chunks m k (drop k xs)"

definition outer_size :: "nat \<Rightarrow> nat list \<Rightarrow> nat" where
  "outer_size d shp = prod_list (take d shp)"

definition inner_size :: "nat \<Rightarrow> nat list \<Rightarrow> nat" where
  "inner_size d shp = prod_list (drop (Suc d) shp)"

text \<open>\<open>torch.zeros(shape)\<close>.\<close>

definition torch_zeros :: "nat list \<Rightarrow> ('a::zero) tensor" where
  "torch_zeros shp = \<lparr>shape = shp, data = replicate (prod_list shp) 0\<rparr>"

text \<open>
  \<open>torch.cat([a, b], dim=d)\<close> for two tensors whose shapes agree outside axis \<open>d\<close>
  (the only way the source calls it): in every outer block the \<open>d\<close>-slices of \<open>a\<close> come
  first, then those of \<open>b\<close>.
\<close>

definition torch_cat :: "'a tensor \<Rightarrow> 'a tensor \<Rightarrow> nat \<Rightarrow> 'a tensor" where
  "torch_cat a b d =
     (let inner = inner_size d (shape b); outer = outer_size d (shape b)
      in \<lparr>shape = (shape b)[d := shape a ! d + shape b ! d],
          data = concat (map2 (@) (chunks outer (shape a ! d * inner) (data a))
                                  (chunks outer (shape b ! d * inner) (data b)))\<rparr>)"

text \<open>\<open>torch.narrow(t, d, start, len)\<close>: the slots \<open>start, ..., start + len - 1\<close> of axis \<open>d\<close>.\<close>

definition torch_narrow :: "'a tensor \<Rightarrow> nat \<Rightarrow> nat \<Rightarrow> nat \<Rightarrow> 'a tensor" where
  "torch_narrow t d start len =
     (let inner = inner_size d (shape t); outer = outer_size d (shape t)
      in \<lparr>shape = (shape t)[d := len],
          data = concat (map (\<lambda>b. take (len * inner) (drop (start * inner) b))
                             (chunks outer (shape t ! d * inner) (data t)))\<rparr>)"

text \<open>
  The sum over axis \<open>d\<close>: in every outer block the slices along \<open>d\<close> are added
  elementwise, and the axis disappears from the shape.
\<close>

definition sum_blocks :: "nat \<Rightarrow> nat \<Rightarrow> real list \<Rightarrow> real list" where
  "sum_blocks n inner block = foldr (map2 (+)) (chunks n inner block) (replicate inner 0)"

definition sum_axis :: "real tensor \<Rightarrow> nat \<Rightarrow> real tensor" where
  "sum_axis t d =
     (let inner = inner_size d (shape t); outer = outer_size d (shape t); n = shape t ! d
      in \<lparr>shape = take d (shape t) @ drop (Suc d) (shape t),
          data = concat (map (sum_blocks n inner) (chunks outer (n * inner) (data t)))\<rparr>)"

text \<open>
  \<open>t.sum(dim)\<close>. A tensor without axes accepts \<open>dim\<close> 0 and -1 and is returned as it is;
  a \<open>dim\<close> out of range raises \<open>IndexError\<close>.
\<close>

datatype error =
    KeyError string
  | ValueError
  | TypeError
  | AttributeError
  | IndexError
  | AssertionError
  | RuntimeError
  | ZeroDivisionError
  | OverflowError
  | ItemNotFoundException string

definition torch_sum :: "real tensor \<Rightarrow> int \<Rightarrow> error + real tensor" where
  "torch_sum t ax =
     (if shape t = [] then (if ax = 0 \<or> ax = -1 then Inr t else Inl IndexError)
      else (case py_index ax (length (shape t)) of
              None \<Rightarrow> Inl IndexError
            | Some d \<Rightarrow> Inr (sum_axis t d)))"

text \<open>\<open>torch.mean(t)\<close> over all elements, as a number.\<close>

definition torch_mean :: "real tensor \<Rightarrow> real" where
  "torch_mean t = sum_list (data t) / real (length (data t))"

text \<open>\<open>t.unsqueeze(dim)\<close>: a new axis of size 1 at \<open>dim\<close>, which ranges over \<open>-ndim-1 .. ndim\<close>.\<close>

definition torch_unsqueeze :: "'a tensor \<Rightarrow> int \<Rightarrow> error + 'a tensor" where
  "torch_unsqueeze t ax =
     (case py_index ax (Suc (length (shape t))) of
        None \<Rightarrow> Inl IndexError
      | Some d \<Rightarrow> Inr (t\<lparr>shape := take d (shape t) @ 1 # drop d (shape t)\<rparr>))"

text \<open>\<open>t.max()\<close> over all elements: a tensor without axes; an empty tensor has no maximum.\<close>

definition torch_max :: "real tensor \<Rightarrow> error + real tensor" where
  "torch_max t =
     (case data t of
        [] \<Rightarrow> Inl RuntimeError
      | x # xs \<Rightarrow> Inr \<lparr>shape = [], data = [fold max xs x]\<rparr>)"

text \<open>
  \<open>torch.kthvalue(v, k)\<close> on the elements of a flat tensor: the \<open>k\<close>-th smallest element,
  counted from 1, as a tensor without axes; \<open>k\<close> outside \<open>1 .. len(v)\<close> raises.
\<close>

definition torch_kthvalue :: "real list \<Rightarrow> int \<Rightarrow> error + real tensor" where
  "torch_kthvalue v k =
     (if 1 \<le> k \<and> k \<le> int (length v) then Inr \<lparr>shape = [], data = [sort v ! nat (k - 1)]\<rparr>
      else Inl RuntimeError)"

text \<open>
  Elementwise binary operations with broadcasting (\<open>a * b\<close>, \<open>a / b\<close>): the shapes are
  aligned at their last axes, an axis of size 1 is repeated, and shapes that do not match
  raise \<open>RuntimeError\<close>. \<open>bcast_shape\<close> works on the reversed shapes.
\<close>

fun bcast_shape :: "nat list \<Rightarrow> nat list \<Rightarrow> nat list option" where
  "bcast_shape [] ys = Some ys"
| "bcast_shape (x # xs) [] = Some (x # xs)"
| "bcast_shape (x # xs) (y # ys) =
     (if x = y \<or> y = 1 then map_option ((#) x) (bcast_shape xs ys)
      else if x = 1 then map_option ((#) y) (bcast_shape xs ys)
      else None)"

fun unravel :: "nat list \<Rightarrow> nat \<Rightarrow> nat list" where
  "unravel [] i = []"
| "unravel (n # ns) i = (i div prod_list ns) mod n # unravel ns i"

fun ravel_bcast :: "nat list \<Rightarrow> nat list \<Rightarrow> nat" where
  "ravel_bcast (n # ns) (j # js) = (if n = 1 then 0 else j) * prod_list ns + ravel_bcast ns js"
| "ravel_bcast _ _ = 0"

definition bcast_get :: "'a tensor \<Rightarrow> nat list \<Rightarrow> nat \<Rightarrow> 'a" where
  "bcast_get t rs i =
     data t ! ravel_bcast (replicate (length rs - length (shape t)) 1 @ shape t) (unravel rs i)"

definition torch_binop ::
  "(real \<Rightarrow> real \<Rightarrow> real) \<Rightarrow> real tensor \<Rightarrow> real tensor \<Rightarrow> error + real tensor" where
  "torch_binop f a b =
     (case bcast_shape (rev (shape a)) (rev (shape b)) of
        None \<Rightarrow> Inl RuntimeError
      | Some rrs \<Rightarrow>
          let rs = rev rrs
          in Inr \<lparr>shape = rs,
                  data = map (\<lambda>i. f (bcast_get a rs i) (bcast_get b rs i)) [0..<prod_list rs]\<rparr>)"

definition torch_mul :: "real tensor \<Rightarrow> real tensor \<Rightarrow> error + real tensor" where
  "torch_mul a b = torch_binop (*) a b"

definition torch_div :: "real tensor \<Rightarrow> real tensor \<Rightarrow> error + real tensor" where
  "torch_div a b = torch_binop (/) a b"

text \<open>A tensor and a Python float: \<open>t / x\<close>, \<open>x * t\<close>.\<close>

definition tensor_map :: "('a \<Rightarrow> 'b) \<Rightarrow> 'a tensor \<Rightarrow> 'b tensor" where
  "tensor_map f t = \<lparr>shape = shape t, data = map f (data t)\<rparr>"

section \<open>Python floats\<close>

text \<open>
  A Python float is an IEEE 754 binary64 number. \<open>Finite m e\<close> stands for \<open>m * 2 ^ e\<close>; it
  is a double when \<open>m\<close> has at most 53 bits, \<open>- 1074 \<le> e\<close> and the value is below
  \<open>2 ^ 1024\<close>. \<open>Infinity neg\<close> is \<open>inf\<close>, or \<open>-inf\<close> when \<open>neg\<close> holds, and \<open>NaN\<close>
  is \<open>nan\<close>. The sign of a zero is not represented: subtraction, multiplication, \<open>int\<close>
  and \<open>bool\<close> give the same for \<open>0.0\<close> and \<open>-0.0\<close>, up to the sign of a zero result.
\<close>

datatype py_float = Finite int int | Infinity bool | NaN

text \<open>The number of binary digits of \<open>n\<close> (\<open>int.bit_length\<close>).\<close>

fun bit_length :: "nat \<Rightarrow> nat" where
  "bit_length n = (if n = 0 then 0 else Suc (bit_length (n div 2)))"

declare bit_length.simps [simp del]

text \<open>
  Rounding of the exact value \<open>m * 2 ^ e\<close> to the nearest double, ties to the even
  mantissa: \<open>s\<close> low bits are dropped so that 53 bits remain and the exponent is not below
  -1074 (the subnormal range); a result of \<open>2 ^ 1024\<close> or more overflows to infinity.
\<close>

definition overflow_to_infinity :: "int \<Rightarrow> int \<Rightarrow> py_float" where
  "overflow_to_infinity m e =
     (if 1024 < int (bit_length (nat \<bar>m\<bar>)) + e then Infinity (m < 0) else Finite m e)"

definition round_to_double :: "int \<Rightarrow> int \<Rightarrow> py_float" where
  "round_to_double m e =
     (let s = max (int (bit_length (nat \<bar>m\<bar>)) - 53) (- 1074 - e) in
      if s \<le> 0 then overflow_to_infinity m e
      else
        let q = m div 2 ^ nat s;
            r = m mod 2 ^ nat s;
            half = 2 ^ nat (s - 1);
            rounded = (if half < r \<or> (r = half \<and> odd q) then q + 1 else q)
        in overflow_to_infinity rounded (e + s))"

text \<open>\<open>x - y\<close> and \<open>x * y\<close> on floats: the exact result, rounded.\<close>

fun py_float_sub :: "py_float \<Rightarrow> py_float \<Rightarrow> py_float" where
  "py_float_sub (Finite a ea) (Finite b eb) =
     (let e = min ea eb in round_to_double (a * 2 ^ nat (ea - e) - b * 2 ^ nat (eb - e)) e)"
| "py_float_sub NaN y = NaN"
| "py_float_sub x NaN = NaN"
| "py_float_sub (Infinity s) (Infinity t) = (if s = t then NaN else Infinity s)"
| "py_float_sub (Infinity s) (Finite b eb) = Infinity s"
| "py_float_sub (Finite a ea) (Infinity t) = Infinity (\<not> t)"

fun py_float_mul :: "py_float \<Rightarrow> py_float \<Rightarrow> py_float" where
  "py_float_mul (Finite a ea) (Finite b eb) = round_to_double (a * b) (ea + eb)"
| "py_float_mul NaN y = NaN"
| "py_float_mul x NaN = NaN"
| "py_float_mul (Infinity s) (Infinity t) = Infinity (s \<noteq> t)"
| "py_float_mul (Infinity s) (Finite b eb) = (if b = 0 then NaN else Infinity (s \<noteq> (b < 0)))"
| "py_float_mul (Finite a ea) (Infinity t) = (if a = 0 then NaN else Infinity (t \<noteq> (a < 0)))"

text \<open>
  The conversion of an \<open>int\<close> operand of a float operation: the nearest double, and
  \<open>OverflowError\<close> when the integer is too large for one.
\<close>

definition py_float_of_int :: "int \<Rightarrow> error + py_float" where
  "py_float_of_int n =
     (case round_to_double n 0 of Infinity neg \<Rightarrow> Inl OverflowError | x \<Rightarrow> Inr x)"

text \<open>
  Python's \<open>int(x)\<close> on a float: truncation towards zero; \<open>int(inf)\<close> raises
  \<open>OverflowError\<close> and \<open>int(nan)\<close> raises \<open>ValueError\<close>.
\<close>

definition py_int :: "py_float \<Rightarrow> error + int" where
  "py_int x =
     (case x of
        Finite m e \<Rightarrow> Inr (if 0 \<le> e then m * 2 ^ nat e else sgn m * (\<bar>m\<bar> div 2 ^ nat (- e)))
      | Infinity neg \<Rightarrow> Inl OverflowError
      | NaN \<Rightarrow> Inl ValueError)"

text \<open>\<open>bool(x)\<close> on a float: false for zero only.\<close>

definition py_float_truthy :: "py_float \<Rightarrow> bool" where
  "py_float_truthy x = (case x of Finite m e \<Rightarrow> m \<noteq> 0 | _ \<Rightarrow> True)"

section \<open>Python values, exceptions and the sample dictionary\<close>

text \<open>
  The objects a sample holds. \<open>Tensor\<close> is a torch tensor, \<open>NDArray\<close> a numpy array as the
  dataset delivers it (complex), \<open>Float\<close> a Python float, \<open>Str\<close> a string,
  \<open>IntTuple\<close> a tuple or list of ints and \<open>NoneVal\<close> is \<open>None\<close>. Strings are
  \<open>char list\<close>s, so \<open>ord\<close> is \<open>of_char\<close>.
\<close>

datatype val =
    Tensor "real tensor"
  | NDArray "complex tensor"
  | Float real
  | Str string
  | IntTuple "int list"
  | NoneVal

text \<open>
  A sample is a Python \<open>dict\<close>: an association list in insertion order.
  \<open>sample[k] = v\<close> is \<open>AList.update k v\<close> (it keeps the position of an existing key and
  appends a new one), \<open>del sample[k]\<close> is \<open>AList.delete k\<close>, \<open>k in sample\<close> is
  \<open>has_key\<close> and \<open>sample[k]\<close> is \<open>dict_get\<close>.
\<close>

type_synonym sample = "(string \<times> val) list"

definition has_key :: "sample \<Rightarrow> string \<Rightarrow> bool" where
  "has_key s k = (map_of s k \<noteq> None)"

definition dict_get :: "sample \<Rightarrow> string \<Rightarrow> error + val" where
  "dict_get s k = (case map_of s k of None \<Rightarrow> Inl (KeyError k) | Some v \<Rightarrow> Inr v)"

text \<open>Sequencing of steps that may raise: the first exception ends the computation.\<close>

definition bind_result :: "error + 'a \<Rightarrow> ('a \<Rightarrow> error + 'b) \<Rightarrow> error + 'b" where
  "bind_result m f = (case m of Inl e \<Rightarrow> Inl e | Inr x \<Rightarrow> f x)"

text \<open>
  The external callables work on tensors. Handing one of them, or a tensor operation, an
  object of another type is modelled as a \<open>TypeError\<close> at that place; an attribute such as
  \<open>.shape\<close> or \<open>.ndim\<close> of an object that has none is an \<open>AttributeError\<close>.
\<close>

definition as_tensor :: "val \<Rightarrow> error + real tensor" where
  "as_tensor v = (case v of Tensor t \<Rightarrow> Inr t | _ \<Rightarrow> Inl TypeError)"

definition val_shape :: "val \<Rightarrow> error + nat list" where
  "val_shape v =
     (case v of Tensor t \<Rightarrow> Inr (shape t) | NDArray a \<Rightarrow> Inr (shape a) | _ \<Rightarrow> Inl AttributeError)"

text \<open>
  \<open>bool(v)\<close>, as an \<open>if v:\<close> evaluates it. A tensor or array has a truth value only when
  it holds exactly one element.
\<close>

definition py_truthy :: "val \<Rightarrow> error + bool" where
  "py_truthy v =
     (case v of
        Tensor t \<Rightarrow> (case data t of [x] \<Rightarrow> Inr (x \<noteq> 0) | _ \<Rightarrow> Inl RuntimeError)
      | NDArray a \<Rightarrow> (case data a of [x] \<Rightarrow> Inr (x \<noteq> 0) | _ \<Rightarrow> Inl ValueError)
      | Float x \<Rightarrow> Inr (x \<noteq> 0)
      | Str s \<Rightarrow> Inr (s \<noteq> [])
      | IntTuple xs \<Rightarrow> Inr (xs \<noteq> [])
      | NoneVal \<Rightarrow> Inr False)"

section \<open>The external collaborators\<close>

text \<open>
  The helpers of \<open>direct.data.transforms\<close> (imported as \<open>T\<close>) and
  \<open>direct.utils.asserts\<close>, and the conversions between numpy and torch, are not part of the
  file under verification. They are parameters of the model: total functions on tensors,
  with nothing assumed about what they compute. Randomness is explicit: \<open>'r\<close> is the hidden
  state of the random generators (of the mask function and of the random cropper), read and
  advanced by every call. An optional argument the source leaves out is \<open>None\<close>.
  \<open>mixed_truediv\<close> is \<open>x / y\<close> for a numpy array with a torch tensor or with a tuple,
  in either order: which of the two libraries carries out the operation, after which
  conversion of the other operand, or whether the operation is refused, is decided by numpy
  and torch between them.
\<close>

type_synonym fft_operator = "real tensor \<Rightarrow> int list option \<Rightarrow> real tensor"

text \<open>\<open>mask_func(shape=..., seed=..., return_acs=...)\<close> in the state \<open>r\<close> of its generator.\<close>

type_synonym 'r mask_function =
  "'r \<Rightarrow> int list \<Rightarrow> int list option \<Rightarrow> bool \<Rightarrow> real tensor \<times> 'r"

record 'r ops =
  to_tensor :: "complex tensor \<Rightarrow> real tensor"
  from_numpy :: "complex tensor \<Rightarrow> real tensor"
  to_byte :: "real tensor \<Rightarrow> real tensor"
  str_of_object :: "val \<Rightarrow> string"
  apply_padding :: "real tensor \<Rightarrow> real tensor \<Rightarrow> real tensor"
  apply_mask :: "real tensor \<Rightarrow> real tensor \<Rightarrow> real tensor \<times> real tensor"
  complex_center_crop :: "real tensor list \<Rightarrow> int list \<Rightarrow> bool \<Rightarrow> real tensor"
  complex_random_crop ::
    "'r \<Rightarrow> real tensor list \<Rightarrow> int list \<Rightarrow> bool \<Rightarrow> int list option \<Rightarrow> string option
       \<Rightarrow> real list option \<Rightarrow> real tensor \<times> 'r"
  modulus :: "real tensor \<Rightarrow> int option \<Rightarrow> real tensor"
  root_sum_of_squares :: "real tensor \<Rightarrow> int \<Rightarrow> real tensor"
  complex_multiplication :: "real tensor \<Rightarrow> real tensor \<Rightarrow> real tensor"
  conjugate :: "real tensor \<Rightarrow> real tensor"
  safe_divide :: "real tensor \<Rightarrow> real tensor \<Rightarrow> real tensor"
  assert_complex :: "real tensor \<Rightarrow> error option"
  mixed_truediv :: "val \<Rightarrow> val \<Rightarrow> error + val"

text \<open>
  \<open>v / f\<close> for the objects of a sample. Tensors divide with torch's broadcasting, arrays
  with numpy's (the same alignment of shapes; numpy raises \<open>ValueError\<close> where torch raises
  \<open>RuntimeError\<close>), a tensor or an array and a float divide elementwise, a float divided by
  the float zero raises, an array with a tensor or a tuple is \<open>mixed_truediv\<close>, and every
  other pair of operands is a \<open>TypeError\<close>. A quotient by an element that is zero is
  \<open>inf\<close> or \<open>nan\<close> in torch and numpy, which the reals do not have; \<open>Normalize\<close>
  divides by a tensor, an array or a float only when its single element is not zero.
\<close>

definition numpy_divide :: "complex tensor \<Rightarrow> complex tensor \<Rightarrow> error + complex tensor" where
  "numpy_divide a b =
     (case bcast_shape (rev (shape a)) (rev (shape b)) of
        None \<Rightarrow> Inl ValueError
      | Some rrs \<Rightarrow>
          let rs = rev rrs
          in Inr \<lparr>shape = rs,
                  data = map (\<lambda>i. bcast_get a rs i / bcast_get b rs i) [0..<prod_list rs]\<rparr>)"

definition py_truediv :: "'r ops \<Rightarrow> val \<Rightarrow> val \<Rightarrow> error + val" where
  "py_truediv ops v f =
     (case (v, f) of
        (Tensor a, Tensor b) \<Rightarrow> bind_result (torch_div a b) (\<lambda>t. Inr (Tensor t))
      | (Tensor a, Float y) \<Rightarrow> Inr (Tensor (tensor_map (\<lambda>x. x / y) a))
      | (Float x, Tensor b) \<Rightarrow> Inr (Tensor (tensor_map (\<lambda>y. x / y) b))
      | (Float x, Float y) \<Rightarrow> if y = 0 then Inl ZeroDivisionError else Inr (Float (x / y))
      | (NDArray a, NDArray b) \<Rightarrow> bind_result (numpy_divide a b) (\<lambda>t. Inr (NDArray t))
      | (NDArray a, Float y) \<Rightarrow> Inr (NDArray (tensor_map (\<lambda>z. z / complex_of_real y) a))
      | (Float x, NDArray b) \<Rightarrow> Inr (NDArray (tensor_map (\<lambda>z. complex_of_real x / z) b))
      | (NDArray a, Tensor b) \<Rightarrow> mixed_truediv ops v f
      | (Tensor a, NDArray b) \<Rightarrow> mixed_truediv ops v f
      | (NDArray a, IntTuple ys) \<Rightarrow> mixed_truediv ops v f
      | (IntTuple xs, NDArray b) \<Rightarrow> mixed_truediv ops v f
      | _ \<Rightarrow> Inl TypeError)"

text \<open>\<open>str(v)\<close>: a string is itself; what it prints for another object is left open.\<close>

definition py_str :: "'r ops \<Rightarrow> val \<Rightarrow> string" where
  "py_str ops v = (case v of Str s \<Rightarrow> s | _ \<Rightarrow> str_of_object ops v)"

text \<open>
  The seed of the seeded stages: \<open>tuple(map(ord, str(sample["filename"])))\<close> when seeding
  is on, \<open>None\<close> otherwise (and then the filename is not read).
\<close>

definition filename_seed :: "'r ops \<Rightarrow> bool \<Rightarrow> sample \<Rightarrow> error + int list option" where
  "filename_seed ops seeded sample =
     (if \<not> seeded then Inr None
      else bind_result (dict_get sample ''filename'')
             (\<lambda>v. Inr (Some (map (\<lambda>c. int (of_char c)) (py_str ops v)))))"

text \<open>\<open>if key in sample: sample[key] = f(sample[key])\<close>.\<close>

definition update_if_present :: "string \<Rightarrow> (val \<Rightarrow> error + val) \<Rightarrow> sample \<Rightarrow> error + sample" where
  "update_if_present k f sample =
     (case map_of sample k of
        None \<Rightarrow> Inr sample
      | Some v \<Rightarrow> bind_result (f v) (\<lambda>v'. Inr (AList.update k v' sample)))"

section \<open>The stages\<close>

text \<open>
  Every class of the source is modelled by its \<open>__call__\<close> (and its \<open>__init__\<close> where
  that can raise), with the object's fields as arguments in the order of the constructor.
  A stage mutates the sample and returns it; the model returns the new sample, or the
  exception. Stages that call a random collaborator also take and return the generator
  state.
\<close>

subsection \<open>ToTensor\<close>

definition val_ndim :: "val \<Rightarrow> error + nat" where
  "val_ndim v = bind_result (val_shape v) (\<lambda>shp. Inr (length shp))"

definition to_tensor_val :: "'r ops \<Rightarrow> val \<Rightarrow> error + val" where
  "to_tensor_val ops v = (case v of NDArray a \<Rightarrow> Inr (Tensor (to_tensor ops a)) | _ \<Rightarrow> Inl TypeError)"

definition from_numpy_val :: "'r ops \<Rightarrow> val \<Rightarrow> error + val" where
  "from_numpy_val ops v = (case v of NDArray a \<Rightarrow> Inr (Tensor (from_numpy ops a)) | _ \<Rightarrow> Inl TypeError)"

definition from_numpy_byte_val :: "'r ops \<Rightarrow> val \<Rightarrow> error + val" where
  "from_numpy_byte_val ops v =
     (case v of NDArray a \<Rightarrow> Inr (Tensor (to_byte ops (from_numpy ops a))) | _ \<Rightarrow> Inl TypeError)"

text \<open>\<open>torch.tensor(v).float()\<close>: a string raises \<open>TypeError\<close>, \<open>None\<close> raises \<open>RuntimeError\<close>.\<close>

definition torch_tensor_val :: "'r ops \<Rightarrow> val \<Rightarrow> error + val" where
  "torch_tensor_val ops v =
     (case v of
        Tensor t \<Rightarrow> Inr (Tensor t)
      | NDArray a \<Rightarrow> Inr (Tensor (from_numpy ops a))
      | Float x \<Rightarrow> Inr (Tensor \<lparr>shape = [], data = [x]\<rparr>)
      | IntTuple xs \<Rightarrow> Inr (Tensor \<lparr>shape = [length xs], data = map real_of_int xs\<rparr>)
      | Str s \<Rightarrow> Inl TypeError
      | NoneVal \<Rightarrow> Inl RuntimeError)"

text \<open>\<open>torch.from_numpy(np.asarray(v)).float()\<close>.\<close>

definition asarray_tensor_val :: "'r ops \<Rightarrow> val \<Rightarrow> error + val" where
  "asarray_tensor_val ops v =
     (case v of
        Tensor t \<Rightarrow> Inr (Tensor t)
      | NDArray a \<Rightarrow> Inr (Tensor (from_numpy ops a))
      | Float x \<Rightarrow> Inr (Tensor \<lparr>shape = [], data = [x]\<rparr>)
      | IntTuple xs \<Rightarrow> Inr (Tensor \<lparr>shape = [length xs], data = map real_of_int xs\<rparr>)
      | _ \<Rightarrow> Inl TypeError)"

definition ToTensor_call :: "'r ops \<Rightarrow> sample \<Rightarrow> error + sample" where
  "ToTensor_call ops sample =
     bind_result (dict_get sample ''kspace'') (\<lambda>kspace.
     bind_result (val_ndim kspace) (\<lambda>nd.
       let ndim = int nd - 1 in
       if ndim \<noteq> 2 \<and> ndim \<noteq> 3 then Inl ValueError
       else
         bind_result (to_tensor_val ops kspace) (\<lambda>t.
         bind_result (update_if_present ''initial_kspace'' (to_tensor_val ops)
                        (AList.update ''kspace'' t sample)) (\<lambda>s1.
         bind_result (update_if_present ''initial_image'' (to_tensor_val ops) s1) (\<lambda>s2.
         bind_result (update_if_present ''sensitivity_map'' (to_tensor_val ops) s2) (\<lambda>s3.
         bind_result (update_if_present ''target'' Inr s3) (\<lambda>s4.
         bind_result (update_if_present ''sampling_mask'' (from_numpy_byte_val ops) s4) (\<lambda>s5.
         bind_result (update_if_present ''acs_mask'' (from_numpy_val ops) s5) (\<lambda>s6.
         bind_result (update_if_present ''scaling_factor'' (torch_tensor_val ops) s6) (\<lambda>s7.
         update_if_present ''loglikelihood_scaling'' (asarray_tensor_val ops) s7))))))))))"

subsection \<open>CropKspace\<close>

text \<open>
  \<open>CropKspace.__init__\<close> checks \<open>isinstance(crop, (Iterable, str))\<close>: strings, tuples,
  lists, tensors and arrays are iterable, a float and \<open>None\<close> are not. The constructor
  stores its arguments; the result is the stored \<open>crop\<close>.
\<close>

definition is_iterable_or_str :: "val \<Rightarrow> bool" where
  "is_iterable_or_str v = (case v of Float x \<Rightarrow> False | NoneVal \<Rightarrow> False | _ \<Rightarrow> True)"

definition CropKspace_init :: "val \<Rightarrow> error + val" where
  "CropKspace_init crop_arg = (if \<not> is_iterable_or_str crop_arg then Inl ValueError else Inr crop_arg)"

text \<open>
  The crop shape handed to the cropper: \<open>sample[self.crop][:2]\<close> when \<open>crop\<close> is a
  string (the key is asserted to be in the sample), \<open>self.crop\<close> otherwise. The croppers
  take a sequence of ints.
\<close>

definition crop_shape_of :: "val \<Rightarrow> sample \<Rightarrow> error + val" where
  "crop_shape_of crop_arg sample =
     (case crop_arg of
        Str k \<Rightarrow>
          if \<not> has_key sample k then Inl AssertionError
          else bind_result (dict_get sample k)
                 (\<lambda>v. case v of
                         IntTuple xs \<Rightarrow> Inr (IntTuple (take 2 xs))
                       | Str s \<Rightarrow> Inr (Str (take 2 s))
                       | Tensor t \<Rightarrow>
                           (if shape t = [] then Inl IndexError
                            else Inr (Tensor (torch_narrow t 0 0 (min 2 (hd (shape t))))))
                       | NDArray a \<Rightarrow>
                           (if shape a = [] then Inl IndexError
                            else Inr (NDArray (torch_narrow a 0 0 (min 2 (hd (shape a))))))
                       | _ \<Rightarrow> Inl TypeError)
      | _ \<Rightarrow> Inr crop_arg)"

definition as_int_list :: "val \<Rightarrow> error + int list" where
  "as_int_list v = (case v of IntTuple xs \<Rightarrow> Inr xs | _ \<Rightarrow> Inl TypeError)"

definition CropKspace_call ::
  "val \<Rightarrow> fft_operator \<Rightarrow> fft_operator \<Rightarrow> bool \<Rightarrow> string option \<Rightarrow> bool option
     \<Rightarrow> real list option \<Rightarrow> 'r ops \<Rightarrow> 'r \<times> sample \<Rightarrow> error + 'r \<times> sample" where
  "CropKspace_call crop_arg forward_op backward_op image_space_center_crop
       random_crop_sampler_type random_crop_sampler_use_seed random_crop_sampler_gaussian_sigma
       ops st =
     (case st of (r, sample) \<Rightarrow>
     bind_result (dict_get sample ''kspace'') (\<lambda>kspace_val.
     bind_result (as_tensor kspace_val) (\<lambda>kspace.
       let backprojected_kspace = backward_op kspace None in
       bind_result (crop_shape_of crop_arg sample) (\<lambda>crop_shape_val.
         if image_space_center_crop then
           bind_result (as_int_list crop_shape_val) (\<lambda>crop_shape.
             let cropped = complex_center_crop ops [backprojected_kspace] crop_shape False
             in Inr (r, AList.update ''kspace'' (Tensor (forward_op cropped None)) sample))
         else
           bind_result (filename_seed ops (random_crop_sampler_use_seed = Some True) sample) (\<lambda>seed.
           bind_result (as_int_list crop_shape_val) (\<lambda>crop_shape.
             case complex_random_crop ops r [backprojected_kspace] crop_shape False seed
                    random_crop_sampler_type random_crop_sampler_gaussian_sigma of
               (cropped, r') \<Rightarrow>
                 Inr (r', AList.update ''kspace'' (Tensor (forward_op cropped None)) sample)))))))"

subsection \<open>ComputeZeroPadding and ApplyZeroPadding\<close>

definition ComputeZeroPadding_call ::
  "string \<Rightarrow> string \<Rightarrow> real \<Rightarrow> 'r ops \<Rightarrow> sample \<Rightarrow> int \<Rightarrow> error + sample" where
  "ComputeZeroPadding_call kspace_key padding_key eps ops sample coil_dim =
     bind_result (dict_get sample kspace_key) (\<lambda>v.
     bind_result (as_tensor v) (\<lambda>t.
     bind_result (torch_sum (modulus ops t None) coil_dim) (\<lambda>kspace.
       let threshold = torch_mean kspace * eps;
           below = tensor_map (\<lambda>x. if x < threshold then 1 else (0::real)) kspace
       in bind_result (torch_unsqueeze below coil_dim) (\<lambda>p1.
          bind_result (torch_unsqueeze p1 (-1)) (\<lambda>padding.
            Inr (AList.update padding_key (Tensor padding) sample))))))"

definition ApplyZeroPadding_call ::
  "string \<Rightarrow> string \<Rightarrow> 'r ops \<Rightarrow> sample \<Rightarrow> error + sample" where
  "ApplyZeroPadding_call kspace_key padding_key ops sample =
     bind_result (dict_get sample kspace_key) (\<lambda>kv.
     bind_result (dict_get sample padding_key) (\<lambda>pv.
     bind_result (as_tensor kv) (\<lambda>k.
     bind_result (as_tensor pv) (\<lambda>p.
       Inr (AList.update kspace_key (Tensor (apply_padding ops k p)) sample)))))"

subsection \<open>CreateSamplingMask\<close>

text \<open>
  The shape of the sampling mask when \<open>self.shape\<close> has entries that are \<open>None\<close>:
  \<open>tuple(_ if _ else kspace_shape[idx] for idx, _ in enumerate(self.shape))\<close>.
  A zero entry is as false as \<open>None\<close>, and an index beyond \<open>kspace_shape\<close> raises.
\<close>

fun fill_shape :: "nat \<Rightarrow> int option list \<Rightarrow> nat list \<Rightarrow> error + int list" where
  "fill_shape idx [] kspace_shape = Inr []"
| "fill_shape idx (x # xs) kspace_shape =
     bind_result
       (case x of
          Some n \<Rightarrow>
            if n \<noteq> 0 then Inr n
            else if idx < length kspace_shape then Inr (int (kspace_shape ! idx))
            else Inl IndexError
        | None \<Rightarrow>
            if idx < length kspace_shape then Inr (int (kspace_shape ! idx)) else Inl IndexError)
       (\<lambda>v. bind_result (fill_shape (Suc idx) xs kspace_shape) (\<lambda>vs. Inr (v # vs)))"

text \<open>The three ways the stage finds the shape it asks the primary mask for.\<close>

definition mask_shape :: "int option list option \<Rightarrow> sample \<Rightarrow> error + int list" where
  "mask_shape shp sample =
     (case shp of
        None \<Rightarrow>
          bind_result (dict_get sample ''kspace'') (\<lambda>k.
          bind_result (val_shape k) (\<lambda>ks. Inr (map int (tl ks))))
      | Some cfg \<Rightarrow>
          if cfg = [] then
            bind_result (dict_get sample ''kspace'') (\<lambda>k.
            bind_result (val_shape k) (\<lambda>ks. Inr (map int (tl ks))))
          else if None \<in> set cfg then
            bind_result (dict_get sample ''kspace'') (\<lambda>k.
            bind_result (val_shape k) (\<lambda>ks.
            bind_result (fill_shape 0 cfg (butlast (tl ks))) (\<lambda>filled. Inr (filled @ [2]))))
          else Inr (map the cfg @ [2]))"

definition CreateSamplingMask_call ::
  "'r mask_function \<Rightarrow> int option list option \<Rightarrow> bool \<Rightarrow> bool \<Rightarrow> 'r ops
     \<Rightarrow> 'r \<times> sample \<Rightarrow> error + 'r \<times> sample" where
  "CreateSamplingMask_call mask_func shp use_seed return_acs ops st =
     (case st of (r, sample) \<Rightarrow>
     bind_result (mask_shape shp sample) (\<lambda>mshape.
     bind_result (filename_seed ops use_seed sample) (\<lambda>seed.
       case mask_func r mshape seed False of (generated, r1) \<Rightarrow>
         bind_result
           (case map_of sample ''padding'' of
              None \<Rightarrow> Inr generated
            | Some pv \<Rightarrow> bind_result (as_tensor pv) (\<lambda>p. Inr (apply_padding ops generated p)))
           (\<lambda>sampling_mask.
              let sample1 = AList.update ''sampling_mask'' (Tensor sampling_mask) sample in
              if return_acs then
                bind_result (dict_get sample1 ''kspace'') (\<lambda>k.
                bind_result (val_shape k) (\<lambda>ks.
                  case mask_func r1 (map int (tl ks)) seed True of (acs, r2) \<Rightarrow>
                    Inr (r2, AList.update ''acs_mask'' (Tensor acs) sample1)))
              else Inr (r1, sample1)))))"

subsection \<open>ApplyMask and DeleteKeys\<close>

definition ApplyMask_call ::
  "string \<Rightarrow> string \<Rightarrow> string \<Rightarrow> 'r ops \<Rightarrow> sample \<Rightarrow> error + sample" where
  "ApplyMask_call sampling_mask_key input_kspace_key target_kspace_key ops sample =
     (if \<not> has_key sample input_kspace_key then Inl ValueError
      else bind_result (dict_get sample input_kspace_key) (\<lambda>kv.
        if \<not> has_key sample sampling_mask_key then Inl ValueError
        else bind_result (dict_get sample sampling_mask_key) (\<lambda>mv.
          bind_result (as_tensor kv) (\<lambda>input_kspace.
          bind_result (as_tensor mv) (\<lambda>sampling_mask.
            Inr (AList.update target_kspace_key
                   (Tensor (fst (apply_mask ops input_kspace sampling_mask))) sample))))))"

fun DeleteKeys_call :: "string list \<Rightarrow> sample \<Rightarrow> sample" where
  "DeleteKeys_call [] sample = sample"
| "DeleteKeys_call (k # ks) sample =
     DeleteKeys_call ks (if has_key sample k then AList.delete k sample else sample)"

subsection \<open>ComputeImage\<close>

text \<open>
  \<open>ReconstructionType\<close> is a string enumeration (\<open>class ReconstructionType(str, Enum)\<close>),
  so its members compare equal to their names and the stored type is a string; the
  constructor stores whatever it is given.
\<close>

definition ComputeImage_init :: "string \<Rightarrow> error + string" where
  "ComputeImage_init type_reconstruction = Inr type_reconstruction"

definition ComputeImage_call ::
  "string \<Rightarrow> string \<Rightarrow> fft_operator \<Rightarrow> string \<Rightarrow> 'r ops \<Rightarrow> sample \<Rightarrow> int \<Rightarrow> int list \<Rightarrow> int
     \<Rightarrow> error + sample" where
  "ComputeImage_call kspace_key target_key backward_op type_reconstruction ops sample
       coil_dim spatial_dims complex_dim =
     bind_result (dict_get sample kspace_key) (\<lambda>kv.
     bind_result (as_tensor kv) (\<lambda>kspace_data.
       let image = backward_op kspace_data (Some spatial_dims) in
       bind_result
         (if type_reconstruction \<in> set [''complex'', ''complex_mod''] then
            bind_result (torch_sum image coil_dim)
              (\<lambda>t. Inr (AList.update target_key (Tensor t) sample))
          else if type_reconstruction = ''rss'' then
            Inr (AList.update target_key (Tensor (root_sum_of_squares ops image coil_dim)) sample)
          else if \<not> has_key sample ''sensitivity_map'' then
            Inl (ItemNotFoundException ''sensitivity map'')
          else
            bind_result (dict_get sample ''sensitivity_map'') (\<lambda>sv.
            bind_result (as_tensor sv) (\<lambda>sm.
            bind_result
              (torch_sum (complex_multiplication ops (conjugate ops sm) image) coil_dim)
              (\<lambda>t. Inr (AList.update target_key (Tensor t) sample)))))
         (\<lambda>s1.
            if type_reconstruction \<in> set [''complex_mod'', ''sense_mod''] then
              bind_result (dict_get s1 target_key) (\<lambda>tv.
              bind_result (as_tensor tv) (\<lambda>t.
                Inr (AList.update target_key (Tensor (modulus ops t (Some complex_dim))) s1)))
            else Inr s1)))"

subsection \<open>EstimateBodyCoilImage\<close>

definition EstimateBodyCoilImage_call ::
  "'r mask_function \<Rightarrow> fft_operator \<Rightarrow> bool \<Rightarrow> 'r ops \<Rightarrow> 'r \<times> sample \<Rightarrow> int
     \<Rightarrow> error + 'r \<times> sample" where
  "EstimateBodyCoilImage_call mask_func backward_op use_seed ops st coil_dim =
     (case st of (r, sample) \<Rightarrow>
     bind_result (dict_get sample ''kspace'') (\<lambda>kv.
     bind_result (filename_seed ops use_seed sample) (\<lambda>seed.
     bind_result (val_shape kv) (\<lambda>ks.
       case mask_func r (map int (tl ks)) seed True of (acs_mask, r') \<Rightarrow>
         bind_result (as_tensor kv) (\<lambda>kspace.
         bind_result (torch_mul acs_mask kspace) (\<lambda>masked.
           let acs_image = backward_op masked None
           in Inr (r', AList.update ''body_coil_image''
                         (Tensor (root_sum_of_squares ops acs_image coil_dim)) sample)))))))"

subsection \<open>EstimateSensitivityMap\<close>

definition EstimateSensitivityMap_init :: "string option \<Rightarrow> error + string option" where
  "EstimateSensitivityMap_init type_of_map =
     (if type_of_map \<notin> set [Some ''unit'', Some ''rss_estimate''] then Inl ValueError
      else Inr type_of_map)"

text \<open>\<open>torch.linspace(-1, 1, n)\<close>.\<close>

definition torch_linspace :: "nat \<Rightarrow> real list" where
  "torch_linspace n =
     (if n = 1 then [-1] else map (\<lambda>i. -1 + 2 * real i / real (n - 1)) [0..<n])"

definition estimate_acs_image ::
  "string \<Rightarrow> fft_operator \<Rightarrow> real option \<Rightarrow> sample \<Rightarrow> int \<Rightarrow> error + real tensor" where
  "estimate_acs_image kspace_key backward_op gaussian_sigma sample width_dim =
     bind_result (dict_get sample kspace_key) (\<lambda>kv.
     bind_result (as_tensor kv) (\<lambda>kspace_data.
       if shape kspace_data = [] then Inl IndexError
       else
         bind_result
           (case gaussian_sigma of
              None \<Rightarrow>
                bind_result (dict_get sample ''acs_mask'') (\<lambda>av.
                bind_result (as_tensor av) (\<lambda>acs_mask. torch_mul kspace_data acs_mask))
            | Some sigma \<Rightarrow>
                if sigma = 0 then
                  bind_result (dict_get sample ''acs_mask'') (\<lambda>av.
                  bind_result (as_tensor av) (\<lambda>acs_mask. torch_mul kspace_data acs_mask))
                else
                  (case py_index width_dim (length (shape kspace_data)) of
                     None \<Rightarrow> Inl IndexError
                   | Some w \<Rightarrow>
                       let n = shape kspace_data ! w;
                           gaussian_mask =
                             \<lparr>shape = (replicate (length (shape kspace_data)) 1)[w := n],
                              data = map (\<lambda>g. exp (- ((g / sigma) ^ 2))) (torch_linspace n)\<rparr>
                       in bind_result (dict_get sample ''acs_mask'') (\<lambda>av.
                          bind_result (as_tensor av) (\<lambda>acs_mask.
                          bind_result (torch_mul kspace_data acs_mask) (\<lambda>masked.
                            torch_mul masked gaussian_mask)))))
           (\<lambda>kspace_acs. Inr (backward_op kspace_acs None))))"

definition EstimateSensitivityMap_call ::
  "string \<Rightarrow> fft_operator \<Rightarrow> string option \<Rightarrow> real option \<Rightarrow> 'r ops \<Rightarrow> sample \<Rightarrow> int
     \<Rightarrow> error + sample" where
  "EstimateSensitivityMap_call kspace_key backward_op type_of_map gaussian_sigma ops sample
       coil_dim =
     (if type_of_map = Some ''unit'' then
        bind_result (dict_get sample kspace_key) (\<lambda>kv.
        bind_result (as_tensor kv) (\<lambda>kspace.
          case assert_complex ops kspace of
            Some e \<Rightarrow> Inl e
          | None \<Rightarrow>
              if shape kspace = [] \<or> last (shape kspace) = 0 then Inl IndexError
              else
                let sensitivity_map =
                      \<lparr>shape = shape kspace,
                       data = map (\<lambda>i. if i mod last (shape kspace) = 0 then 1 else 0)
                                [0..<prod_list (shape kspace)]\<rparr>
                in Inr (AList.update ''sensitivity_map'' (Tensor sensitivity_map) sample)))
      else if type_of_map = Some ''rss_estimate'' then
        bind_result (estimate_acs_image kspace_key backward_op gaussian_sigma sample (-2))
          (\<lambda>acs_image.
             bind_result (torch_unsqueeze (root_sum_of_squares ops acs_image coil_dim) 0) (\<lambda>u1.
             bind_result (torch_unsqueeze u1 (-1)) (\<lambda>acs_image_rss.
               Inr (AList.update ''sensitivity_map''
                      (Tensor (safe_divide ops acs_image acs_image_rss)) sample))))
      else Inr sample)"

subsection \<open>ComputeScalingFactor\<close>

text \<open>
  The rank \<open>int((1 - self.percentile) * tview.size()[0]) + 1\<close>, for the percentile \<open>p\<close>
  and a view of \<open>n\<close> elements: a float subtraction, a float multiplication by the
  converted integer and a truncation, in double precision.
\<close>

definition percentile_rank :: "py_float \<Rightarrow> nat \<Rightarrow> error + int" where
  "percentile_rank p n =
     bind_result (py_float_of_int (int n)) (\<lambda>size.
     bind_result (py_int (py_float_mul (py_float_sub (Finite 1 0) p) size)) (\<lambda>i. Inr (i + 1)))"

text \<open>
  \<open>if self.percentile:\<close> is false for \<open>None\<close> and for the float zero. The scaling factor
  is the negated \<open>torch.kthvalue\<close> of the negated magnitudes at that rank.
\<close>

definition ComputeScalingFactor_call ::
  "string option \<Rightarrow> py_float option \<Rightarrow> string \<Rightarrow> 'r ops \<Rightarrow> sample \<Rightarrow> error + sample" where
  "ComputeScalingFactor_call normalize_key percentile scaling_factor_key ops sample =
     bind_result
       (case normalize_key of
          None \<Rightarrow> Inr (Float 1)
        | Some nk \<Rightarrow>
            if nk = ''scaling_factor'' then dict_get sample ''scaling_factor''
            else if nk = [] then Inr (Float 1)
            else
              bind_result (dict_get sample nk) (\<lambda>v.
              bind_result (as_tensor v) (\<lambda>dat.
                case percentile of
                  None \<Rightarrow> bind_result (torch_max (modulus ops dat None)) (\<lambda>m. Inr (Tensor m))
                | Some p \<Rightarrow>
                    if \<not> py_float_truthy p then
                      bind_result (torch_max (modulus ops dat None)) (\<lambda>m. Inr (Tensor m))
                    else
                      let tview = map (\<lambda>x. -1 * x) (data (modulus ops dat None))
                      in bind_result (percentile_rank p (length tview)) (\<lambda>k.
                         bind_result (torch_kthvalue tview k)
                           (\<lambda>kth. Inr (Tensor (tensor_map (\<lambda>x. -1 * x) kth)))))))
       (\<lambda>scaling_factor. Inr (AList.update scaling_factor_key scaling_factor sample))"

subsection \<open>Normalize\<close>

definition Normalize_init :: "string list option \<Rightarrow> string list" where
  "Normalize_init keys_to_normalize =
     (case keys_to_normalize of
        None \<Rightarrow> [''masked_kspace'', ''target'', ''kspace'', ''body_coil_image'',
                 ''initial_image'', ''initial_kspace'']
      | Some ks \<Rightarrow> ks)"

text \<open>
  The loop \<open>for key in sample.keys(): ...\<close> of \<open>Normalize.__call__\<close>, over the keys the
  sample has when the loop starts; the loop only assigns to keys that exist.
\<close>

fun normalize_loop ::
  "'r ops \<Rightarrow> string list \<Rightarrow> string list \<Rightarrow> val \<Rightarrow> sample \<Rightarrow> error + sample" where
  "normalize_loop ops [] keys_to_normalize scaling_factor sample = Inr sample"
| "normalize_loop ops (k # ks) keys_to_normalize scaling_factor sample =
     (if k \<notin> set keys_to_normalize
      then normalize_loop ops ks keys_to_normalize scaling_factor sample
      else
        bind_result (dict_get sample k) (\<lambda>v.
        bind_result (py_truediv ops v scaling_factor) (\<lambda>v'.
          normalize_loop ops ks keys_to_normalize scaling_factor (AList.update k v' sample))))"

definition Normalize_call :: "string \<Rightarrow> string list \<Rightarrow> 'r ops \<Rightarrow> sample \<Rightarrow> error + sample" where
  "Normalize_call scaling_factor_key keys_to_normalize ops sample =
     (let scaling_factor = (case map_of sample scaling_factor_key of None \<Rightarrow> NoneVal | Some v \<Rightarrow> v)
      in bind_result (py_truthy scaling_factor) (\<lambda>truth.
           if truth then
             bind_result
               (normalize_loop ops (map fst sample) keys_to_normalize scaling_factor sample)
               (\<lambda>s1. Inr (AList.update ''scaling_diff'' (Float 0) s1))
           else Inr sample))"

subsection \<open>PadCoilDimension\<close>

text \<open>
  The fields are \<open>num_coils\<close> (the constructor's \<open>pad_coils\<close>), \<open>key\<close> and
  \<open>coil_dim\<close>. The message of the \<open>ValueError\<close> is an f-string that reads
  \<open>sample['filename']\<close>, so a sample without a filename raises \<open>KeyError\<close> there.
\<close>

definition PadCoilDimension_call :: "int option \<Rightarrow> string \<Rightarrow> int \<Rightarrow> sample \<Rightarrow> error + sample" where
  "PadCoilDimension_call num_coils key coil_dim sample =
     (case num_coils of
        None \<Rightarrow> Inr sample
      | Some n \<Rightarrow>
          if n = 0 then Inr sample
          else if \<not> has_key sample key then Inr sample
          else
            bind_result (dict_get sample key) (\<lambda>v.
            bind_result (val_shape v) (\<lambda>shp.
              case py_index coil_dim (length shp) of
                None \<Rightarrow> Inl IndexError
              | Some d \<Rightarrow>
                  let curr_num_coils = int (shp ! d) in
                  if curr_num_coils > n then
                    bind_result (dict_get sample ''filename'') (\<lambda>name. Inl ValueError)
                  else if curr_num_coils = n then Inr sample
                  else
                    bind_result (as_tensor v) (\<lambda>dat.
                      let padding_data_shape = shp[d := nat (max (n - curr_num_coils) 0)];
                          zeros = torch_zeros padding_data_shape
                      in Inr (AList.update key (Tensor (torch_cat zeros dat d)) sample)))))"

section \<open>Stage objects, Compose and the pipeline builder\<close>

text \<open>
  A stage object is its class together with the fields its constructor stored, in the
  order of the constructor's parameters.
\<close>

datatype 'r stage =
    ToTensor
  | CropKspace val fft_operator fft_operator bool "string option" "bool option" "real list option"
  | ComputeZeroPadding string string real
  | ApplyZeroPadding string string
  | CreateSamplingMask "'r mask_function" "int option list option" bool bool
  | EstimateSensitivityMap string fft_operator "string option" "real option"
  | DeleteKeys "string list"
  | ComputeImage string string fft_operator string
  | ApplyMask string string string
  | EstimateBodyCoilImage "'r mask_function" fft_operator bool
  | ComputeScalingFactor "string option" "py_float option" string
  | Normalize string "string list"
  | PadCoilDimension "int option" string int

text \<open>
  The constructors: those that can raise, the one that fills in a default, and
  \<open>ToTensor()\<close>, a class without \<open>__init__\<close>.
\<close>

definition new_ToTensor :: "error + 'r stage" where
  "new_ToTensor = Inr ToTensor"

definition new_CropKspace ::
  "val \<Rightarrow> fft_operator \<Rightarrow> fft_operator \<Rightarrow> bool \<Rightarrow> string option \<Rightarrow> bool option
     \<Rightarrow> real list option \<Rightarrow> error + 'r stage" where
  "new_CropKspace crop_arg forward_op backward_op image_space_center_crop
       random_crop_sampler_type random_crop_sampler_use_seed random_crop_sampler_gaussian_sigma =
     bind_result (CropKspace_init crop_arg) (\<lambda>c.
       Inr (CropKspace c forward_op backward_op image_space_center_crop
              random_crop_sampler_type random_crop_sampler_use_seed
              random_crop_sampler_gaussian_sigma))"

definition new_EstimateSensitivityMap ::
  "string \<Rightarrow> fft_operator \<Rightarrow> string option \<Rightarrow> real option \<Rightarrow> error + 'r stage" where
  "new_EstimateSensitivityMap kspace_key backward_op type_of_map gaussian_sigma =
     bind_result (EstimateSensitivityMap_init type_of_map) (\<lambda>t.
       Inr (EstimateSensitivityMap kspace_key backward_op t gaussian_sigma))"

definition new_ComputeImage ::
  "string \<Rightarrow> string \<Rightarrow> fft_operator \<Rightarrow> string \<Rightarrow> error + 'r stage" where
  "new_ComputeImage kspace_key target_key backward_op type_reconstruction =
     bind_result (ComputeImage_init type_reconstruction) (\<lambda>t.
       Inr (ComputeImage kspace_key target_key backward_op t))"

definition new_Normalize :: "string \<Rightarrow> string list option \<Rightarrow> 'r stage" where
  "new_Normalize scaling_factor_key keys_to_normalize =
     Normalize scaling_factor_key (Normalize_init keys_to_normalize)"

text \<open>
  Calling a stage object with a sample, as \<open>Compose\<close> does: \<open>transform(sample)\<close>, so the
  further parameters of a \<open>__call__\<close> take their defaults (\<open>coil_dim=0\<close>,
  \<open>spatial_dims=(1, 2)\<close>, \<open>complex_dim=-1\<close>).
\<close>

definition with_state :: "'r \<Rightarrow> error + sample \<Rightarrow> error + 'r \<times> sample" where
  "with_state r m = bind_result m (\<lambda>s. Inr (r, s))"

fun stage_call :: "'r ops \<Rightarrow> 'r stage \<Rightarrow> 'r \<times> sample \<Rightarrow> error + 'r \<times> sample" where
  "stage_call ops ToTensor (r, s) = with_state r (ToTensor_call ops s)"
| "stage_call ops (CropKspace c fo bo cc st us sg) (r, s) =
     CropKspace_call c fo bo cc st us sg ops (r, s)"
| "stage_call ops (ComputeZeroPadding kk pk eps) (r, s) =
     with_state r (ComputeZeroPadding_call kk pk eps ops s 0)"
| "stage_call ops (ApplyZeroPadding kk pk) (r, s) =
     with_state r (ApplyZeroPadding_call kk pk ops s)"
| "stage_call ops (CreateSamplingMask mf shp us ra) (r, s) =
     CreateSamplingMask_call mf shp us ra ops (r, s)"
| "stage_call ops (EstimateSensitivityMap kk bo tm gs) (r, s) =
     with_state r (EstimateSensitivityMap_call kk bo tm gs ops s 0)"
| "stage_call ops (DeleteKeys ks) (r, s) = Inr (r, DeleteKeys_call ks s)"
| "stage_call ops (ComputeImage kk tk bo ty) (r, s) =
     with_state r (ComputeImage_call kk tk bo ty ops s 0 [1, 2] (-1))"
| "stage_call ops (ApplyMask mk ik tk) (r, s) = with_state r (ApplyMask_call mk ik tk ops s)"
| "stage_call ops (EstimateBodyCoilImage mf bo us) (r, s) =
     EstimateBodyCoilImage_call mf bo us ops (r, s) 0"
| "stage_call ops (ComputeScalingFactor nk pc sk) (r, s) =
     with_state r (ComputeScalingFactor_call nk pc sk ops s)"
| "stage_call ops (Normalize sk ks) (r, s) = with_state r (Normalize_call sk ks ops s)"
| "stage_call ops (PadCoilDimension nc k cd) (r, s) =
     with_state r (PadCoilDimension_call nc k cd s)"

text \<open>\<open>Compose.__call__\<close>: \<open>for transform in self.transforms: sample = transform(sample)\<close>.\<close>

fun Compose_call :: "'r ops \<Rightarrow> 'r stage list \<Rightarrow> 'r \<times> sample \<Rightarrow> error + 'r \<times> sample" where
  "Compose_call ops [] st = Inr st"
| "Compose_call ops (transform # transforms) st =
     bind_result (stage_call ops transform st) (Compose_call ops transforms)"

text \<open>
  The arguments of \<open>build_mri_transforms\<close>, at their annotated types: \<open>crop\<close> is
  \<open>None\<close>, a tuple of ints or a string.
\<close>

datatype crop_spec = CropShape "int list" | CropKey string

definition crop_val :: "crop_spec \<Rightarrow> val" where
  "crop_val c = (case c of CropShape xs \<Rightarrow> IntTuple xs | CropKey k \<Rightarrow> Str k)"

text \<open>\<open>if crop:\<close> holds for a non-empty tuple and a non-empty string.\<close>

definition crop_truthy :: "crop_spec option \<Rightarrow> bool" where
  "crop_truthy c =
     (case c of None \<Rightarrow> False | Some (CropShape xs) \<Rightarrow> xs \<noteq> [] | Some (CropKey k) \<Rightarrow> k \<noteq> [])"

text \<open>\<open>shape=(None if (isinstance(crop, str)) else crop)\<close>.\<close>

definition sampling_mask_shape_arg :: "crop_spec option \<Rightarrow> int option list option" where
  "sampling_mask_shape_arg c =
     (case c of
        None \<Rightarrow> None
      | Some (CropKey k) \<Rightarrow> None
      | Some (CropShape xs) \<Rightarrow> Some (map Some xs))"

record 'r build_args =
  forward_operator :: fft_operator
  backward_operator :: fft_operator
  mask_func :: "'r mask_function option"
  crop :: "crop_spec option"
  crop_type :: "string option"
  image_center_crop :: bool
  padding_eps :: real
  estimate_sensitivity_maps :: bool
  estimate_body_coil_image :: bool
  sensitivity_maps_gaussian :: "real option"
  delete_acs_mask :: bool
  delete_kspace :: bool
  image_recon_type :: string
  pad_coils :: "int option"
  scaling_key :: "string option"
  scale_percentile :: "py_float option"
  use_seed :: bool

definition build_mri_transforms :: "'r build_args \<Rightarrow> error + 'r stage list" where
  "build_mri_transforms a =
     (let mri_transforms = [ToTensor] in
      bind_result
        (case crop a of
           None \<Rightarrow> Inr mri_transforms
         | Some c \<Rightarrow>
             if crop_truthy (crop a) then
               bind_result
                 (new_CropKspace (crop_val c) (forward_operator a) (backward_operator a)
                    (image_center_crop a) (crop_type a) (Some (use_seed a)) None)
                 (\<lambda>stage. Inr (mri_transforms @ [stage]))
             else Inr mri_transforms)
        (\<lambda>mri_transforms.
           let mri_transforms =
                 (case mask_func a of
                    None \<Rightarrow> mri_transforms
                  | Some mf \<Rightarrow>
                      mri_transforms @
                        [ComputeZeroPadding ''kspace'' ''padding'' (padding_eps a),
                         ApplyZeroPadding ''kspace'' ''padding'',
                         CreateSamplingMask mf (sampling_mask_shape_arg (crop a)) (use_seed a)
                           (estimate_sensitivity_maps a)])
           in bind_result
                (new_EstimateSensitivityMap ''kspace'' (backward_operator a)
                   (Some (if \<not> estimate_sensitivity_maps a then ''unit'' else ''rss_estimate''))
                   (sensitivity_maps_gaussian a))
                (\<lambda>stage.
                   let mri_transforms = mri_transforms @ [stage];
                       mri_transforms =
                         (if delete_acs_mask a then mri_transforms @ [DeleteKeys [''acs_mask'']]
                          else mri_transforms)
                   in bind_result
                        (new_ComputeImage ''kspace'' ''target'' (backward_operator a)
                           (image_recon_type a))
                        (\<lambda>compute_image.
                   let mri_transforms =
                         mri_transforms @
                           [compute_image,
                            ApplyMask ''sampling_mask'' ''kspace'' ''masked_kspace''];
                       mri_transforms =
                         (case mask_func a of
                            None \<Rightarrow> mri_transforms
                          | Some mf \<Rightarrow>
                              if estimate_body_coil_image a then
                                mri_transforms @
                                  [EstimateBodyCoilImage mf (backward_operator a) (use_seed a)]
                              else mri_transforms);
                       mri_transforms =
                         mri_transforms @
                           [ComputeScalingFactor (scaling_key a) (scale_percentile a)
                              ''scaling_factor'',
                            new_Normalize ''scaling_factor'' None,
                            PadCoilDimension (pad_coils a) ''masked_kspace'' 0,
                            PadCoilDimension (pad_coils a) ''sensitivity_map'' 0];
                       mri_transforms =
                         (if delete_kspace a then mri_transforms @ [DeleteKeys [''kspace'']]
                          else mri_transforms)
                   in Inr mri_transforms))))"

section \<open>What the specification says, and reference collaborators\<close>




text \<open>
  Reference collaborators, used where a theorem is evaluated at a concrete input. The state
  of the random generators is a counter together with the history of the mask function's
  calls, each call with the shape, the seed and the \<open>return_acs\<close> flag it was given.
\<close>

type_synonym ref_state = "nat \<times> (int list \<times> int list option \<times> bool) list"

text \<open>
  Modelled from the spec: \<open>T.modulus\<close>, the magnitude along the complex axis (the last one
  unless an axis is given): the square root of the sum of the squares of the real and the
  imaginary part.
\<close>

definition ref_modulus :: "real tensor \<Rightarrow> int option \<Rightarrow> real tensor" where
  "ref_modulus t ax =
     (case py_index (case ax of None \<Rightarrow> -1 | Some a \<Rightarrow> a) (length (shape t)) of
        None \<Rightarrow> t
      | Some d \<Rightarrow> tensor_map sqrt (sum_axis (tensor_map (\<lambda>x. x * x) t) d))"

text \<open>
  Modelled from the spec: \<open>T.root_sum_of_squares\<close>, the square root of the sum over the
  coil axis of the squared magnitudes.
\<close>

definition ref_root_sum_of_squares :: "real tensor \<Rightarrow> int \<Rightarrow> real tensor" where
  "ref_root_sum_of_squares t coil =
     (case py_index coil (length (shape t)) of
        None \<Rightarrow> t
      | Some d \<Rightarrow>
          tensor_map sqrt
            (sum_axis (sum_axis (tensor_map (\<lambda>x. x * x) t) (length (shape t) - 1)) d))"

text \<open>
  Modelled from the spec: \<open>T.conjugate\<close> and \<open>T.complex_multiplication\<close> on tensors whose
  last axis holds the real and the imaginary part.
\<close>

fun conj_pairs :: "real list \<Rightarrow> real list" where
  "conj_pairs (re # im # rest) = re # - im # conj_pairs rest"
| "conj_pairs xs = xs"

fun mul_pairs :: "real list \<Rightarrow> real list \<Rightarrow> real list" where
  "mul_pairs (a # b # xs) (c # d # ys) = (a * c - b * d) # (a * d + b * c) # mul_pairs xs ys"
| "mul_pairs xs ys = []"

definition ref_conjugate :: "real tensor \<Rightarrow> real tensor" where
  "ref_conjugate t = t\<lparr>data := conj_pairs (data t)\<rparr>"

definition ref_complex_multiplication :: "real tensor \<Rightarrow> real tensor \<Rightarrow> real tensor" where
  "ref_complex_multiplication a b = b\<lparr>data := mul_pairs (data a) (data b)\<rparr>"

text \<open>
  Modelled from the spec: \<open>T.apply_padding\<close> multiplies by the complement of the padding
  mask, \<open>T.apply_mask\<close> multiplies by the mask (and returns the mask as well), and
  \<open>T.safe_divide\<close> divides and gives zero where the denominator is zero.
\<close>

definition ref_apply_padding :: "real tensor \<Rightarrow> real tensor \<Rightarrow> real tensor" where
  "ref_apply_padding a padding =
     (case torch_mul a (tensor_map (\<lambda>x. 1 - x) padding) of Inr t \<Rightarrow> t | Inl e \<Rightarrow> a)"

definition ref_apply_mask :: "real tensor \<Rightarrow> real tensor \<Rightarrow> real tensor \<times> real tensor" where
  "ref_apply_mask k m = (case torch_mul k m of Inr t \<Rightarrow> (t, m) | Inl e \<Rightarrow> (k, m))"

definition ref_safe_divide :: "real tensor \<Rightarrow> real tensor \<Rightarrow> real tensor" where
  "ref_safe_divide a b =
     (case torch_binop (\<lambda>x y. if y = 0 then 0 else x / y) a b of Inr t \<Rightarrow> t | Inl e \<Rightarrow> a)"

text \<open>
  Modelled from the spec: \<open>T.to_tensor\<close> turns a complex array into a tensor with the real
  and the imaginary part on a new last axis; \<open>assert_complex\<close> accepts a tensor whose last
  axis has size 2.
\<close>

definition ref_to_tensor :: "complex tensor \<Rightarrow> real tensor" where
  "ref_to_tensor a = \<lparr>shape = shape a @ [2], data = concat (map (\<lambda>z. [Re z, Im z]) (data a))\<rparr>"

definition ref_assert_complex :: "real tensor \<Rightarrow> error option" where
  "ref_assert_complex t = (if shape t \<noteq> [] \<and> last (shape t) = 2 then None else Some ValueError)"

text \<open>
  Modelled from the spec: the croppers cut the two axes before the complex axis (height and
  width) to the crop shape: \<open>T.complex_center_crop\<close> around the centre,
  \<open>T.complex_random_crop\<close> at an offset that the seed fixes when there is one and the
  generator's counter otherwise.
\<close>

definition crop_at :: "real tensor \<Rightarrow> int list \<Rightarrow> nat \<Rightarrow> nat \<Rightarrow> real tensor" where
  "crop_at t crop_shape off_h off_w =
     (let n = length (shape t)
      in torch_narrow (torch_narrow t (n - 3) off_h (nat (crop_shape ! 0)))
           (n - 2) off_w (nat (crop_shape ! 1)))"

definition ref_complex_center_crop :: "real tensor list \<Rightarrow> int list \<Rightarrow> bool \<Rightarrow> real tensor" where
  "ref_complex_center_crop data_list crop_shape contiguous =
     (case data_list of
        [t] \<Rightarrow>
          (let n = length (shape t)
           in crop_at t crop_shape ((shape t ! (n - 3) - nat (crop_shape ! 0)) div 2)
                ((shape t ! (n - 2) - nat (crop_shape ! 1)) div 2))
      | _ \<Rightarrow> torch_zeros [])"

definition ref_complex_random_crop ::
  "ref_state \<Rightarrow> real tensor list \<Rightarrow> int list \<Rightarrow> bool \<Rightarrow> int list option \<Rightarrow> string option
     \<Rightarrow> real list option \<Rightarrow> real tensor \<times> ref_state" where
  "ref_complex_random_crop r data_list crop_shape contiguous seed sampler sigma =
     (case data_list of
        [t] \<Rightarrow>
          (let n = length (shape t);
               entropy = (case seed of Some sd \<Rightarrow> nat (sum_list sd) | None \<Rightarrow> fst r)
           in (crop_at t crop_shape
                 (entropy mod (shape t ! (n - 3) - nat (crop_shape ! 0) + 1))
                 (entropy mod (shape t ! (n - 2) - nat (crop_shape ! 1) + 1)),
               (Suc (fst r), snd r)))
      | _ \<Rightarrow> (torch_zeros [], r))"

text \<open>The offsets at which \<open>ref_complex_random_crop\<close> cuts when it is given a seed.\<close>

definition ref_crop_offsets ::
  "nat list \<Rightarrow> int list \<Rightarrow> int list \<Rightarrow> string option \<Rightarrow> real list option \<Rightarrow> nat \<times> nat" where
  "ref_crop_offsets shp crop_shape sd sampler sigma =
     (nat (sum_list sd) mod (shp ! (length shp - 3) - nat (crop_shape ! 0) + 1),
      nat (sum_list sd) mod (shp ! (length shp - 2) - nat (crop_shape ! 1) + 1))"

definition ref_ops :: "ref_state ops" where
  "ref_ops =
     \<lparr>to_tensor = ref_to_tensor,
      from_numpy = (\<lambda>a. tensor_map Re a),
      to_byte = (\<lambda>t. t),
      str_of_object = (\<lambda>v. ''object''),
      apply_padding = ref_apply_padding,
      apply_mask = ref_apply_mask,
      complex_center_crop = ref_complex_center_crop,
      complex_random_crop = ref_complex_random_crop,
      modulus = ref_modulus,
      root_sum_of_squares = ref_root_sum_of_squares,
      complex_multiplication = ref_complex_multiplication,
      conjugate = ref_conjugate,
      safe_divide = ref_safe_divide,
      assert_complex = ref_assert_complex,
      mixed_truediv = (\<lambda>x y. Inl TypeError)\<rparr>"

text \<open>
  Modelled from the spec: a mask generator, deterministic given the shape and the seed. The
  mask has the shape \<open>(1, height, width, 1)\<close>; the primary mask keeps every second column,
  starting at a column the seed (or, unseeded, the counter) selects, and the autocalibration
  mask keeps everything. Each call is recorded in the history.
\<close>

definition ref_mask_func :: "ref_state mask_function" where
  "ref_mask_func r shp seed return_acs =
     (let dims = map nat (butlast shp);
          entropy = (case seed of Some sd \<Rightarrow> nat (sum_list sd) | None \<Rightarrow> fst r);
          width = (if dims = [] then 1 else last dims)
      in (\<lparr>shape = 1 # dims @ [1],
           data = map (\<lambda>i. if return_acs \<or> (i mod width + entropy) mod 2 = 0 then 1 else 0)
                    [0..<prod_list dims]\<rparr>,
          (Suc (fst r), snd r @ [(shp, seed, return_acs)])))"

text \<open>The operators of the examples leave the data as it is.\<close>

definition id_operator :: fft_operator where
  "id_operator t dims = t"

subsection \<open>Concrete inputs\<close>

text \<open>Samples and configurations at which the theorems below are evaluated.\<close>

definition coil_sample :: sample where
  "coil_sample =
     [(''masked_kspace'', Tensor \<lparr>shape = [2, 1, 2], data = [1, 2, 3, 4]\<rparr>),
      (''filename'', Str ''a.h5'')]"

definition norm_sample :: sample where
  "norm_sample =
     [(''kspace'', Tensor \<lparr>shape = [1, 2], data = [2, 4]\<rparr>),
      (''filename'', Str ''a.h5''),
      (''scaling_factor'', Tensor \<lparr>shape = [], data = [2]\<rparr>)]"

definition array_sample :: sample where
  "array_sample =
     [(''kspace'', NDArray \<lparr>shape = [1, 2], data = [2, 4 * \<i>]\<rparr>),
      (''scaling_factor'', Float 2),
      (''filename'', Str ''a.h5'')]"

definition zero_factor_sample :: sample where
  "zero_factor_sample =
     [(''kspace'', Tensor \<lparr>shape = [1, 2], data = [2, 4]\<rparr>),
      (''scaling_factor'', Float 0)]"



definition image_sample :: sample where
  "image_sample =
     [(''kspace'', Tensor \<lparr>shape = [2, 1, 1, 2], data = [1, 0, 0, 0]\<rparr>),
      (''sensitivity_map'', Tensor \<lparr>shape = [2, 1, 1, 2], data = [0, 1, 1, 0]\<rparr>),
      (''filename'', Str ''a.h5'')]"

definition sense_sample :: sample where
  "sense_sample =
     [(''kspace'', Tensor \<lparr>shape = [2, 1, 1, 2], data = [1, 0, 2, 0]\<rparr>),
      (''sensitivity_map'', Tensor \<lparr>shape = [2, 1, 1, 2], data = [0, 1, 1, 0]\<rparr>),
      (''filename'', Str ''a.h5'')]"

definition image_sample_no_map :: sample where
  "image_sample_no_map =
     [(''kspace'', Tensor \<lparr>shape = [2, 1, 1, 2], data = [1, 0, 0, 0]\<rparr>),
      (''filename'', Str ''a.h5'')]"

definition one_dim_sample :: sample where
  "one_dim_sample =
     [(''kspace'', NDArray \<lparr>shape = [2, 3], data = [1, 1, 1, 1, 1, 1]\<rparr>),
      (''filename'', Str ''a.h5'')]"

definition two_dim_sample :: sample where
  "two_dim_sample =
     [(''kspace'', NDArray \<lparr>shape = [1, 1, 2], data = [1, \<i>]\<rparr>),
      (''filename'', Str ''a.h5'')]"

subsection \<open>The stage order of the specification\<close>

text \<open>
  The kinds of stage the specification lists, the kind of each stage object, and the
  canonical order as a function of which optional stages are present.
  \<open>claimed_stage_order\<close> includes the body-coil stage whenever the body-coil flag is set;
  \<open>built_stage_order\<close> includes it when also a mask function is configured.
\<close>

datatype stage_kind =
    Materialize
  | Crop
  | PaddingDetect
  | PaddingApply
  | MaskCreate
  | SensitivityEstimate
  | DeleteFields "string list"
  | ComputeTarget
  | MaskApply
  | BodyCoilEstimate
  | ScalingFactor
  | NormalizeFields
  | PadCoils string

fun kind_of :: "'r stage \<Rightarrow> stage_kind" where
  "kind_of ToTensor = Materialize"
| "kind_of (CropKspace c fo bo cc st us sg) = Crop"
| "kind_of (ComputeZeroPadding kk pk eps) = PaddingDetect"
| "kind_of (ApplyZeroPadding kk pk) = PaddingApply"
| "kind_of (CreateSamplingMask mf shp us ra) = MaskCreate"
| "kind_of (EstimateSensitivityMap kk bo tm gs) = SensitivityEstimate"
| "kind_of (DeleteKeys ks) = DeleteFields ks"
| "kind_of (ComputeImage kk tk bo ty) = ComputeTarget"
| "kind_of (ApplyMask mk ik tk) = MaskApply"
| "kind_of (EstimateBodyCoilImage mf bo us) = BodyCoilEstimate"
| "kind_of (ComputeScalingFactor nk pc sk) = ScalingFactor"
| "kind_of (Normalize sk ks) = NormalizeFields"
| "kind_of (PadCoilDimension nc k cd) = PadCoils k"

definition stage_order :: "bool \<Rightarrow> bool \<Rightarrow> bool \<Rightarrow> bool \<Rightarrow> bool \<Rightarrow> stage_kind list" where
  "stage_order with_crop with_mask with_acs_deletion with_body_coil with_kspace_deletion =
     [Materialize]
     @ (if with_crop then [Crop] else [])
     @ (if with_mask then [PaddingDetect, PaddingApply, MaskCreate] else [])
     @ [SensitivityEstimate]
     @ (if with_acs_deletion then [DeleteFields [''acs_mask'']] else [])
     @ [ComputeTarget, MaskApply]
     @ (if with_body_coil then [BodyCoilEstimate] else [])
     @ [ScalingFactor, NormalizeFields, PadCoils ''masked_kspace'', PadCoils ''sensitivity_map'']
     @ (if with_kspace_deletion then [DeleteFields [''kspace'']] else [])"

definition claimed_stage_order :: "'r build_args \<Rightarrow> stage_kind list" where
  "claimed_stage_order a =
     stage_order (crop_truthy (crop a)) (mask_func a \<noteq> None) (delete_acs_mask a)
       (estimate_body_coil_image a) (delete_kspace a)"

definition built_stage_order :: "'r build_args \<Rightarrow> stage_kind list" where
  "built_stage_order a =
     stage_order (crop_truthy (crop a)) (mask_func a \<noteq> None) (delete_acs_mask a)
       (estimate_body_coil_image a \<and> mask_func a \<noteq> None) (delete_kspace a)"

definition full_args :: "ref_state build_args" where
  "full_args =
     \<lparr>forward_operator = id_operator, backward_operator = id_operator,
      mask_func = Some ref_mask_func, crop = Some (CropShape [1, 1]), crop_type = Some ''uniform'',
      image_center_crop = True, padding_eps = 1 / 10000, estimate_sensitivity_maps = True,
      estimate_body_coil_image = True, sensitivity_maps_gaussian = None, delete_acs_mask = True,
      delete_kspace = True, image_recon_type = ''rss'', pad_coils = None,
      scaling_key = Some ''masked_kspace'',
      scale_percentile = Some (Finite 4458563631096791 (- 52)), use_seed = True\<rparr>"

definition body_coil_args :: "ref_state build_args" where
  "body_coil_args = full_args\<lparr>mask_func := None, crop := None\<rparr>"

definition padded_sample_a :: sample where
  "padded_sample_a =
     [(''kspace'', Tensor \<lparr>shape = [1, 1, 2, 2], data = [1, 0, 1, 0]\<rparr>),
      (''filename'', Str ''a.h5''),
      (''padding'', Tensor \<lparr>shape = [1, 1, 2, 1], data = [0, 0]\<rparr>)]"

definition padded_sample_b :: sample where
  "padded_sample_b =
     [(''kspace'', Tensor \<lparr>shape = [1, 1, 2, 2], data = [1, 0, 1, 0]\<rparr>),
      (''filename'', Str ''a.h5''),
      (''padding'', Tensor \<lparr>shape = [1, 1, 2, 1], data = [1, 0]\<rparr>)]"

definition padded_sample_c :: sample where
  "padded_sample_c =
     [(''kspace'', Tensor \<lparr>shape = [1, 1, 2, 2], data = [3, 0, 0, 2]\<rparr>),
      (''filename'', Str ''a.h5''),
      (''padding'', Tensor \<lparr>shape = [1, 1, 2, 1], data = [0, 0]\<rparr>)]"

subsection \<open>Running a prefix of the built pipeline\<close>

text \<open>
  \<open>build_mri_transforms(...)\<close> followed by the application of the first \<open>n\<close> stages of
  the returned \<open>Compose\<close> to a sample: the sample as it is after stage \<open>n\<close>.
\<close>

definition run_pipeline_prefix ::
  "nat \<Rightarrow> 'r build_args \<Rightarrow> 'r ops \<Rightarrow> 'r \<times> sample \<Rightarrow> error + 'r \<times> sample" where
  "run_pipeline_prefix n a ops st =
     bind_result (build_mri_transforms a) (\<lambda>stages. Compose_call ops (take n stages) st)"

text \<open>A sample as the dataset yields it: a complex array of one coil and \<open>2 \<times> 2\<close> points.\<close>

definition raw_sample :: sample where
  "raw_sample =
     [(''kspace'', NDArray \<lparr>shape = [1, 2, 2], data = [1, 1, 1, 1]\<rparr>),
      (''filename'', Str ''a.h5'')]"

section \<open>Properties of the tensor operations\<close>

lemma bind_result_simps [simp]:
  "bind_result (Inl e) f = Inl e"
  "bind_result (Inr x) f = f x"
  by (simp_all add: bind_result_def)

lemma length_chunks: "length (chunks m k xs) = m"
  by (induction m arbitrary: xs) auto

lemma concat_chunks: "length xs = m * k \<Longrightarrow> concat (chunks m k xs) = xs"
  by (induction m arbitrary: xs) auto

lemma chunks_cat:
  "length xs = m * ka \<Longrightarrow> length ys = m * kb \<Longrightarrow>
   chunks m (ka + kb) (concat (map2 (@) (chunks m ka xs) (chunks m kb ys)))
     = map2 (@) (chunks m ka xs) (chunks m kb ys)"
proof (induction m arbitrary: xs ys)
  case 0
  then show ?case by simp
next
  case (Suc m)
  have lx: "length (take ka xs) = ka" and ly: "length (take kb ys) = kb"
    using Suc.prems by auto
  have dx: "length (drop ka xs) = m * ka" and dy: "length (drop kb ys) = m * kb"
    using Suc.prems by auto
  show ?case
    using Suc.IH [OF dx dy] lx ly by simp
qed

lemma narrow_left_blocks:
  "length xs = m * ka \<Longrightarrow> length ys = m * kb \<Longrightarrow>
   concat (map (take ka) (map2 (@) (chunks m ka xs) (chunks m kb ys))) = xs"
proof (induction m arbitrary: xs ys)
  case 0
  then show ?case by simp
next
  case (Suc m)
  have dx: "length (drop ka xs) = m * ka" and dy: "length (drop kb ys) = m * kb"
    using Suc.prems by auto
  have lx: "length (take ka xs) = ka" using Suc.prems by auto
  show ?case
    using Suc.IH [OF dx dy] lx by simp
qed

lemma narrow_right_blocks:
  "length xs = m * ka \<Longrightarrow> length ys = m * kb \<Longrightarrow>
   concat (map (\<lambda>b. take kb (drop ka b)) (map2 (@) (chunks m ka xs) (chunks m kb ys))) = ys"
proof (induction m arbitrary: xs ys)
  case 0
  then show ?case by simp
next
  case (Suc m)
  have dx: "length (drop ka xs) = m * ka" and dy: "length (drop kb ys) = m * kb"
    using Suc.prems by auto
  have lx: "length (take ka xs) = ka" and ly: "length (take kb ys) = kb"
    using Suc.prems by auto
  show ?case
    using Suc.IH [OF dx dy] lx ly by simp
qed

lemma prod_list_split:
  assumes d: "d < length shp"
  shows "prod_list shp = outer_size d shp * (shp ! d * inner_size d shp)"
proof -
  have "shp = take d shp @ (shp ! d) # drop (Suc d) shp"
    using d by (simp add: id_take_nth_drop)
  then have "prod_list shp = prod_list (take d shp @ (shp ! d) # drop (Suc d) shp)"
    by simp
  then show ?thesis
    by (simp add: outer_size_def inner_size_def)
qed

lemma outer_size_update: "outer_size d (shp[d := n]) = outer_size d shp"
  by (simp add: outer_size_def)

lemma inner_size_update: "inner_size d (shp[d := n]) = inner_size d shp"
  by (simp add: inner_size_def)

lemma wf_torch_zeros: "wf_tensor (torch_zeros shp)"
  by (simp add: wf_tensor_def torch_zeros_def)

lemma cat_block_lengths:
  assumes wa: "wf_tensor a" and wb: "wf_tensor b" and d: "d < length (shape b)"
    and sa: "shape a = (shape b)[d := na]"
  shows "length (data a) = outer_size d (shape b) * (na * inner_size d (shape b))"
    and "length (data b) = outer_size d (shape b) * (shape b ! d * inner_size d (shape b))"
proof -
  show "length (data a) = outer_size d (shape b) * (na * inner_size d (shape b))"
    using wa d sa prod_list_split [of d "shape a"]
    by (simp add: wf_tensor_def outer_size_update inner_size_update)
  show "length (data b) = outer_size d (shape b) * (shape b ! d * inner_size d (shape b))"
    using wb d prod_list_split [of d "shape b"] by (simp add: wf_tensor_def)
qed

lemma chunks_of_cat:
  assumes wa: "wf_tensor a" and wb: "wf_tensor b" and d: "d < length (shape b)"
    and sa: "shape a = (shape b)[d := na]"
  shows "chunks (outer_size d (shape b)) ((na + shape b ! d) * inner_size d (shape b))
           (data (torch_cat a b d))
         = map2 (@) (chunks (outer_size d (shape b)) (na * inner_size d (shape b)) (data a))
                    (chunks (outer_size d (shape b)) (shape b ! d * inner_size d (shape b)) (data b))"
proof -
  have na: "shape a ! d = na" using sa d by simp
  show ?thesis
    using chunks_cat [OF cat_block_lengths [OF wa wb d sa]]
    by (simp add: torch_cat_def Let_def na add_mult_distrib)
qed

lemma narrow_cat_left:
  assumes wa: "wf_tensor a" and wb: "wf_tensor b" and d: "d < length (shape b)"
    and sa: "shape a = (shape b)[d := na]"
  shows "torch_narrow (torch_cat a b d) d 0 na = a"
proof -
  have na: "shape a ! d = na" using sa d by simp
  have shp: "shape (torch_cat a b d) = (shape b)[d := na + shape b ! d]"
    by (simp add: torch_cat_def Let_def na)
  have "data (torch_narrow (torch_cat a b d) d 0 na) = data a"
    using d chunks_of_cat [OF wa wb d sa]
      narrow_left_blocks [OF cat_block_lengths [OF wa wb d sa]]
    by (simp add: torch_narrow_def Let_def shp outer_size_update inner_size_update)
  moreover have "shape (torch_narrow (torch_cat a b d) d 0 na) = shape a"
    using sa by (simp add: torch_narrow_def Let_def shp)
  ultimately show ?thesis by (simp add: tensor.equality torch_narrow_def Let_def)
qed

lemma narrow_cat_right:
  assumes wa: "wf_tensor a" and wb: "wf_tensor b" and d: "d < length (shape b)"
    and sa: "shape a = (shape b)[d := na]"
  shows "torch_narrow (torch_cat a b d) d na (shape b ! d) = b"
proof -
  have na: "shape a ! d = na" using sa d by simp
  have shp: "shape (torch_cat a b d) = (shape b)[d := na + shape b ! d]"
    by (simp add: torch_cat_def Let_def na)
  have "data (torch_narrow (torch_cat a b d) d na (shape b ! d)) = data b"
    using d chunks_of_cat [OF wa wb d sa]
      narrow_right_blocks [OF cat_block_lengths [OF wa wb d sa]]
    by (simp add: torch_narrow_def Let_def shp outer_size_update inner_size_update)
  moreover have "shape (torch_narrow (torch_cat a b d) d na (shape b ! d)) = shape b"
    by (simp add: torch_narrow_def Let_def shp)
  ultimately show ?thesis by (simp add: tensor.equality torch_narrow_def Let_def)
qed

lemma py_index_bound: "py_index i n = Some d \<Longrightarrow> d < n"
  by (auto simp: py_index_def split: if_splits)

section \<open>Properties of division and of the normalization loop\<close>

lemma ravel_unravel_mod: "ravel_bcast ns (unravel ns i) = i mod prod_list ns"
proof (induction ns)
  case Nil
  show ?case by simp
next
  case (Cons n ns)
  have "(i div prod_list ns mod n) * prod_list ns + i mod prod_list ns = i mod (n * prod_list ns)"
    using mod_mult2_eq [of i "prod_list ns" n] by (simp add: ac_simps)
  then show ?case using Cons by simp
qed

lemma ravel_ones: "ravel_bcast (replicate n (Suc 0)) js = 0"
  by (induction n arbitrary: js) (case_tac js; simp)+

lemma bcast_shape_Nil2: "bcast_shape xs [] = Some xs"
  by (cases xs) simp_all

lemma torch_div_scalar:
  assumes wf: "wf_tensor a"
  shows "torch_div a \<lparr>shape = [], data = [y]\<rparr> = Inr (tensor_map (\<lambda>x. x / y) a)"
proof -
  have get_a: "bcast_get a (shape a) i = data a ! i" if "i < prod_list (shape a)" for i
    using that by (simp add: bcast_get_def ravel_unravel_mod)
  have get_b: "bcast_get \<lparr>shape = [], data = [y]\<rparr> (shape a) i = y" for i
    by (simp add: bcast_get_def ravel_ones)
  have "map (\<lambda>i. bcast_get a (shape a) i / bcast_get \<lparr>shape = [], data = [y]\<rparr> (shape a) i)
            [0..<prod_list (shape a)]
        = map (\<lambda>i. data a ! i / y) [0..<length (data a)]"
    using wf get_a get_b by (simp add: wf_tensor_def)
  also have "\<dots> = map (\<lambda>x. x / y) (data a)"
    by (rule nth_equalityI) simp_all
  finally show ?thesis
    by (simp add: torch_div_def torch_binop_def bcast_shape_Nil2 Let_def tensor_map_def)
qed

lemma normalize_loop_result:
  "normalize_loop ops ks keys f s = Inr s' \<Longrightarrow> distinct ks \<Longrightarrow>
   map fst s' = map fst s
   \<and> (k \<notin> set ks \<or> k \<notin> set keys \<longrightarrow> map_of s' k = map_of s k)
   \<and> (k \<in> set ks \<and> k \<in> set keys \<longrightarrow>
        (\<exists>v v'. map_of s k = Some v \<and> py_truediv ops v f = Inr v' \<and> map_of s' k = Some v'))"
proof (induction ks arbitrary: s)
  case Nil
  then show ?case by simp
next
  case (Cons k0 ks)
  show ?case
  proof (cases "k0 \<in> set keys")
    case False
    with Cons show ?thesis by auto
  next
    case True
    from Cons.prems True obtain v v' where
      v: "map_of s k0 = Some v" and v': "py_truediv ops v f = Inr v'"
      and rest: "normalize_loop ops ks keys f (AList.update k0 v' s) = Inr s'"
      by (auto simp: dict_get_def bind_result_def split: option.splits sum.splits)
    have dist: "distinct ks" and k0: "k0 \<notin> set ks" using Cons.prems by auto
    have keys_same: "map fst (AList.update k0 v' s) = map fst s"
      using v by (simp add: AList.update_keys map_of_eq_None_iff [symmetric] del: map_of_eq_None_iff)
    show ?thesis
      using Cons.IH [OF rest dist] k0 v v' True keys_same
      by (auto simp: AList.update_conv')
  qed
qed

lemma py_truthy_nonzero:
  assumes "py_truthy f = Inr True"
  shows "(\<forall>y. f = Float y \<longrightarrow> y \<noteq> 0)
       \<and> (\<forall>b. f = Tensor b \<longrightarrow> (\<exists>y. data b = [y] \<and> y \<noteq> 0))
       \<and> (\<forall>b. f = NDArray b \<longrightarrow> (\<exists>y. data b = [y] \<and> y \<noteq> 0))"
  using assms by (auto simp: py_truthy_def split: val.splits list.splits)

lemma py_truthy_not_zero_division: "py_truthy f \<noteq> Inl ZeroDivisionError"
  by (auto simp: py_truthy_def split: val.splits list.splits)

lemma torch_binop_error: "torch_binop g a b = Inl e \<Longrightarrow> e = RuntimeError"
  by (auto simp: torch_binop_def Let_def split: option.splits)

lemma numpy_divide_error: "numpy_divide a b = Inl e \<Longrightarrow> e = ValueError"
  by (auto simp: numpy_divide_def Let_def split: option.splits)

lemma py_truediv_no_zero_division:
  assumes "py_truthy f = Inr True"
    and "\<forall>x y. mixed_truediv ops x y \<noteq> Inl ZeroDivisionError"
  shows "py_truediv ops v f \<noteq> Inl ZeroDivisionError"
proof
  assume z: "py_truediv ops v f = Inl ZeroDivisionError"
  show False
  proof (cases f)
    case (Float y)
    then have "y \<noteq> 0" using assms(1) by (simp add: py_truthy_def)
    with z Float show False by (cases v) (simp_all add: py_truediv_def)
  next
    case (Tensor b)
    with z assms(2) show False
      by (cases v) (auto simp: py_truediv_def torch_div_def bind_result_def
            split: sum.splits dest: torch_binop_error)
  next
    case (NDArray b)
    with z assms(2) show False
      by (cases v) (auto simp: py_truediv_def bind_result_def
            split: sum.splits dest: numpy_divide_error)
  next
    case (IntTuple ys)
    with z assms(2) show False by (cases v) (simp_all add: py_truediv_def)
  qed (use z in \<open>cases v; simp add: py_truediv_def\<close>)+
qed

lemma normalize_loop_no_zero_division:
  assumes "py_truthy f = Inr True"
    and "\<forall>x y. mixed_truediv ops x y \<noteq> Inl ZeroDivisionError"
  shows "normalize_loop ops ks keys f s \<noteq> Inl ZeroDivisionError"
proof (induction ks arbitrary: s)
  case Nil
  show ?case by simp
next
  case (Cons k ks)
  show ?case
    using Cons.IH py_truediv_no_zero_division [OF assms]
    by (auto simp: bind_result_def dict_get_def split: sum.splits option.splits)
qed

lemma normalize_loop_succeeds:
  assumes "\<forall>k\<in>set ks. k \<in> set keys \<longrightarrow>
             (\<exists>v v'. map_of s k = Some v \<and> py_truediv ops v f = Inr v')"
    and "distinct ks"
  shows "\<exists>s'. normalize_loop ops ks keys f s = Inr s'"
  using assms
proof (induction ks arbitrary: s)
  case Nil
  show ?case by simp
next
  case (Cons k0 ks)
  have k0: "k0 \<notin> set ks" and dist: "distinct ks" using Cons.prems(2) by auto
  show ?case
  proof (cases "k0 \<in> set keys")
    case False
    have "\<exists>s'. normalize_loop ops ks keys f s = Inr s'"
      using Cons.prems(1) dist by (intro Cons.IH) auto
    with False show ?thesis by simp
  next
    case True
    with Cons.prems(1) obtain v v' where v: "map_of s k0 = Some v"
      and v': "py_truediv ops v f = Inr v'" by auto
    let ?s = "AList.update k0 v' s"
    have "\<forall>k\<in>set ks. k \<in> set keys \<longrightarrow>
            (\<exists>u u'. map_of ?s k = Some u \<and> py_truediv ops u f = Inr u')"
      using Cons.prems(1) k0 by (auto simp: AList.update_conv')
    then have "\<exists>s'. normalize_loop ops ks keys f ?s = Inr s'"
      using dist by (rule Cons.IH)
    with True v v' show ?thesis by (simp add: dict_get_def)
  qed
qed

lemma py_truediv_tensor_scalar:
  assumes "wf_tensor a"
  shows "py_truediv ops (Tensor a) (Float y) = Inr (Tensor (tensor_map (\<lambda>x. x / y) a))"
    and "py_truediv ops (Tensor a) (Tensor \<lparr>shape = [], data = [y]\<rparr>)
           = Inr (Tensor (tensor_map (\<lambda>x. x / y) a))"
  using assms by (simp_all add: py_truediv_def torch_div_scalar)

lemma numpy_divide_scalar:
  assumes wf: "wf_tensor a"
  shows "numpy_divide a \<lparr>shape = [], data = [y]\<rparr> = Inr (tensor_map (\<lambda>x. x / y) a)"
proof -
  have get_a: "bcast_get a (shape a) i = data a ! i" if "i < prod_list (shape a)" for i
    using that by (simp add: bcast_get_def ravel_unravel_mod)
  have get_b: "bcast_get \<lparr>shape = [], data = [y]\<rparr> (shape a) i = y" for i
    by (simp add: bcast_get_def ravel_ones)
  have "map (\<lambda>i. bcast_get a (shape a) i / bcast_get \<lparr>shape = [], data = [y]\<rparr> (shape a) i)
            [0..<prod_list (shape a)]
        = map (\<lambda>i. data a ! i / y) [0..<length (data a)]"
    using wf get_a get_b by (simp add: wf_tensor_def)
  also have "\<dots> = map (\<lambda>x. x / y) (data a)"
    by (rule nth_equalityI) simp_all
  finally show ?thesis
    by (simp add: numpy_divide_def bcast_shape_Nil2 tensor_map_def)
qed

lemma py_truediv_array_scalar:
  assumes "wf_tensor a"
  shows "py_truediv ops (NDArray a) (Float y)
           = Inr (NDArray (tensor_map (\<lambda>z. z / complex_of_real y) a))"
    and "py_truediv ops (NDArray a) (NDArray \<lparr>shape = [], data = [w]\<rparr>)
           = Inr (NDArray (tensor_map (\<lambda>z. z / w) a))"
  using assms by (simp_all add: py_truediv_def numpy_divide_scalar)

section \<open>Order statistics\<close>








section \<open>The sum over an axis, elementwise\<close>

lemma nth_chunks: "i < m \<Longrightarrow> chunks m k xs ! i = take k (drop (i * k) xs)"
proof (induction m arbitrary: xs i)
  case 0
  then show ?case by simp
next
  case (Suc m)
  show ?case
  proof (cases i)
    case 0
    then show ?thesis by simp
  next
    case (Suc i')
    then have "i' < m" using Suc.prems by simp
    from Suc.IH [OF this] Suc show ?thesis by (simp add: add.commute)
  qed
qed

lemma nth_concat_blocks:
  assumes "\<forall>b \<in> set bs. length b = m" and "i < length bs" and "j < m"
  shows "concat bs ! (i * m + j) = bs ! i ! j"
  using assms
proof (induction bs arbitrary: i)
  case Nil
  then show ?case by simp
next
  case (Cons b bs)
  show ?case
  proof (cases i)
    case 0
    with Cons.prems show ?thesis by (simp add: nth_append)
  next
    case (Suc i')
    have "concat bs ! (i' * m + j) = bs ! i' ! j"
      using Cons.prems Suc by (intro Cons.IH) auto
    with Cons.prems Suc show ?thesis by (simp add: nth_append)
  qed
qed

lemma sum_blocks_Suc:
  "sum_blocks (Suc n) inner block
     = map2 (+) (take inner block) (sum_blocks n inner (drop inner block))"
  by (simp add: sum_blocks_def)

lemma length_sum_blocks:
  "length block = n * inner \<Longrightarrow> length (sum_blocks n inner block) = inner"
proof (induction n arbitrary: block)
  case 0
  then show ?case by (simp add: sum_blocks_def)
next
  case (Suc n)
  have "length (drop inner block) = n * inner" using Suc.prems by simp
  from Suc.IH [OF this] Suc.prems show ?case by (simp add: sum_blocks_Suc)
qed

lemma nth_sum_blocks:
  "length block = n * inner \<Longrightarrow> j < inner \<Longrightarrow>
   sum_blocks n inner block ! j = (\<Sum>i<n. block ! (i * inner + j))"
proof (induction n arbitrary: block)
  case 0
  then show ?case by (simp add: sum_blocks_def)
next
  case (Suc n)
  have len: "length (drop inner block) = n * inner" using Suc.prems by simp
  have ih: "sum_blocks n inner (drop inner block) ! j = (\<Sum>i<n. drop inner block ! (i * inner + j))"
    using Suc.IH [OF len Suc.prems(2)] .
  have shift: "(\<Sum>i<n. drop inner block ! (i * inner + j)) = (\<Sum>i<n. block ! (Suc i * inner + j))"
    using Suc.prems by (intro sum.cong) (auto simp: add.assoc)
  have "sum_blocks (Suc n) inner block ! j = block ! j + sum_blocks n inner (drop inner block) ! j"
    using Suc.prems length_sum_blocks [OF len] by (simp add: sum_blocks_Suc)
  also have "\<dots> = block ! (0 * inner + j) + (\<Sum>i<n. block ! (Suc i * inner + j))"
    using ih shift by simp
  also have "\<dots> = (\<Sum>i<Suc n. block ! (i * inner + j))"
    by (simp only: sum.lessThan_Suc_shift)
  finally show ?case .
qed

lemma sum_axis_nth:
  assumes wf: "wf_tensor t" and d: "d < length (shape t)"
    and o: "blk < outer_size d (shape t)" and j: "j < inner_size d (shape t)"
  shows "data (sum_axis t d) ! (blk * inner_size d (shape t) + j)
           = (\<Sum>i<shape t ! d. data t ! ((blk * (shape t ! d) + i) * inner_size d (shape t) + j))"
proof -
  let ?inner = "inner_size d (shape t)" and ?outer = "outer_size d (shape t)" and ?n = "shape t ! d"
  let ?cs = "chunks ?outer (?n * ?inner) (data t)"
  have len: "length (data t) = ?outer * (?n * ?inner)"
    using wf prod_list_split [OF d] by (simp add: wf_tensor_def)
  have blk: "?cs ! blk = take (?n * ?inner) (drop (blk * (?n * ?inner)) (data t))"
    using o by (rule nth_chunks)
  have "(blk + 1) * (?n * ?inner) \<le> ?outer * (?n * ?inner)"
    using o by (intro mult_le_mono1) simp
  then have fits: "blk * (?n * ?inner) + ?n * ?inner \<le> length (data t)"
    using len by (simp add: algebra_simps)
  then have blen: "length (?cs ! blk) = ?n * ?inner" using blk by simp
  have all_len: "\<forall>b \<in> set (map (sum_blocks ?n ?inner) ?cs). length b = ?inner"
  proof
    fix b assume "b \<in> set (map (sum_blocks ?n ?inner) ?cs)"
    then obtain i where i: "i < ?outer" and b: "b = sum_blocks ?n ?inner (?cs ! i)"
      by (auto simp: in_set_conv_nth length_chunks)
    have "(i + 1) * (?n * ?inner) \<le> ?outer * (?n * ?inner)"
      using i by (intro mult_le_mono1) simp
    then have "i * (?n * ?inner) + ?n * ?inner \<le> length (data t)"
      using len by (simp add: algebra_simps)
    then have "length (?cs ! i) = ?n * ?inner" using i by (simp add: nth_chunks)
    then show "length b = ?inner" unfolding b by (rule length_sum_blocks)
  qed
  have "data (sum_axis t d) ! (blk * ?inner + j)
          = map (sum_blocks ?n ?inner) ?cs ! blk ! j"
    unfolding sum_axis_def Let_def
    using nth_concat_blocks [OF all_len _ j, of blk] o by (simp add: length_chunks)
  also have "\<dots> = sum_blocks ?n ?inner (?cs ! blk) ! j"
    using o by (simp add: length_chunks)
  also have "\<dots> = (\<Sum>i<?n. (?cs ! blk) ! (i * ?inner + j))"
    using blen j by (rule nth_sum_blocks)
  also have "\<dots> = (\<Sum>i<?n. data t ! ((blk * ?n + i) * ?inner + j))"
  proof (rule sum.cong)
    fix i assume "i \<in> {..<?n}"
    then have i: "i < ?n" by simp
    have "(i + 1) * ?inner \<le> ?n * ?inner" using i by (intro mult_le_mono1) simp
    then have lt: "i * ?inner + j < ?n * ?inner" using j by (simp add: algebra_simps)
    have "(?cs ! blk) ! (i * ?inner + j) = data t ! (blk * (?n * ?inner) + (i * ?inner + j))"
      using lt fits by (simp add: blk)
    also have "blk * (?n * ?inner) + (i * ?inner + j) = (blk * ?n + i) * ?inner + j"
      by (simp add: algebra_simps)
    finally show "(?cs ! blk) ! (i * ?inner + j) = data t ! ((blk * ?n + i) * ?inner + j)" .
  qed simp
  finally show ?thesis .
qed

section \<open>Properties of ComputeImage\<close>

lemma torch_sum_axis:
  "py_index cd (length (shape t)) = Some c \<Longrightarrow> torch_sum t cd = Inr (sum_axis t c)"
  by (auto simp: torch_sum_def py_index_def split: if_splits)

lemma torch_sum_error: "torch_sum t cd = Inl e \<Longrightarrow> e = IndexError"
  by (auto simp: torch_sum_def split: if_splits option.splits)

lemma as_tensor_error: "as_tensor v = Inl e \<Longrightarrow> e = TypeError"
  by (auto simp: as_tensor_def split: val.splits)

lemma ComputeImage_sense_branch:
  assumes "ty \<notin> {''complex'', ''complex_mod'', ''rss''}"
  shows "(map_of sample kk = None \<longrightarrow>
            ComputeImage_call kk tk bo ty ops sample cd sd xd = Inl (KeyError kk))
       \<and> (\<forall>v. map_of sample kk = Some v \<and> (\<forall>k. v \<noteq> Tensor k) \<longrightarrow>
            ComputeImage_call kk tk bo ty ops sample cd sd xd = Inl TypeError)
       \<and> (\<forall>k. map_of sample kk = Some (Tensor k) \<and> \<not> has_key sample ''sensitivity_map'' \<longrightarrow>
            ComputeImage_call kk tk bo ty ops sample cd sd xd
              = Inl (ItemNotFoundException ''sensitivity map''))
       \<and> (\<forall>k v. map_of sample kk = Some (Tensor k) \<and> map_of sample ''sensitivity_map'' = Some v
              \<and> (\<forall>sm. v \<noteq> Tensor sm) \<longrightarrow>
            ComputeImage_call kk tk bo ty ops sample cd sd xd = Inl TypeError)
       \<and> (\<forall>k sm. map_of sample kk = Some (Tensor k)
              \<and> map_of sample ''sensitivity_map'' = Some (Tensor sm)
              \<and> (\<forall>s. torch_sum (complex_multiplication ops (conjugate ops sm) (bo k (Some sd))) cd
                        \<noteq> Inr s) \<longrightarrow>
            ComputeImage_call kk tk bo ty ops sample cd sd xd = Inl IndexError)
       \<and> (\<forall>k sm s. map_of sample kk = Some (Tensor k)
              \<and> map_of sample ''sensitivity_map'' = Some (Tensor sm)
              \<and> torch_sum (complex_multiplication ops (conjugate ops sm) (bo k (Some sd))) cd = Inr s \<longrightarrow>
            ComputeImage_call kk tk bo ty ops sample cd sd xd
              = Inr (AList.update tk
                       (Tensor (if ty = ''sense_mod'' then modulus ops s (Some xd) else s)) sample))"
proof -
  have ty: "ty \<noteq> ''complex''" "ty \<noteq> ''complex_mod''" "ty \<noteq> ''rss''" using assms by auto
  have A: "map_of sample kk = None \<longrightarrow>
            ComputeImage_call kk tk bo ty ops sample cd sd xd = Inl (KeyError kk)"
    by (simp add: ComputeImage_call_def dict_get_def)
  have B: "\<forall>v. map_of sample kk = Some v \<and> (\<forall>k. v \<noteq> Tensor k) \<longrightarrow>
            ComputeImage_call kk tk bo ty ops sample cd sd xd = Inl TypeError"
    by (auto simp: ComputeImage_call_def dict_get_def as_tensor_def split: val.splits)
  have C: "\<forall>k. map_of sample kk = Some (Tensor k) \<and> \<not> has_key sample ''sensitivity_map'' \<longrightarrow>
            ComputeImage_call kk tk bo ty ops sample cd sd xd
              = Inl (ItemNotFoundException ''sensitivity map'')"
    using ty by (simp add: ComputeImage_call_def dict_get_def as_tensor_def)
  have D: "\<forall>k v. map_of sample kk = Some (Tensor k) \<and> map_of sample ''sensitivity_map'' = Some v
              \<and> (\<forall>sm. v \<noteq> Tensor sm) \<longrightarrow>
            ComputeImage_call kk tk bo ty ops sample cd sd xd = Inl TypeError"
    using ty
    by (auto simp: ComputeImage_call_def dict_get_def as_tensor_def has_key_def split: val.splits)
  have E: "\<forall>k sm. map_of sample kk = Some (Tensor k)
              \<and> map_of sample ''sensitivity_map'' = Some (Tensor sm)
              \<and> (\<forall>s. torch_sum (complex_multiplication ops (conjugate ops sm) (bo k (Some sd))) cd
                        \<noteq> Inr s) \<longrightarrow>
            ComputeImage_call kk tk bo ty ops sample cd sd xd = Inl IndexError"
  proof (intro allI impI)
    fix k sm
    assume h: "map_of sample kk = Some (Tensor k)
              \<and> map_of sample ''sensitivity_map'' = Some (Tensor sm)
              \<and> (\<forall>s. torch_sum (complex_multiplication ops (conjugate ops sm) (bo k (Some sd))) cd
                        \<noteq> Inr s)"
    then obtain e where
      e: "torch_sum (complex_multiplication ops (conjugate ops sm) (bo k (Some sd))) cd = Inl e"
      by (cases "torch_sum (complex_multiplication ops (conjugate ops sm) (bo k (Some sd))) cd") auto
    then have "e = IndexError" by (rule torch_sum_error)
    with e h ty show "ComputeImage_call kk tk bo ty ops sample cd sd xd = Inl IndexError"
      by (simp add: ComputeImage_call_def dict_get_def as_tensor_def has_key_def)
  qed
  have F: "\<forall>k sm s. map_of sample kk = Some (Tensor k)
              \<and> map_of sample ''sensitivity_map'' = Some (Tensor sm)
              \<and> torch_sum (complex_multiplication ops (conjugate ops sm) (bo k (Some sd))) cd = Inr s \<longrightarrow>
            ComputeImage_call kk tk bo ty ops sample cd sd xd
              = Inr (AList.update tk
                       (Tensor (if ty = ''sense_mod'' then modulus ops s (Some xd) else s)) sample)"
    using ty
    by (simp add: ComputeImage_call_def dict_get_def as_tensor_def has_key_def AList.update_conv')
  show ?thesis
    by (intro conjI) (rule A, rule B, rule C, rule D, rule E, rule F)
qed

lemma ComputeImage_sense_no_item_error:
  assumes ty: "ty \<notin> {''complex'', ''complex_mod'', ''rss''}"
    and m: "has_key sample ''sensitivity_map''"
  shows "ComputeImage_call kk tk bo ty ops sample cd sd xd \<noteq> Inl (ItemNotFoundException item)"
proof -
  note S = ComputeImage_sense_branch [OF ty, of sample kk tk bo ops cd sd xd]
  obtain v where v: "map_of sample ''sensitivity_map'' = Some v"
    using m by (auto simp: has_key_def)
  show ?thesis
  proof (cases "map_of sample kk")
    case None
    with S show ?thesis by simp
  next
    case (Some kv)
    show ?thesis
    proof (cases "\<exists>k. kv = Tensor k")
      case False
      with S Some show ?thesis by simp
    next
      case True
      then obtain k where k: "kv = Tensor k" by blast
      show ?thesis
      proof (cases "\<exists>sm. v = Tensor sm")
        case False
        with S Some k v show ?thesis by simp
      next
        case True
        then obtain sm where sm: "v = Tensor sm" by blast
        show ?thesis
        proof (cases "torch_sum (complex_multiplication ops (conjugate ops sm) (bo k (Some sd))) cd")
          case (Inl e)
          then have "ComputeImage_call kk tk bo ty ops sample cd sd xd = Inl IndexError"
            using S Some k v sm by simp
          then show ?thesis by simp
        next
          case (Inr s)
          then have "ComputeImage_call kk tk bo ty ops sample cd sd xd
              = Inr (AList.update tk
                       (Tensor (if ty = ''sense_mod'' then modulus ops s (Some xd) else s)) sample)"
            using S Some k v sm by simp
          then show ?thesis by simp
        qed
      qed
    qed
  qed
qed

lemma image_sample_sums:
  "torch_sum \<lparr>shape = [2, 1, 1, 2], data = [1, 0, 0, 0]\<rparr> 0
     = Inr \<lparr>shape = [1, 1, 2], data = [1, 0]\<rparr>"
  "torch_sum (complex_multiplication ref_ops
                (conjugate ref_ops \<lparr>shape = [2, 1, 1, 2], data = [0, 1, 1, 0]\<rparr>)
                \<lparr>shape = [2, 1, 1, 2], data = [1, 0, 0, 0]\<rparr>) 0
     = Inr \<lparr>shape = [1, 1, 2], data = [0, - 1]\<rparr>"
  "modulus ref_ops \<lparr>shape = [1, 1, 2], data = [1, 0]\<rparr> (Some (- 1))
     = \<lparr>shape = [1, 1], data = [1]\<rparr>"
  "modulus ref_ops \<lparr>shape = [1, 1, 2], data = [0, - 1]\<rparr> (Some (- 1))
     = \<lparr>shape = [1, 1], data = [1]\<rparr>"
  "root_sum_of_squares ref_ops \<lparr>shape = [2, 1, 1, 2], data = [1, 0, 0, 0]\<rparr> 0
     = \<lparr>shape = [1, 1], data = [1]\<rparr>"
  by (simp_all add: torch_sum_def py_index_def sum_axis_def inner_size_def outer_size_def
        sum_blocks_def ref_ops_def ref_conjugate_def ref_complex_multiplication_def
        ref_modulus_def ref_root_sum_of_squares_def tensor_map_def eval_nat_numeral)

section \<open>Properties of Compose and of the builder\<close>

lemma Compose_call_foldl:
  "foldl (\<lambda>m t. bind_result m (stage_call ops t)) m ts = bind_result m (Compose_call ops ts)"
proof (induction ts arbitrary: m)
  case Nil
  show ?case by (cases m) simp_all
next
  case (Cons t ts)
  show ?case by (cases m) (simp_all add: Cons.IH)
qed

lemma build_mri_transforms_succeeds:
  "\<exists>stages. build_mri_transforms a = Inr stages \<and> map kind_of stages = built_stage_order a"
proof (cases "crop a")
  case None
  show ?thesis
  proof (cases "mask_func a")
    case mn: None
    show ?thesis
      using None mn
      by (simp add: build_mri_transforms_def built_stage_order_def stage_order_def crop_truthy_def
            new_EstimateSensitivityMap_def EstimateSensitivityMap_init_def new_ComputeImage_def
            ComputeImage_init_def new_Normalize_def Let_def)
  next
    case (Some mf)
    show ?thesis
      using None Some
      by (simp add: build_mri_transforms_def built_stage_order_def stage_order_def crop_truthy_def
            new_EstimateSensitivityMap_def EstimateSensitivityMap_init_def new_ComputeImage_def
            ComputeImage_init_def new_Normalize_def Let_def)
  qed
next
  case (Some c)
  have init: "crop_truthy (Some c) \<Longrightarrow> CropKspace_init (crop_val c) = Inr (crop_val c)"
    by (cases c) (simp_all add: CropKspace_init_def crop_val_def is_iterable_or_str_def)
  show ?thesis
  proof (cases "mask_func a")
    case mn: None
    show ?thesis
      using Some mn init
      by (simp add: build_mri_transforms_def built_stage_order_def stage_order_def
            new_CropKspace_def
            new_EstimateSensitivityMap_def EstimateSensitivityMap_init_def new_ComputeImage_def
            ComputeImage_init_def new_Normalize_def Let_def)
  next
    case sm: (Some mf)
    show ?thesis
      using Some sm init
      by (simp add: build_mri_transforms_def built_stage_order_def stage_order_def
            new_CropKspace_def
            new_EstimateSensitivityMap_def EstimateSensitivityMap_init_def new_ComputeImage_def
            ComputeImage_init_def new_Normalize_def Let_def)
  qed
qed

section \<open>Properties of the seeded stages\<close>

lemma CreateSamplingMask_result:
  assumes "CreateSamplingMask_call mf shp us ra ops (r, s) = Inr (r', s')"
  shows "\<exists>ms seed sm.
           mask_shape shp s = Inr ms \<and> filename_seed ops us s = Inr seed
         \<and> (case map_of s ''padding'' of
               None \<Rightarrow> Inr (fst (mf r ms seed False))
             | Some pv \<Rightarrow> bind_result (as_tensor pv)
                             (\<lambda>p. Inr (apply_padding ops (fst (mf r ms seed False)) p))) = Inr sm
         \<and> map_of s' ''sampling_mask'' = Some (Tensor sm)
         \<and> (ra \<longrightarrow>
              (\<exists>k ks. map_of s ''kspace'' = Some k \<and> val_shape k = Inr ks
                 \<and> map_of s' ''acs_mask''
                     = Some (Tensor (fst (mf (snd (mf r ms seed False)) (map int (tl ks)) seed True)))
                 \<and> r' = snd (mf (snd (mf r ms seed False)) (map int (tl ks)) seed True)))
         \<and> (\<not> ra \<longrightarrow> r' = snd (mf r ms seed False)
                       \<and> map_of s' ''acs_mask'' = map_of s ''acs_mask'')"
  using assms
  by (auto simp: CreateSamplingMask_call_def bind_result_def dict_get_def Let_def
        AList.update_conv' case_prod_beta
        split: sum.splits option.splits if_splits)

lemma mask_shape_cong:
  assumes "map_option val_shape (map_of s1 ''kspace'') = map_option val_shape (map_of s2 ''kspace'')"
  shows "mask_shape shp s1 = mask_shape shp s2"
  using assms
  by (cases "map_of s1 ''kspace''"; cases "map_of s2 ''kspace''")
     (auto simp: mask_shape_def dict_get_def split: option.splits)

lemma filename_seed_cong:
  "map_of s1 ''filename'' = map_of s2 ''filename'' \<Longrightarrow>
   filename_seed ops us s1 = filename_seed ops us s2"
  by (simp add: filename_seed_def dict_get_def)

lemma filename_seed_seeded:
  "filename_seed ops True s = Inr seed \<Longrightarrow> \<exists>sd. seed = Some sd"
  by (auto simp: filename_seed_def dict_get_def split: option.splits)

lemma filename_seed_of_string:
  "map_of s ''filename'' = Some (Str f) \<Longrightarrow>
   filename_seed ops True s = Inr (Some (map (\<lambda>c. int (of_char c)) f))"
  by (simp add: filename_seed_def dict_get_def py_str_def)

lemma CropKspace_random_result:
  assumes "CropKspace_call c fo bo False st us sg ops (r, s) = Inr (r', s')"
  shows "\<exists>k cs seed.
           map_of s ''kspace'' = Some (Tensor k)
         \<and> bind_result (crop_shape_of c s) as_int_list = Inr cs
         \<and> filename_seed ops (us = Some True) s = Inr seed
         \<and> map_of s' ''kspace''
             = Some (Tensor (fo (fst (complex_random_crop ops r [bo k None] cs False seed st sg)) None))
         \<and> r' = snd (complex_random_crop ops r [bo k None] cs False seed st sg)"
  using assms
  by (auto simp: CropKspace_call_def bind_result_def dict_get_def as_tensor_def Let_def
        AList.update_conv' case_prod_beta
        split: sum.splits option.splits val.splits)

lemma ref_mask_func_deterministic:
  "fst (ref_mask_func r sh (Some sd) acs) = fst (ref_mask_func r' sh (Some sd) acs)"
  by (simp add: ref_mask_func_def Let_def)

lemma ref_random_crop_deterministic:
  "fst (complex_random_crop ref_ops r ts cs cont (Some sd) smp sg)
     = fst (complex_random_crop ref_ops r' ts cs cont (Some sd) smp sg)"
  by (simp add: ref_ops_def ref_complex_random_crop_def Let_def split: list.splits)

lemma a_h5_seed: "map (\<lambda>c. int (of_char c)) ''a.h5'' = [97, 46, 104, 53]"
  by simp

lemma ref_apply_padding_examples:
  "apply_padding ref_ops \<lparr>shape = [1, 1, 2, 1], data = [1, 0]\<rparr>
       \<lparr>shape = [1, 1, 2, 1], data = [0, 0]\<rparr>
     = \<lparr>shape = [1, 1, 2, 1], data = [1, 0]\<rparr>"
  "apply_padding ref_ops \<lparr>shape = [1, 1, 2, 1], data = [1, 0]\<rparr>
       \<lparr>shape = [1, 1, 2, 1], data = [1, 0]\<rparr>
     = \<lparr>shape = [1, 1, 2, 1], data = [0, 0]\<rparr>"
  by (simp_all add: ref_ops_def ref_apply_padding_def torch_mul_def torch_binop_def
        tensor_map_def bcast_get_def Let_def upt_rec)

lemma ref_mask_examples:
  "ref_mask_func r [1, 2, 2] (Some [97, 46, 104, 53]) False
     = (\<lparr>shape = [1, 1, 2, 1], data = [1, 0]\<rparr>,
        (Suc (fst r), snd r @ [([1, 2, 2], Some [97, 46, 104, 53], False)]))"
  "ref_mask_func r [1, 2, 2] (Some [97, 46, 104, 53]) True
     = (\<lparr>shape = [1, 1, 2, 1], data = [1, 1]\<rparr>,
        (Suc (fst r), snd r @ [([1, 2, 2], Some [97, 46, 104, 53], True)]))"
  by (simp_all add: ref_mask_func_def Let_def upt_rec)

lemma chunks_numeral:
  "chunks (numeral k) n xs = take n xs # chunks (pred_numeral k) n (drop n xs)"
  "chunks 1 n xs = [take n xs]"
  by (simp_all add: numeral_eq_Suc)

lemma seed_entropy_even: "(300 :: nat) mod Suc (Suc 0) = 0"
  by presburger

lemma ref_random_crop_example:
  "complex_random_crop ref_ops r
       [id_operator \<lparr>shape = [1, 1, 2, 2], data = [1, 0, 1, 0]\<rparr> None] [1, 1] False
       (Some [97, 46, 104, 53]) smp sg
     = (\<lparr>shape = [1, 1, 1, 2], data = [1, 0]\<rparr>, (Suc (fst r), snd r))"
  by (simp add: ref_ops_def ref_complex_random_crop_def id_operator_def crop_at_def
        torch_narrow_def inner_size_def outer_size_def Let_def chunks_numeral
        seed_entropy_even)

lemma seeded_mask_runs:
  "CreateSamplingMask_call ref_mask_func None True True ref_ops ((0, []), padded_sample_a)
     = Inr ((2, [([1, 2, 2], Some [97, 46, 104, 53], False),
                 ([1, 2, 2], Some [97, 46, 104, 53], True)]),
            padded_sample_a
              @ [(''sampling_mask'', Tensor \<lparr>shape = [1, 1, 2, 1], data = [1, 0]\<rparr>),
                 (''acs_mask'', Tensor \<lparr>shape = [1, 1, 2, 1], data = [1, 1]\<rparr>)])"
  "CreateSamplingMask_call ref_mask_func None True True ref_ops ((5, []), padded_sample_c)
     = Inr ((7, [([1, 2, 2], Some [97, 46, 104, 53], False),
                 ([1, 2, 2], Some [97, 46, 104, 53], True)]),
            padded_sample_c
              @ [(''sampling_mask'', Tensor \<lparr>shape = [1, 1, 2, 1], data = [1, 0]\<rparr>),
                 (''acs_mask'', Tensor \<lparr>shape = [1, 1, 2, 1], data = [1, 1]\<rparr>)])"
  by (simp_all add: CreateSamplingMask_call_def mask_shape_def dict_get_def val_shape_def
        filename_seed_def py_str_def padded_sample_a_def padded_sample_c_def as_tensor_def
        ref_mask_examples ref_apply_padding_examples del: One_nat_def)

lemma seeded_crop_runs:
  "CropKspace_call (IntTuple [1, 1]) id_operator id_operator False (Some ''uniform'') (Some True)
       None ref_ops ((n, []), padded_sample_a)
     = Inr ((Suc n, []),
            [(''kspace'', Tensor \<lparr>shape = [1, 1, 1, 2], data = [1, 0]\<rparr>),
             (''filename'', Str ''a.h5''),
             (''padding'', Tensor \<lparr>shape = [1, 1, 2, 1], data = [0, 0]\<rparr>)])"
  by (simp add: CropKspace_call_def dict_get_def as_tensor_def crop_shape_of_def as_int_list_def
        filename_seed_def py_str_def padded_sample_a_def ref_random_crop_example
        id_operator_def [of "\<lparr>shape = [1, 1, 1, 2], data = [1, 0]\<rparr>"] del: One_nat_def)

section \<open>The first five stages of the canonical pipeline\<close>

lemma full_args_stages:
  "build_mri_transforms full_args
     = Inr [ToTensor,
            CropKspace (IntTuple [1, 1]) id_operator id_operator True (Some ''uniform'')
              (Some True) None,
            ComputeZeroPadding ''kspace'' ''padding'' (1 / 10000),
            ApplyZeroPadding ''kspace'' ''padding'',
            CreateSamplingMask ref_mask_func (Some [Some 1, Some 1]) True True,
            EstimateSensitivityMap ''kspace'' id_operator (Some ''rss_estimate'') None,
            DeleteKeys [''acs_mask''],
            ComputeImage ''kspace'' ''target'' id_operator ''rss'',
            ApplyMask ''sampling_mask'' ''kspace'' ''masked_kspace'',
            EstimateBodyCoilImage ref_mask_func id_operator True,
            ComputeScalingFactor (Some ''masked_kspace'') (Some (Finite 4458563631096791 (- 52))) ''scaling_factor'',
            Normalize ''scaling_factor''
              [''masked_kspace'', ''target'', ''kspace'', ''body_coil_image'', ''initial_image'',
               ''initial_kspace''],
            PadCoilDimension None ''masked_kspace'' 0,
            PadCoilDimension None ''sensitivity_map'' 0,
            DeleteKeys [''kspace'']]"
  by (simp add: full_args_def build_mri_transforms_def crop_truthy_def crop_val_def
        new_CropKspace_def CropKspace_init_def is_iterable_or_str_def
        sampling_mask_shape_arg_def
        new_EstimateSensitivityMap_def EstimateSensitivityMap_init_def new_ComputeImage_def
        ComputeImage_init_def new_Normalize_def Normalize_init_def Let_def)

lemma step_ToTensor:
  "stage_call ref_ops ToTensor ((0, []), raw_sample)
     = Inr ((0, []),
            [(''kspace'', Tensor \<lparr>shape = [1, 2, 2, 2], data = [1, 0, 1, 0, 1, 0, 1, 0]\<rparr>),
             (''filename'', Str ''a.h5'')])"
  by (simp add: ToTensor_call_def with_state_def dict_get_def val_ndim_def val_shape_def
        raw_sample_def to_tensor_val_def ref_ops_def ref_to_tensor_def update_if_present_def)

lemma step_CropKspace:
  "stage_call ref_ops
       (CropKspace (IntTuple [1, 1]) id_operator id_operator True (Some ''uniform'') (Some True) None)
       ((0, []),
        [(''kspace'', Tensor \<lparr>shape = [1, 2, 2, 2], data = [1, 0, 1, 0, 1, 0, 1, 0]\<rparr>),
         (''filename'', Str ''a.h5'')])
     = Inr ((0, []),
            [(''kspace'', Tensor \<lparr>shape = [1, 1, 1, 2], data = [1, 0]\<rparr>),
             (''filename'', Str ''a.h5'')])"
  by (simp add: CropKspace_call_def dict_get_def as_tensor_def crop_shape_of_def as_int_list_def
        ref_ops_def ref_complex_center_crop_def crop_at_def id_operator_def
        torch_narrow_def inner_size_def outer_size_def Let_def chunks_numeral)

lemma step_ComputeZeroPadding:
  "stage_call ref_ops (ComputeZeroPadding ''kspace'' ''padding'' (1 / 10000))
       ((0, []),
        [(''kspace'', Tensor \<lparr>shape = [1, 1, 1, 2], data = [1, 0]\<rparr>),
         (''filename'', Str ''a.h5'')])
     = Inr ((0, []),
            [(''kspace'', Tensor \<lparr>shape = [1, 1, 1, 2], data = [1, 0]\<rparr>),
             (''filename'', Str ''a.h5''),
             (''padding'', Tensor \<lparr>shape = [1, 1, 1, 1], data = [0]\<rparr>)])"
  by (simp add: ComputeZeroPadding_call_def with_state_def dict_get_def as_tensor_def
        ref_ops_def ref_modulus_def py_index_def sum_axis_def sum_blocks_def tensor_map_def
        torch_sum_def torch_mean_def torch_unsqueeze_def
        inner_size_def outer_size_def Let_def chunks_numeral)

lemma step_ApplyZeroPadding:
  "stage_call ref_ops (ApplyZeroPadding ''kspace'' ''padding'')
       ((0, []),
        [(''kspace'', Tensor \<lparr>shape = [1, 1, 1, 2], data = [1, 0]\<rparr>),
         (''filename'', Str ''a.h5''),
         (''padding'', Tensor \<lparr>shape = [1, 1, 1, 1], data = [0]\<rparr>)])
     = Inr ((0, []),
            [(''kspace'', Tensor \<lparr>shape = [1, 1, 1, 2], data = [1, 0]\<rparr>),
             (''filename'', Str ''a.h5''),
             (''padding'', Tensor \<lparr>shape = [1, 1, 1, 1], data = [0]\<rparr>)])"
  by (simp add: ApplyZeroPadding_call_def with_state_def dict_get_def as_tensor_def
        ref_ops_def ref_apply_padding_def torch_mul_def torch_binop_def
        tensor_map_def bcast_get_def Let_def upt_rec)

lemma step_CreateSamplingMask:
  "stage_call ref_ops (CreateSamplingMask ref_mask_func (Some [Some 1, Some 1]) True True)
       ((0, []),
        [(''kspace'', Tensor \<lparr>shape = [1, 1, 1, 2], data = [1, 0]\<rparr>),
         (''filename'', Str ''a.h5''),
         (''padding'', Tensor \<lparr>shape = [1, 1, 1, 1], data = [0]\<rparr>)])
     = Inr ((2, [([1, 1, 2], Some [97, 46, 104, 53], False),
                 ([1, 1, 2], Some [97, 46, 104, 53], True)]),
            [(''kspace'', Tensor \<lparr>shape = [1, 1, 1, 2], data = [1, 0]\<rparr>),
             (''filename'', Str ''a.h5''),
             (''padding'', Tensor \<lparr>shape = [1, 1, 1, 1], data = [0]\<rparr>),
             (''sampling_mask'', Tensor \<lparr>shape = [1, 1, 1, 1], data = [1]\<rparr>),
             (''acs_mask'', Tensor \<lparr>shape = [1, 1, 1, 1], data = [1]\<rparr>)])"
  by (simp add: CreateSamplingMask_call_def mask_shape_def dict_get_def val_shape_def
        filename_seed_def py_str_def as_tensor_def ref_mask_func_def
        ref_ops_def ref_apply_padding_def torch_mul_def torch_binop_def
        tensor_map_def bcast_get_def Let_def upt_rec seed_entropy_even)

lemma take_one_Cons: "take 1 (x # xs) = [x]"
  by simp

lemma raw_sample_after_ToTensor:
  "run_pipeline_prefix 1 full_args ref_ops ((0, []), raw_sample)
     = Inr ((0, []),
            [(''kspace'', Tensor \<lparr>shape = [1, 2, 2, 2], data = [1, 0, 1, 0, 1, 0, 1, 0]\<rparr>),
             (''filename'', Str ''a.h5'')])"
  by (simp add: run_pipeline_prefix_def full_args_stages step_ToTensor take_one_Cons
        del: One_nat_def stage_call.simps)

lemma raw_sample_after_crop:
  "run_pipeline_prefix 2 full_args ref_ops ((0, []), raw_sample)
     = Inr ((0, []),
            [(''kspace'', Tensor \<lparr>shape = [1, 1, 1, 2], data = [1, 0]\<rparr>),
             (''filename'', Str ''a.h5'')])"
  by (simp add: run_pipeline_prefix_def full_args_stages step_ToTensor step_CropKspace
        del: One_nat_def stage_call.simps)

lemma raw_sample_after_masks:
  "run_pipeline_prefix 5 full_args ref_ops ((0, []), raw_sample)
     = Inr ((2, [([1, 1, 2], Some [97, 46, 104, 53], False),
                 ([1, 1, 2], Some [97, 46, 104, 53], True)]),
            [(''kspace'', Tensor \<lparr>shape = [1, 1, 1, 2], data = [1, 0]\<rparr>),
             (''filename'', Str ''a.h5''),
             (''padding'', Tensor \<lparr>shape = [1, 1, 1, 1], data = [0]\<rparr>),
             (''sampling_mask'', Tensor \<lparr>shape = [1, 1, 1, 1], data = [1]\<rparr>),
             (''acs_mask'', Tensor \<lparr>shape = [1, 1, 1, 1], data = [1]\<rparr>)])"
  by (simp add: run_pipeline_prefix_def full_args_stages step_ToTensor step_CropKspace
        step_ComputeZeroPadding step_ApplyZeroPadding step_CreateSamplingMask
        del: One_nat_def stage_call.simps)

lemma built_prefix:
  assumes "crop a = Some c" and "crop_truthy (crop a)" and "mask_func a = Some mf"
  shows "\<exists>rest. build_mri_transforms a
           = Inr ([ToTensor,
                   CropKspace (crop_val c) (forward_operator a) (backward_operator a)
                     (image_center_crop a) (crop_type a) (Some (use_seed a)) None,
                   ComputeZeroPadding ''kspace'' ''padding'' (padding_eps a),
                   ApplyZeroPadding ''kspace'' ''padding'',
                   CreateSamplingMask mf (sampling_mask_shape_arg (crop a)) (use_seed a)
                     (estimate_sensitivity_maps a)] @ rest)"
proof -
  have init: "CropKspace_init (crop_val c) = Inr (crop_val c)"
    using assms(1,2)
    by (cases c) (simp_all add: CropKspace_init_def crop_val_def is_iterable_or_str_def)
  show ?thesis
    using assms init
    by (simp add: build_mri_transforms_def new_CropKspace_def
          new_EstimateSensitivityMap_def EstimateSensitivityMap_init_def new_ComputeImage_def
          ComputeImage_init_def new_Normalize_def Let_def)
qed

lemma Compose_call_append:
  "Compose_call ops (xs @ ys) st = bind_result (Compose_call ops xs st) (Compose_call ops ys)"
proof (induction xs arbitrary: st)
  case Nil
  show ?case by simp
next
  case (Cons x xs)
  show ?case
    by (cases "stage_call ops x st") (simp_all add: Cons.IH)
qed

lemma ComputeZeroPadding_result:
  assumes "ComputeZeroPadding_call kk pk eps ops s cd = Inr s'"
  shows "\<exists>p. s' = AList.update pk (Tensor p) s"
  using assms
  by (auto simp: ComputeZeroPadding_call_def bind_result_def Let_def split: sum.splits)

lemma ApplyZeroPadding_result:
  assumes "ApplyZeroPadding_call kk pk ops s = Inr s'"
  shows "\<exists>k p. map_of s kk = Some (Tensor k) \<and> map_of s pk = Some (Tensor p)
           \<and> s' = AList.update kk (Tensor (apply_padding ops k p)) s"
  using assms
  by (auto simp: ApplyZeroPadding_call_def bind_result_def dict_get_def as_tensor_def
        split: sum.splits option.splits val.splits)

lemma padding_stages_result:
  assumes "Compose_call ops [ComputeZeroPadding ''kspace'' ''padding'' eps,
                             ApplyZeroPadding ''kspace'' ''padding''] (rc, sc) = Inr (r1, s1)"
  shows "r1 = rc \<and> (\<exists>kc p. map_of sc ''kspace'' = Some (Tensor kc)
           \<and> map_of s1 ''padding'' = Some (Tensor p)
           \<and> map_of s1 ''kspace'' = Some (Tensor (apply_padding ops kc p)))"
proof -
  from assms obtain sa where
    a: "ComputeZeroPadding_call ''kspace'' ''padding'' eps ops sc 0 = Inr sa" and
    b: "ApplyZeroPadding_call ''kspace'' ''padding'' ops sa = Inr s1" and
    r: "r1 = rc"
    by (auto simp: with_state_def bind_result_def split: sum.splits)
  from ComputeZeroPadding_result [OF a] obtain p where
    sa: "sa = AList.update ''padding'' (Tensor p) sc" by blast
  from ApplyZeroPadding_result [OF b] obtain k p' where
    k: "map_of sa ''kspace'' = Some (Tensor k)" and
    p': "map_of sa ''padding'' = Some (Tensor p')" and
    s1: "s1 = AList.update ''kspace'' (Tensor (apply_padding ops k p')) sa" by blast
  have kc: "map_of sc ''kspace'' = Some (Tensor k)"
    using k by (simp add: sa AList.update_conv')
  have pp: "p' = p"
    using p' by (simp add: sa AList.update_conv')
  have pad: "map_of s1 ''padding'' = Some (Tensor p)"
    by (simp add: s1 sa AList.update_conv')
  have ksp: "map_of s1 ''kspace'' = Some (Tensor (apply_padding ops k p))"
    by (simp add: s1 pp AList.update_conv')
  show ?thesis
    using r kc pad ksp by blast
qed

section \<open>The rank of ComputeScalingFactor in double precision\<close>

lemma bit_length_zero: "bit_length 0 = 0"
  by (simp add: bit_length.simps)

lemma bit_length_numeral:
  "bit_length (numeral k) = 1 + bit_length (numeral k div 2)"
  by (subst bit_length.simps) simp

lemma bit_length_one: "bit_length 1 = 1"
  by (subst bit_length.simps) (simp add: bit_length_zero)

lemma bit_length_Suc_0: "bit_length (Suc 0) = 1"
  using bit_length_one by simp

lemmas float_eval =
  bit_length_zero bit_length_numeral bit_length_one bit_length_Suc_0
  round_to_double_def overflow_to_infinity_def py_float_of_int_def py_int_def percentile_rank_def
  Let_def

text \<open>
  The rank for some percentiles: 0.75 and 0.5 are computed without rounding; for 0.3 (the
  double \<open>5404319552844595 * 2 ^ -54\<close>) and 90 elements the rounded product is below 63, so
  the rank is 63 where exact arithmetic gives 64; for \<open>1e-17\<close> the difference \<open>1 - p\<close>
  rounds to 1 and the rank is \<open>N + 1\<close>; \<open>int(nan)\<close> raises.
\<close>

lemma rank_example_exact: "percentile_rank (Finite 3 (- 2)) 4 = Inr 2"
  by (simp add: float_eval)

lemma rank_example_half: "percentile_rank (Finite 1 (- 1)) 8 = Inr 5"
  by (simp add: float_eval)

lemma rank_example_rounded: "percentile_rank (Finite 5404319552844595 (- 54)) 90 = Inr 63"
  by (simp add: float_eval)

lemma rank_example_tiny: "percentile_rank (Finite 6490371073168535 (- 109)) 8 = Inr 9"
  by (simp add: float_eval)

lemma rank_example_nan: "percentile_rank NaN 8 = Inl ValueError"
  by (simp add: float_eval)






section \<open>Further properties of ComputeImage, the builder and the random cropper\<close>

lemma sense_sample_product:
  "complex_multiplication ref_ops
     (conjugate ref_ops \<lparr>shape = [2, 1, 1, 2], data = [0, 1, 1, 0]\<rparr>)
     (id_operator \<lparr>shape = [2, 1, 1, 2], data = [1, 0, 2, 0]\<rparr> (Some [1, 2]))
   = \<lparr>shape = [2, 1, 1, 2], data = [0, - 1, 2, 0]\<rparr>"
  by (simp add: ref_ops_def ref_conjugate_def ref_complex_multiplication_def id_operator_def)

lemma sense_sample_sum:
  "sum_axis \<lparr>shape = [2, 1, 1, 2], data = [0, - 1, 2, 0 :: real]\<rparr> 0
     = \<lparr>shape = [1, 1, 2], data = [2, - 1]\<rparr>"
  by (simp add: sum_axis_def inner_size_def outer_size_def sum_blocks_def eval_nat_numeral)

lemma shape_sum_axis: "shape (sum_axis t c) = take c (shape t) @ drop (Suc c) (shape t)"
  by (simp add: sum_axis_def Let_def)

lemma CropKspace_init_crop_val: "CropKspace_init (crop_val c) = Inr (crop_val c)"
  by (cases c) (simp_all add: CropKspace_init_def crop_val_def is_iterable_or_str_def)

lemma build_mri_transforms_stages:
  "build_mri_transforms a = Inr
      ([ToTensor]
       @ (case crop a of
            None \<Rightarrow> []
          | Some c \<Rightarrow>
              if crop_truthy (crop a)
              then [CropKspace (crop_val c) (forward_operator a) (backward_operator a)
                      (image_center_crop a) (crop_type a) (Some (use_seed a)) None]
              else [])
       @ (case mask_func a of
            None \<Rightarrow> []
          | Some mf \<Rightarrow>
              [ComputeZeroPadding ''kspace'' ''padding'' (padding_eps a),
               ApplyZeroPadding ''kspace'' ''padding'',
               CreateSamplingMask mf (sampling_mask_shape_arg (crop a)) (use_seed a)
                 (estimate_sensitivity_maps a)])
       @ [EstimateSensitivityMap ''kspace'' (backward_operator a)
            (Some (if estimate_sensitivity_maps a then ''rss_estimate'' else ''unit''))
            (sensitivity_maps_gaussian a)]
       @ (if delete_acs_mask a then [DeleteKeys [''acs_mask'']] else [])
       @ [ComputeImage ''kspace'' ''target'' (backward_operator a) (image_recon_type a),
          ApplyMask ''sampling_mask'' ''kspace'' ''masked_kspace'']
       @ (case mask_func a of
            None \<Rightarrow> []
          | Some mf \<Rightarrow>
              if estimate_body_coil_image a
              then [EstimateBodyCoilImage mf (backward_operator a) (use_seed a)]
              else [])
       @ [ComputeScalingFactor (scaling_key a) (scale_percentile a) ''scaling_factor'',
          Normalize ''scaling_factor''
            [''masked_kspace'', ''target'', ''kspace'', ''body_coil_image'', ''initial_image'',
             ''initial_kspace''],
          PadCoilDimension (pad_coils a) ''masked_kspace'' 0,
          PadCoilDimension (pad_coils a) ''sensitivity_map'' 0]
       @ (if delete_kspace a then [DeleteKeys [''kspace'']] else []))"
  by (cases "crop a"; cases "mask_func a")
     (simp_all add: build_mri_transforms_def new_CropKspace_def CropKspace_init_crop_val
        new_EstimateSensitivityMap_def EstimateSensitivityMap_init_def new_ComputeImage_def
        ComputeImage_init_def new_Normalize_def Normalize_init_def Let_def)

lemma Compose_call_step:
  assumes "n < length stages"
  shows "Compose_call ops (take (Suc n) stages) st
           = bind_result (Compose_call ops (take n stages) st) (stage_call ops (stages ! n))"
proof -
  have "take (Suc n) stages = take n stages @ [stages ! n]"
    using assms by (rule take_Suc_conv_app_nth)
  moreover have "Compose_call ops [stages ! n] = stage_call ops (stages ! n)"
  proof
    fix x
    show "Compose_call ops [stages ! n] x = stage_call ops (stages ! n) x"
      by (cases "stage_call ops (stages ! n) x") simp_all
  qed
  ultimately show ?thesis by (simp add: Compose_call_append)
qed

lemma ref_random_crop_form:
  "fst (complex_random_crop ref_ops r [t] cs cont (Some sd) smp sg)
     = crop_at t cs (fst (ref_crop_offsets (shape t) cs sd smp sg))
         (snd (ref_crop_offsets (shape t) cs sd smp sg))"
  by (simp add: ref_ops_def ref_complex_random_crop_def ref_crop_offsets_def Let_def)

lemma seeded_crop_runs_c:
  "\<exists>s'. CropKspace_call (IntTuple [1, 1]) id_operator id_operator False (Some ''uniform'')
            (Some True) None ref_ops ((n, []), padded_sample_c) = Inr ((Suc n, []), s')"
  by (simp add: CropKspace_call_def dict_get_def as_tensor_def crop_shape_of_def as_int_list_def
        filename_seed_def py_str_def padded_sample_c_def ref_ops_def ref_complex_random_crop_def
        Let_def)

section \<open>PadCoilDimension pads the coil axis with leading zeros\<close>

text \<open>
  Claim C8, as amended. For a sample whose configured key holds a tensor \<open>x\<close> with \<open>c\<close>
  slots on the coil axis \<open>d\<close>, and target coil count \<open>t\<close>: when \<open>t\<close> is unset or zero,
  or \<open>c = t\<close>, the stage returns the sample unchanged; when \<open>t\<close> is not zero and
  \<open>c > t\<close> it raises (\<open>ValueError\<close>, or \<open>KeyError\<close> when the sample has no filename for
  the message); when \<open>c < t\<close> the key holds a tensor with \<open>t\<close> coil slots whose leading
  \<open>t - c\<close> slots are zero and whose trailing \<open>c\<close> slots are \<open>x\<close>.
\<close>

theorem PadCoilDimension_pads:
  assumes key: "map_of sample key = Some (Tensor x)"
    and wf: "wf_tensor x"
    and coil: "py_index coil_dim (length (shape x)) = Some d"
  shows "(num_coils = None \<or> num_coils = Some 0 \<or> num_coils = Some (int (shape x ! d)) \<longrightarrow>
            PadCoilDimension_call num_coils key coil_dim sample = Inr sample)
       \<and> (\<forall>t. num_coils = Some t \<and> t \<noteq> 0 \<and> t < int (shape x ! d) \<longrightarrow>
            PadCoilDimension_call num_coils key coil_dim sample
              = (if has_key sample ''filename'' then Inl ValueError else Inl (KeyError ''filename'')))
       \<and> (\<forall>t. num_coils = Some t \<and> int (shape x ! d) < t \<longrightarrow>
            (\<exists>y. PadCoilDimension_call num_coils key coil_dim sample
                    = Inr (AList.update key (Tensor y) sample)
                \<and> shape y = (shape x)[d := nat t]
                \<and> torch_narrow y d 0 (nat t - shape x ! d)
                    = torch_zeros ((shape x)[d := nat t - shape x ! d])
                \<and> torch_narrow y d (nat t - shape x ! d) (shape x ! d) = x))"
proof (intro conjI allI impI)
  assume "num_coils = None \<or> num_coils = Some 0 \<or> num_coils = Some (int (shape x ! d))"
  then show "PadCoilDimension_call num_coils key coil_dim sample = Inr sample"
    using key coil
    by (auto simp: PadCoilDimension_call_def has_key_def dict_get_def val_shape_def)
next
  fix t
  assume "num_coils = Some t \<and> t \<noteq> 0 \<and> t < int (shape x ! d)"
  then show "PadCoilDimension_call num_coils key coil_dim sample
              = (if has_key sample ''filename'' then Inl ValueError else Inl (KeyError ''filename''))"
    using key coil
    by (auto simp: PadCoilDimension_call_def has_key_def dict_get_def val_shape_def
          split: option.splits)
next
  fix t
  assume t: "num_coils = Some t \<and> int (shape x ! d) < t"
  let ?c = "shape x ! d"
  let ?z = "torch_zeros ((shape x)[d := nat t - ?c]) :: real tensor"
  let ?y = "torch_cat ?z x d"
  have d: "d < length (shape x)" using coil by (rule py_index_bound)
  have pad: "nat (t - int ?c) = nat t - ?c" using t by auto
  have call: "PadCoilDimension_call num_coils key coil_dim sample
                = Inr (AList.update key (Tensor ?y) sample)"
    using key coil t
    by (auto simp: PadCoilDimension_call_def has_key_def dict_get_def val_shape_def
          as_tensor_def Let_def pad)
  have sz: "shape ?z = (shape x)[d := nat t - ?c]" by (simp add: torch_zeros_def)
  have sum_c: "nat t - ?c + ?c = nat t" using t by auto
  have shp: "shape ?y = (shape x)[d := nat t]"
    using d by (simp add: torch_cat_def Let_def torch_zeros_def sum_c)
  have left: "torch_narrow ?y d 0 (nat t - ?c) = ?z"
    by (rule narrow_cat_left [OF wf_torch_zeros wf d sz])
  have right: "torch_narrow ?y d (nat t - ?c) ?c = x"
    by (rule narrow_cat_right [OF wf_torch_zeros wf d sz])
  show "\<exists>y. PadCoilDimension_call num_coils key coil_dim sample
                = Inr (AList.update key (Tensor y) sample)
            \<and> shape y = (shape x)[d := nat t]
            \<and> torch_narrow y d 0 (nat t - ?c) = torch_zeros ((shape x)[d := nat t - ?c])
            \<and> torch_narrow y d (nat t - ?c) ?c = x"
    using call shp left right by blast
qed

text \<open>
  Claim C8 as stated fails for the target \<open>t = 0\<close>: the guard \<open>if not self.num_coils\<close>
  treats zero as unset, so a tensor with two coils, more than the target, is returned
  unchanged and nothing is raised.
\<close>

theorem PadCoilDimension_zero_target:
  "PadCoilDimension_call (Some 0) ''masked_kspace'' 0 coil_sample = Inr coil_sample"
  by (simp add: PadCoilDimension_call_def)

theorem PadCoilDimension_pads_witness:
  "PadCoilDimension_call (Some 2) ''masked_kspace'' 0 coil_sample = Inr coil_sample
   \<and> PadCoilDimension_call (Some 1) ''masked_kspace'' 0 coil_sample = Inl ValueError
   \<and> (\<exists>y. PadCoilDimension_call (Some 3) ''masked_kspace'' (-2) coil_sample
             = Inr (AList.update ''masked_kspace'' (Tensor y) coil_sample)
         \<and> shape y = [2, 3, 2]
         \<and> torch_narrow y 1 0 2 = torch_zeros [2, 2, 2]
         \<and> torch_narrow y 1 2 1 = \<lparr>shape = [2, 1, 2], data = [1, 2, 3, 4]\<rparr>)"
proof -
  let ?x = "\<lparr>shape = [2, 1, 2], data = [1, 2, 3, 4 :: real]\<rparr>"
  have key: "map_of coil_sample ''masked_kspace'' = Some (Tensor ?x)"
    by (simp add: coil_sample_def)
  have wf: "wf_tensor ?x" by (simp add: wf_tensor_def)
  have c0: "py_index 0 (length (shape ?x)) = Some 0" by (simp add: py_index_def)
  have c1: "py_index (-2) (length (shape ?x)) = Some 1" by (simp add: py_index_def)
  have fn: "has_key coil_sample ''filename''" by (simp add: has_key_def coil_sample_def)
  show ?thesis
    using PadCoilDimension_pads [OF key wf c0, of "Some 2"]
      PadCoilDimension_pads [OF key wf c0, of "Some 1"]
      PadCoilDimension_pads [OF key wf c1, of "Some 3"] fn
    by simp
qed

section \<open>Normalize divides only by a factor that is present and not zero\<close>

text \<open>
  Claim C4. A sample is a dictionary, so each key occurs once. When the scaling-factor key is
  absent, or its value is falsy (zero), \<open>Normalize\<close> returns the sample as it is: no
  field changes and no \<open>scaling_diff\<close> is written. When the factor is present and truthy
  and the stage returns, the factor is not zero (a float, or the single element of a tensor
  or of an array), \<open>scaling_diff\<close> is the float zero, every field on the allow-list is
  the old field divided by the factor and every other field is unchanged. A tensor divided
  by a float or by a tensor without axes, and a numpy array divided by a float or by an
  array without axes, are divided elementwise. The stage does return when every
  allow-listed field can be divided, in particular when the factor is a non-zero float and
  the allow-listed fields are tensors, arrays and floats. A \<open>ZeroDivisionError\<close> is never
  raised, provided the operation between an array and a tensor or a tuple, which numpy and
  torch settle between them, does not raise one.
\<close>

theorem Normalize_guards_division:
  assumes dist: "distinct (map fst sample)"
  shows "(map_of sample sk = None \<or> (\<exists>f. map_of sample sk = Some f \<and> py_truthy f = Inr False) \<longrightarrow>
            Normalize_call sk keys ops sample = Inr sample)
       \<and> (\<forall>f s'. map_of sample sk = Some f \<and> py_truthy f = Inr True
              \<and> Normalize_call sk keys ops sample = Inr s' \<longrightarrow>
            (\<forall>y. f = Float y \<longrightarrow> y \<noteq> 0)
            \<and> (\<forall>b. f = Tensor b \<longrightarrow> (\<exists>y. data b = [y] \<and> y \<noteq> 0))
            \<and> (\<forall>b. f = NDArray b \<longrightarrow> (\<exists>y. data b = [y] \<and> y \<noteq> 0))
            \<and> map_of s' ''scaling_diff'' = Some (Float 0)
            \<and> (\<forall>k v. k \<noteq> ''scaling_diff'' \<and> map_of sample k = Some v \<longrightarrow>
                  (if k \<in> set keys
                   then \<exists>v'. py_truediv ops v f = Inr v' \<and> map_of s' k = Some v'
                   else map_of s' k = Some v))
            \<and> (\<forall>k a y. k \<noteq> ''scaling_diff'' \<and> k \<in> set keys
                    \<and> map_of sample k = Some (Tensor a) \<and> wf_tensor a
                    \<and> (f = Float y \<or> f = Tensor \<lparr>shape = [], data = [y]\<rparr>) \<longrightarrow>
                  map_of s' k = Some (Tensor (tensor_map (\<lambda>x. x / y) a)))
            \<and> (\<forall>k a w. k \<noteq> ''scaling_diff'' \<and> k \<in> set keys
                    \<and> map_of sample k = Some (NDArray a) \<and> wf_tensor a
                    \<and> ((\<exists>y. f = Float y \<and> w = complex_of_real y)
                        \<or> f = NDArray \<lparr>shape = [], data = [w]\<rparr>) \<longrightarrow>
                  map_of s' k = Some (NDArray (tensor_map (\<lambda>z. z / w) a))))
       \<and> (\<forall>f. map_of sample sk = Some f \<and> py_truthy f = Inr True
              \<and> (\<forall>k v. map_of sample k = Some v \<and> k \<in> set keys \<longrightarrow>
                    (\<exists>v'. py_truediv ops v f = Inr v')) \<longrightarrow>
            (\<exists>s'. Normalize_call sk keys ops sample = Inr s'))
       \<and> (\<forall>y. map_of sample sk = Some (Float y) \<and> y \<noteq> 0
              \<and> (\<forall>k v. map_of sample k = Some v \<and> k \<in> set keys \<longrightarrow>
                    (\<exists>a. v = Tensor a) \<or> (\<exists>a. v = NDArray a) \<or> (\<exists>x. v = Float x)) \<longrightarrow>
            (\<exists>s'. Normalize_call sk keys ops sample = Inr s'))
       \<and> ((\<forall>x y. mixed_truediv ops x y \<noteq> Inl ZeroDivisionError) \<longrightarrow>
            Normalize_call sk keys ops sample \<noteq> Inl ZeroDivisionError)"
proof -
  let ?f0 = "case map_of sample sk of None \<Rightarrow> NoneVal | Some v \<Rightarrow> v"
  have A: "map_of sample sk = None \<or> (\<exists>f. map_of sample sk = Some f \<and> py_truthy f = Inr False) \<longrightarrow>
            Normalize_call sk keys ops sample = Inr sample"
    by (auto simp: Normalize_call_def py_truthy_def)
  have B: "\<forall>f s'. map_of sample sk = Some f \<and> py_truthy f = Inr True
              \<and> Normalize_call sk keys ops sample = Inr s' \<longrightarrow>
            (\<forall>y. f = Float y \<longrightarrow> y \<noteq> 0)
            \<and> (\<forall>b. f = Tensor b \<longrightarrow> (\<exists>y. data b = [y] \<and> y \<noteq> 0))
            \<and> (\<forall>b. f = NDArray b \<longrightarrow> (\<exists>y. data b = [y] \<and> y \<noteq> 0))
            \<and> map_of s' ''scaling_diff'' = Some (Float 0)
            \<and> (\<forall>k v. k \<noteq> ''scaling_diff'' \<and> map_of sample k = Some v \<longrightarrow>
                  (if k \<in> set keys
                   then \<exists>v'. py_truediv ops v f = Inr v' \<and> map_of s' k = Some v'
                   else map_of s' k = Some v))
            \<and> (\<forall>k a y. k \<noteq> ''scaling_diff'' \<and> k \<in> set keys
                    \<and> map_of sample k = Some (Tensor a) \<and> wf_tensor a
                    \<and> (f = Float y \<or> f = Tensor \<lparr>shape = [], data = [y]\<rparr>) \<longrightarrow>
                  map_of s' k = Some (Tensor (tensor_map (\<lambda>x. x / y) a)))
            \<and> (\<forall>k a w. k \<noteq> ''scaling_diff'' \<and> k \<in> set keys
                    \<and> map_of sample k = Some (NDArray a) \<and> wf_tensor a
                    \<and> ((\<exists>y. f = Float y \<and> w = complex_of_real y)
                        \<or> f = NDArray \<lparr>shape = [], data = [w]\<rparr>) \<longrightarrow>
                  map_of s' k = Some (NDArray (tensor_map (\<lambda>z. z / w) a)))"
  proof (intro allI impI)
    fix f s'
    assume h: "map_of sample sk = Some f \<and> py_truthy f = Inr True
                 \<and> Normalize_call sk keys ops sample = Inr s'"
    then obtain s1 where loop: "normalize_loop ops (map fst sample) keys f sample = Inr s1"
      and s': "s' = AList.update ''scaling_diff'' (Float 0) s1"
      by (auto simp: Normalize_call_def bind_result_def split: sum.splits)
    have nz: "(\<forall>y. f = Float y \<longrightarrow> y \<noteq> 0)
                \<and> (\<forall>b. f = Tensor b \<longrightarrow> (\<exists>y. data b = [y] \<and> y \<noteq> 0))
                \<and> (\<forall>b. f = NDArray b \<longrightarrow> (\<exists>y. data b = [y] \<and> y \<noteq> 0))"
      using py_truthy_nonzero h by blast
    have diff: "map_of s' ''scaling_diff'' = Some (Float 0)"
      by (simp add: s' AList.update_conv')
    have fields: "\<forall>k v. k \<noteq> ''scaling_diff'' \<and> map_of sample k = Some v \<longrightarrow>
                  (if k \<in> set keys
                   then \<exists>v'. py_truediv ops v f = Inr v' \<and> map_of s' k = Some v'
                   else map_of s' k = Some v)"
    proof (intro allI impI)
      fix k v
      assume kv: "k \<noteq> ''scaling_diff'' \<and> map_of sample k = Some v"
      then have k: "k \<in> set (map fst sample)"
        by (metis map_of_eq_None_iff option.distinct(1) set_map)
      have eq: "map_of s' k = map_of s1 k" using kv by (simp add: s' AList.update_conv')
      show "if k \<in> set keys
            then \<exists>v'. py_truediv ops v f = Inr v' \<and> map_of s' k = Some v'
            else map_of s' k = Some v"
        using normalize_loop_result [OF loop dist, of k] k kv eq by auto
    qed
    have tensors: "\<forall>k a y. k \<noteq> ''scaling_diff'' \<and> k \<in> set keys
                    \<and> map_of sample k = Some (Tensor a) \<and> wf_tensor a
                    \<and> (f = Float y \<or> f = Tensor \<lparr>shape = [], data = [y]\<rparr>) \<longrightarrow>
                  map_of s' k = Some (Tensor (tensor_map (\<lambda>x. x / y) a))"
    proof (intro allI impI)
      fix k a y
      assume t: "k \<noteq> ''scaling_diff'' \<and> k \<in> set keys
                    \<and> map_of sample k = Some (Tensor a) \<and> wf_tensor a
                    \<and> (f = Float y \<or> f = Tensor \<lparr>shape = [], data = [y]\<rparr>)"
      then have "py_truediv ops (Tensor a) f = Inr (Tensor (tensor_map (\<lambda>x. x / y) a))"
        by (auto simp: py_truediv_tensor_scalar)
      moreover have "\<exists>v'. py_truediv ops (Tensor a) f = Inr v' \<and> map_of s' k = Some v'"
        using fields t by (auto split: if_splits)
      ultimately show "map_of s' k = Some (Tensor (tensor_map (\<lambda>x. x / y) a))" by auto
    qed
    have arrays: "\<forall>k a w. k \<noteq> ''scaling_diff'' \<and> k \<in> set keys
                    \<and> map_of sample k = Some (NDArray a) \<and> wf_tensor a
                    \<and> ((\<exists>y. f = Float y \<and> w = complex_of_real y)
                        \<or> f = NDArray \<lparr>shape = [], data = [w]\<rparr>) \<longrightarrow>
                  map_of s' k = Some (NDArray (tensor_map (\<lambda>z. z / w) a))"
    proof (intro allI impI)
      fix k a w
      assume t: "k \<noteq> ''scaling_diff'' \<and> k \<in> set keys
                    \<and> map_of sample k = Some (NDArray a) \<and> wf_tensor a
                    \<and> ((\<exists>y. f = Float y \<and> w = complex_of_real y)
                        \<or> f = NDArray \<lparr>shape = [], data = [w]\<rparr>)"
      then have "py_truediv ops (NDArray a) f = Inr (NDArray (tensor_map (\<lambda>z. z / w) a))"
        by (auto simp: py_truediv_array_scalar)
      moreover have "\<exists>v'. py_truediv ops (NDArray a) f = Inr v' \<and> map_of s' k = Some v'"
        using fields t by (auto split: if_splits)
      ultimately show "map_of s' k = Some (NDArray (tensor_map (\<lambda>z. z / w) a))" by auto
    qed
    show "(\<forall>y. f = Float y \<longrightarrow> y \<noteq> 0)
            \<and> (\<forall>b. f = Tensor b \<longrightarrow> (\<exists>y. data b = [y] \<and> y \<noteq> 0))
            \<and> (\<forall>b. f = NDArray b \<longrightarrow> (\<exists>y. data b = [y] \<and> y \<noteq> 0))
            \<and> map_of s' ''scaling_diff'' = Some (Float 0)
            \<and> (\<forall>k v. k \<noteq> ''scaling_diff'' \<and> map_of sample k = Some v \<longrightarrow>
                  (if k \<in> set keys
                   then \<exists>v'. py_truediv ops v f = Inr v' \<and> map_of s' k = Some v'
                   else map_of s' k = Some v))
            \<and> (\<forall>k a y. k \<noteq> ''scaling_diff'' \<and> k \<in> set keys
                    \<and> map_of sample k = Some (Tensor a) \<and> wf_tensor a
                    \<and> (f = Float y \<or> f = Tensor \<lparr>shape = [], data = [y]\<rparr>) \<longrightarrow>
                  map_of s' k = Some (Tensor (tensor_map (\<lambda>x. x / y) a)))
            \<and> (\<forall>k a w. k \<noteq> ''scaling_diff'' \<and> k \<in> set keys
                    \<and> map_of sample k = Some (NDArray a) \<and> wf_tensor a
                    \<and> ((\<exists>y. f = Float y \<and> w = complex_of_real y)
                        \<or> f = NDArray \<lparr>shape = [], data = [w]\<rparr>) \<longrightarrow>
                  map_of s' k = Some (NDArray (tensor_map (\<lambda>z. z / w) a)))"
      using nz diff
      by (intro conjI) (blast, blast, blast, blast, rule fields, rule tensors, rule arrays)
  qed
  have C: "\<forall>f. map_of sample sk = Some f \<and> py_truthy f = Inr True
              \<and> (\<forall>k v. map_of sample k = Some v \<and> k \<in> set keys \<longrightarrow>
                    (\<exists>v'. py_truediv ops v f = Inr v')) \<longrightarrow>
            (\<exists>s'. Normalize_call sk keys ops sample = Inr s')"
  proof (intro allI impI)
    fix f
    assume h: "map_of sample sk = Some f \<and> py_truthy f = Inr True
        \<and> (\<forall>k v. map_of sample k = Some v \<and> k \<in> set keys \<longrightarrow>
              (\<exists>v'. py_truediv ops v f = Inr v'))"
    have "\<forall>k\<in>set (map fst sample). k \<in> set keys \<longrightarrow>
            (\<exists>v v'. map_of sample k = Some v \<and> py_truediv ops v f = Inr v')"
    proof (intro ballI impI)
      fix k
      assume k: "k \<in> set (map fst sample)" and kk: "k \<in> set keys"
      then obtain v where "map_of sample k = Some v"
        by (cases "map_of sample k") (auto simp: map_of_eq_None_iff)
      with h kk show "\<exists>v v'. map_of sample k = Some v \<and> py_truediv ops v f = Inr v'" by blast
    qed
    then obtain s1 where "normalize_loop ops (map fst sample) keys f sample = Inr s1"
      using normalize_loop_succeeds dist by blast
    with h show "\<exists>s'. Normalize_call sk keys ops sample = Inr s'"
      by (simp add: Normalize_call_def)
  qed
  have C': "\<forall>y. map_of sample sk = Some (Float y) \<and> y \<noteq> 0
              \<and> (\<forall>k v. map_of sample k = Some v \<and> k \<in> set keys \<longrightarrow>
                    (\<exists>a. v = Tensor a) \<or> (\<exists>a. v = NDArray a) \<or> (\<exists>x. v = Float x)) \<longrightarrow>
            (\<exists>s'. Normalize_call sk keys ops sample = Inr s')"
  proof (intro allI impI)
    fix y
    assume h: "map_of sample sk = Some (Float y) \<and> y \<noteq> 0
              \<and> (\<forall>k v. map_of sample k = Some v \<and> k \<in> set keys \<longrightarrow>
                    (\<exists>a. v = Tensor a) \<or> (\<exists>a. v = NDArray a) \<or> (\<exists>x. v = Float x))"
    have t: "py_truthy (Float y) = Inr True" using h by (simp add: py_truthy_def)
    have "\<exists>v'. py_truediv ops v (Float y) = Inr v'"
      if "map_of sample k = Some v \<and> k \<in> set keys" for k v
    proof -
      from h that have "(\<exists>a. v = Tensor a) \<or> (\<exists>a. v = NDArray a) \<or> (\<exists>x. v = Float x)" by blast
      then show ?thesis using h by (auto simp: py_truediv_def)
    qed
    then show "\<exists>s'. Normalize_call sk keys ops sample = Inr s'"
      using C [rule_format, of "Float y"] h t by blast
  qed
  have D: "(\<forall>x y. mixed_truediv ops x y \<noteq> Inl ZeroDivisionError) \<longrightarrow>
            Normalize_call sk keys ops sample \<noteq> Inl ZeroDivisionError"
  proof
    assume mx: "\<forall>x y. mixed_truediv ops x y \<noteq> Inl ZeroDivisionError"
    show "Normalize_call sk keys ops sample \<noteq> Inl ZeroDivisionError"
    proof (cases "py_truthy ?f0")
      case (Inl e)
      then show ?thesis using py_truthy_not_zero_division [of ?f0]
        by (auto simp: Normalize_call_def)
    next
      case (Inr b)
      then show ?thesis
        using normalize_loop_no_zero_division [of ?f0 ops, OF _ mx]
        by (auto simp: Normalize_call_def bind_result_def split: sum.splits)
    qed
  qed
  show ?thesis
    by (intro conjI) (rule A, rule B, rule C, rule C', rule D)
qed

theorem Normalize_guards_division_witness:
  "Normalize_call ''scaling_factor'' (Normalize_init None) ref_ops coil_sample = Inr coil_sample
   \<and> Normalize_call ''scaling_factor'' (Normalize_init None) ref_ops zero_factor_sample
       = Inr zero_factor_sample
   \<and> (\<exists>s'. Normalize_call ''scaling_factor'' (Normalize_init None) ref_ops norm_sample = Inr s'
         \<and> map_of s' ''scaling_diff'' = Some (Float 0)
         \<and> map_of s' ''kspace'' = Some (Tensor \<lparr>shape = [1, 2], data = [1, 2]\<rparr>)
         \<and> map_of s' ''filename'' = Some (Str ''a.h5''))
   \<and> (\<exists>s'. Normalize_call ''scaling_factor'' (Normalize_init None) ref_ops array_sample = Inr s'
         \<and> map_of s' ''scaling_diff'' = Some (Float 0)
         \<and> map_of s' ''kspace'' = Some (NDArray \<lparr>shape = [1, 2], data = [1, 2 * \<i>]\<rparr>)
         \<and> map_of s' ''filename'' = Some (Str ''a.h5''))
   \<and> (\<forall>x y. mixed_truediv ref_ops x y \<noteq> Inl ZeroDivisionError)
   \<and> Normalize_call ''scaling_factor'' (Normalize_init None) ref_ops array_sample
       \<noteq> Inl ZeroDivisionError"
proof -
  let ?keys = "Normalize_init None"
  let ?f = "Tensor \<lparr>shape = [], data = [2]\<rparr>"
  have d1: "distinct (map fst coil_sample)" by (simp add: coil_sample_def)
  have d2: "distinct (map fst zero_factor_sample)" by (simp add: zero_factor_sample_def)
  have d3: "distinct (map fst norm_sample)" by (simp add: norm_sample_def)
  have d4: "distinct (map fst array_sample)" by (simp add: array_sample_def)
  have absent: "map_of coil_sample ''scaling_factor'' = None" by (simp add: coil_sample_def)
  have zero: "map_of zero_factor_sample ''scaling_factor'' = Some (Float 0)
                \<and> py_truthy (Float 0) = Inr False"
    by (simp add: zero_factor_sample_def py_truthy_def)
  have factor: "map_of norm_sample ''scaling_factor'' = Some ?f \<and> py_truthy ?f = Inr True"
    by (simp add: norm_sample_def py_truthy_def)
  have divisible: "\<forall>k v. map_of norm_sample k = Some v \<and> k \<in> set ?keys
                     \<longrightarrow> (\<exists>v'. py_truediv ref_ops v ?f = Inr v')"
    by (auto simp: norm_sample_def Normalize_init_def py_truediv_tensor_scalar wf_tensor_def
          split: if_splits)
  note T = Normalize_guards_division [OF d3, of "''scaling_factor''" ?keys ref_ops]
  note TB = T [THEN conjunct2, THEN conjunct1, rule_format]
  note TC = T [THEN conjunct2, THEN conjunct2, THEN conjunct1, rule_format]
  from TC [of ?f] factor divisible
  obtain s' where s': "Normalize_call ''scaling_factor'' ?keys ref_ops norm_sample = Inr s'"
    by blast
  have pre: "map_of norm_sample ''scaling_factor'' = Some ?f \<and> py_truthy ?f = Inr True
               \<and> Normalize_call ''scaling_factor'' ?keys ref_ops norm_sample = Inr s'"
    using factor s' by simp
  note R = TB [OF pre]
  have r1: "map_of s' ''scaling_diff'' = Some (Float 0)"
    using R by simp
  have r2: "map_of s' ''kspace''
              = Some (Tensor (tensor_map (\<lambda>x. x / 2) \<lparr>shape = [1, 2], data = [2, 4]\<rparr>))"
    using R [THEN conjunct2, THEN conjunct2, THEN conjunct2, THEN conjunct2, THEN conjunct2,
             THEN conjunct1, rule_format, of "''kspace''" "\<lparr>shape = [1, 2], data = [2, 4]\<rparr>" 2]
    by (simp add: norm_sample_def Normalize_init_def wf_tensor_def)
  have r3: "map_of s' ''filename'' = Some (Str ''a.h5'')"
    using R [THEN conjunct2, THEN conjunct2, THEN conjunct2, THEN conjunct2, THEN conjunct1,
             rule_format, of "''filename''" "Str ''a.h5''"]
    by (simp add: norm_sample_def Normalize_init_def)
  have res: "map_of s' ''scaling_diff'' = Some (Float 0)
         \<and> map_of s' ''kspace'' = Some (Tensor \<lparr>shape = [1, 2], data = [1, 2]\<rparr>)
         \<and> map_of s' ''filename'' = Some (Str ''a.h5'')"
    using r1 r2 r3 by (simp add: tensor_map_def)
  have w3: "\<exists>s'. Normalize_call ''scaling_factor'' ?keys ref_ops norm_sample = Inr s'
         \<and> map_of s' ''scaling_diff'' = Some (Float 0)
         \<and> map_of s' ''kspace'' = Some (Tensor \<lparr>shape = [1, 2], data = [1, 2]\<rparr>)
         \<and> map_of s' ''filename'' = Some (Str ''a.h5'')"
    using s' res by blast
  note U = Normalize_guards_division [OF d4, of "''scaling_factor''" ?keys ref_ops]
  note UB = U [THEN conjunct2, THEN conjunct1, rule_format]
  note UC = U [THEN conjunct2, THEN conjunct2, THEN conjunct2, THEN conjunct1, rule_format]
  note UD = U [THEN conjunct2, THEN conjunct2, THEN conjunct2, THEN conjunct2, THEN mp]
  have afactor: "map_of array_sample ''scaling_factor'' = Some (Float 2) \<and> (2 :: real) \<noteq> 0
       \<and> (\<forall>k v. map_of array_sample k = Some v \<and> k \<in> set ?keys \<longrightarrow>
              (\<exists>a. v = Tensor a) \<or> (\<exists>a. v = NDArray a) \<or> (\<exists>x. v = Float x))"
    by (auto simp: array_sample_def Normalize_init_def split: if_splits)
  from UC [OF afactor]
  obtain t' where t': "Normalize_call ''scaling_factor'' ?keys ref_ops array_sample = Inr t'"
    by blast
  have apre: "map_of array_sample ''scaling_factor'' = Some (Float 2)
               \<and> py_truthy (Float 2) = Inr True
               \<and> Normalize_call ''scaling_factor'' ?keys ref_ops array_sample = Inr t'"
    using t' by (simp add: array_sample_def py_truthy_def)
  note Q = UB [OF apre]
  have q1: "map_of t' ''scaling_diff'' = Some (Float 0)"
    using Q by simp
  have q2: "map_of t' ''kspace''
              = Some (NDArray (tensor_map (\<lambda>z. z / 2) \<lparr>shape = [1, 2], data = [2, 4 * \<i>]\<rparr>))"
    using Q [THEN conjunct2, THEN conjunct2, THEN conjunct2, THEN conjunct2, THEN conjunct2,
             THEN conjunct2, rule_format,
             of "''kspace''" "\<lparr>shape = [1, 2], data = [2, 4 * \<i>]\<rparr>" 2]
    by (simp add: array_sample_def Normalize_init_def wf_tensor_def)
  have q3: "map_of t' ''filename'' = Some (Str ''a.h5'')"
    using Q [THEN conjunct2, THEN conjunct2, THEN conjunct2, THEN conjunct2, THEN conjunct1,
             rule_format, of "''filename''" "Str ''a.h5''"]
    by (simp add: array_sample_def Normalize_init_def)
  have w4: "\<exists>s'. Normalize_call ''scaling_factor'' ?keys ref_ops array_sample = Inr s'
         \<and> map_of s' ''scaling_diff'' = Some (Float 0)
         \<and> map_of s' ''kspace'' = Some (NDArray \<lparr>shape = [1, 2], data = [1, 2 * \<i>]\<rparr>)
         \<and> map_of s' ''filename'' = Some (Str ''a.h5'')"
    using t' q1 q2 q3 by (simp add: tensor_map_def)
  have mx: "\<forall>x y. mixed_truediv ref_ops x y \<noteq> Inl ZeroDivisionError"
    by (simp add: ref_ops_def)
  have w5: "Normalize_call ''scaling_factor'' ?keys ref_ops array_sample \<noteq> Inl ZeroDivisionError"
    by (rule UD [OF mx])
  have w1: "Normalize_call ''scaling_factor'' ?keys ref_ops coil_sample = Inr coil_sample"
    using Normalize_guards_division [OF d1, of "''scaling_factor''" ?keys ref_ops, THEN conjunct1]
      absent
    by simp
  have w2: "Normalize_call ''scaling_factor'' ?keys ref_ops zero_factor_sample
              = Inr zero_factor_sample"
    using Normalize_guards_division [OF d2, of "''scaling_factor''" ?keys ref_ops, THEN conjunct1]
      zero
    by blast
  show ?thesis
    by (intro conjI) (rule w1, rule w2, rule w3, rule w4, rule mx, rule w5)
qed

section \<open>ComputeScalingFactor selects an order statistic from the top\<close>




section \<open>ComputeImage\<close>

text \<open>
  Claim C5. For a sample whose k-space key holds a tensor, the stage back-projects it with
  the backward operator over the spatial axes and writes the target key: for \<open>complex\<close>
  the sum of the coil images over the coil axis; for \<open>complex_mod\<close> the modulus of that
  sum; for \<open>rss\<close> the root-sum-of-squares over the coil axis; for \<open>sense\<close> the sum over
  the coil axis of the conjugated sensitivity map multiplied with the coil images; for
  \<open>sense_mod\<close> the modulus of that. The sum exists whenever the coil axis does, and
  each of its elements is the sum of the elements of the coil slices at that place.
\<close>

theorem ComputeImage_combines:
  assumes k: "map_of sample kk = Some (Tensor ksp)"
  shows "(\<forall>s. ty = ''complex'' \<and> torch_sum (bo ksp (Some sd)) cd = Inr s \<longrightarrow>
            ComputeImage_call kk tk bo ty ops sample cd sd xd
              = Inr (AList.update tk (Tensor s) sample))
       \<and> (\<forall>s. ty = ''complex_mod'' \<and> torch_sum (bo ksp (Some sd)) cd = Inr s \<longrightarrow>
            ComputeImage_call kk tk bo ty ops sample cd sd xd
              = Inr (AList.update tk (Tensor (modulus ops s (Some xd))) sample))
       \<and> (ty = ''rss'' \<longrightarrow>
            ComputeImage_call kk tk bo ty ops sample cd sd xd
              = Inr (AList.update tk (Tensor (root_sum_of_squares ops (bo ksp (Some sd)) cd)) sample))
       \<and> (\<forall>sm s. ty = ''sense'' \<and> map_of sample ''sensitivity_map'' = Some (Tensor sm)
              \<and> torch_sum (complex_multiplication ops (conjugate ops sm) (bo ksp (Some sd))) cd = Inr s \<longrightarrow>
            ComputeImage_call kk tk bo ty ops sample cd sd xd
              = Inr (AList.update tk (Tensor s) sample))
       \<and> (\<forall>sm s. ty = ''sense_mod'' \<and> map_of sample ''sensitivity_map'' = Some (Tensor sm)
              \<and> torch_sum (complex_multiplication ops (conjugate ops sm) (bo ksp (Some sd))) cd = Inr s \<longrightarrow>
            ComputeImage_call kk tk bo ty ops sample cd sd xd
              = Inr (AList.update tk (Tensor (modulus ops s (Some xd))) sample))
       \<and> (\<forall>t c. py_index cd (length (shape t)) = Some c \<longrightarrow>
            torch_sum t cd = Inr (sum_axis t c)
            \<and> (\<forall>blk j. wf_tensor t \<and> blk < outer_size c (shape t) \<and> j < inner_size c (shape t) \<longrightarrow>
                  data (sum_axis t c) ! (blk * inner_size c (shape t) + j)
                    = (\<Sum>i<shape t ! c.
                         data t ! ((blk * (shape t ! c) + i) * inner_size c (shape t) + j))))"
proof -
  have A: "\<forall>s. ty = ''complex'' \<and> torch_sum (bo ksp (Some sd)) cd = Inr s \<longrightarrow>
            ComputeImage_call kk tk bo ty ops sample cd sd xd
              = Inr (AList.update tk (Tensor s) sample)"
    using k by (simp add: ComputeImage_call_def dict_get_def as_tensor_def)
  have B: "\<forall>s. ty = ''complex_mod'' \<and> torch_sum (bo ksp (Some sd)) cd = Inr s \<longrightarrow>
            ComputeImage_call kk tk bo ty ops sample cd sd xd
              = Inr (AList.update tk (Tensor (modulus ops s (Some xd))) sample)"
    using k
    by (simp add: ComputeImage_call_def dict_get_def as_tensor_def AList.update_conv')
  have C: "ty = ''rss'' \<longrightarrow>
            ComputeImage_call kk tk bo ty ops sample cd sd xd
              = Inr (AList.update tk (Tensor (root_sum_of_squares ops (bo ksp (Some sd)) cd)) sample)"
    using k by (simp add: ComputeImage_call_def dict_get_def as_tensor_def)
  have D: "\<forall>sm s. ty = ''sense'' \<and> map_of sample ''sensitivity_map'' = Some (Tensor sm)
              \<and> torch_sum (complex_multiplication ops (conjugate ops sm) (bo ksp (Some sd))) cd = Inr s \<longrightarrow>
            ComputeImage_call kk tk bo ty ops sample cd sd xd
              = Inr (AList.update tk (Tensor s) sample)"
    using k
    by (simp add: ComputeImage_call_def dict_get_def as_tensor_def has_key_def)
  have E: "\<forall>sm s. ty = ''sense_mod'' \<and> map_of sample ''sensitivity_map'' = Some (Tensor sm)
              \<and> torch_sum (complex_multiplication ops (conjugate ops sm) (bo ksp (Some sd))) cd = Inr s \<longrightarrow>
            ComputeImage_call kk tk bo ty ops sample cd sd xd
              = Inr (AList.update tk (Tensor (modulus ops s (Some xd))) sample)"
    using k
    by (simp add: ComputeImage_call_def dict_get_def as_tensor_def has_key_def AList.update_conv')
  have F: "\<forall>t c. py_index cd (length (shape t)) = Some c \<longrightarrow>
            torch_sum t cd = Inr (sum_axis t c)
            \<and> (\<forall>blk j. wf_tensor t \<and> blk < outer_size c (shape t) \<and> j < inner_size c (shape t) \<longrightarrow>
                  data (sum_axis t c) ! (blk * inner_size c (shape t) + j)
                    = (\<Sum>i<shape t ! c.
                         data t ! ((blk * (shape t ! c) + i) * inner_size c (shape t) + j)))"
  proof (intro allI impI conjI)
    fix t :: "real tensor" and c
    assume c: "py_index cd (length (shape t)) = Some c"
    show "torch_sum t cd = Inr (sum_axis t c)" using c by (rule torch_sum_axis)
    fix blk j
    assume "wf_tensor t \<and> blk < outer_size c (shape t) \<and> j < inner_size c (shape t)"
    then show "data (sum_axis t c) ! (blk * inner_size c (shape t) + j)
                    = (\<Sum>i<shape t ! c.
                         data t ! ((blk * (shape t ! c) + i) * inner_size c (shape t) + j))"
      using sum_axis_nth [of t c blk j] py_index_bound [OF c] by simp
  qed
  show ?thesis
    by (intro conjI) (rule A, rule B, rule C, rule D, rule E, rule F)
qed

text \<open>
  Claim C6. With reconstruction type \<open>sense\<close> or \<open>sense_mod\<close>, a sample without the key
  \<open>sensitivity_map\<close> makes the stage raise: \<open>ItemNotFoundException\<close> when the k-space
  key holds a tensor (and \<open>KeyError\<close> when the k-space itself is missing). With the
  sensitivity map present no \<open>ItemNotFoundException\<close> is raised.
\<close>

theorem ComputeImage_sense_needs_map:
  assumes ty: "ty = ''sense'' \<or> ty = ''sense_mod''"
  shows "(\<not> has_key sample ''sensitivity_map'' \<longrightarrow>
            (\<exists>e. ComputeImage_call kk tk bo ty ops sample cd sd xd = Inl e)
            \<and> (\<forall>k. map_of sample kk = Some (Tensor k) \<longrightarrow>
                  ComputeImage_call kk tk bo ty ops sample cd sd xd
                    = Inl (ItemNotFoundException ''sensitivity map''))
            \<and> (map_of sample kk = None \<longrightarrow>
                  ComputeImage_call kk tk bo ty ops sample cd sd xd = Inl (KeyError kk)))
       \<and> (has_key sample ''sensitivity_map'' \<longrightarrow>
            (\<forall>item. ComputeImage_call kk tk bo ty ops sample cd sd xd
                      \<noteq> Inl (ItemNotFoundException item)))"
proof -
  have t: "ty \<notin> {''complex'', ''complex_mod'', ''rss''}" using ty by auto
  note S = ComputeImage_sense_branch [OF t, of sample kk tk bo ops cd sd xd]
  have raises: "\<exists>e. ComputeImage_call kk tk bo ty ops sample cd sd xd = Inl e"
    if "\<not> has_key sample ''sensitivity_map''"
  proof (cases "map_of sample kk")
    case None
    with S show ?thesis by simp
  next
    case (Some kv)
    show ?thesis
    proof (cases "\<exists>k. kv = Tensor k")
      case False
      with S Some show ?thesis by simp
    next
      case True
      with S Some that show ?thesis by auto
    qed
  qed
  show ?thesis
    using raises S ComputeImage_sense_no_item_error [OF t] by blast
qed

text \<open>
  Claim C10. A reconstruction type that is none of the five names is accepted by the
  constructor, and the call never raises \<open>ValueError\<close>: it behaves as for \<open>sense\<close>.
  It raises \<open>ItemNotFoundException\<close> when the sensitivity map is absent and only then,
  and otherwise stores the sum over the coil axis of the conjugated sensitivity map
  multiplied with the coil images, without taking the modulus: the stored tensor has the
  shape of the product without the coil axis, and each of its elements is the sum, over
  the coils, of the elements of the product at that place.
\<close>

theorem ComputeImage_unknown_type_is_sense:
  assumes ty: "ty \<notin> {''complex'', ''complex_mod'', ''rss'', ''sense'', ''sense_mod''}"
  shows "ComputeImage_init ty = Inr ty
       \<and> ComputeImage_call kk tk bo ty ops sample cd sd xd \<noteq> Inl ValueError
       \<and> ComputeImage_call kk tk bo ty ops sample cd sd xd
           = ComputeImage_call kk tk bo ''sense'' ops sample cd sd xd
       \<and> (\<forall>k. map_of sample kk = Some (Tensor k) \<and> \<not> has_key sample ''sensitivity_map'' \<longrightarrow>
            ComputeImage_call kk tk bo ty ops sample cd sd xd
              = Inl (ItemNotFoundException ''sensitivity map''))
       \<and> (\<forall>k sm s. map_of sample kk = Some (Tensor k)
              \<and> map_of sample ''sensitivity_map'' = Some (Tensor sm)
              \<and> torch_sum (complex_multiplication ops (conjugate ops sm) (bo k (Some sd))) cd = Inr s \<longrightarrow>
            ComputeImage_call kk tk bo ty ops sample cd sd xd
              = Inr (AList.update tk (Tensor s) sample))
       \<and> (has_key sample ''sensitivity_map'' \<longrightarrow>
            (\<forall>item. ComputeImage_call kk tk bo ty ops sample cd sd xd
                      \<noteq> Inl (ItemNotFoundException item)))
       \<and> (\<forall>k sm c. map_of sample kk = Some (Tensor k)
              \<and> map_of sample ''sensitivity_map'' = Some (Tensor sm)
              \<and> py_index cd
                   (length (shape (complex_multiplication ops (conjugate ops sm) (bo k (Some sd)))))
                  = Some c \<longrightarrow>
            ComputeImage_call kk tk bo ty ops sample cd sd xd
              = Inr (AList.update tk
                       (Tensor (sum_axis
                                  (complex_multiplication ops (conjugate ops sm) (bo k (Some sd))) c))
                       sample)
            \<and> shape (sum_axis (complex_multiplication ops (conjugate ops sm) (bo k (Some sd))) c)
                = take c (shape (complex_multiplication ops (conjugate ops sm) (bo k (Some sd))))
                  @ drop (Suc c)
                      (shape (complex_multiplication ops (conjugate ops sm) (bo k (Some sd))))
            \<and> (\<forall>blk j.
                  wf_tensor (complex_multiplication ops (conjugate ops sm) (bo k (Some sd)))
                  \<and> blk < outer_size c
                            (shape (complex_multiplication ops (conjugate ops sm) (bo k (Some sd))))
                  \<and> j < inner_size c
                          (shape (complex_multiplication ops (conjugate ops sm) (bo k (Some sd))))
                  \<longrightarrow>
                  data (sum_axis (complex_multiplication ops (conjugate ops sm) (bo k (Some sd))) c)
                    ! (blk * inner_size c
                               (shape (complex_multiplication ops (conjugate ops sm)
                                         (bo k (Some sd)))) + j)
                  = (\<Sum>i<shape (complex_multiplication ops (conjugate ops sm) (bo k (Some sd))) ! c.
                       data (complex_multiplication ops (conjugate ops sm) (bo k (Some sd)))
                         ! ((blk * (shape (complex_multiplication ops (conjugate ops sm)
                                             (bo k (Some sd))) ! c) + i)
                              * inner_size c
                                  (shape (complex_multiplication ops (conjugate ops sm)
                                            (bo k (Some sd)))) + j))))"
proof -
  have t: "ty \<notin> {''complex'', ''complex_mod'', ''rss''}" and nm: "ty \<noteq> ''sense_mod''"
    using ty by auto
  note S = ComputeImage_sense_branch [OF t, of sample kk tk bo ops cd sd xd]
  have same: "ComputeImage_call kk tk bo ty ops sample cd sd xd
           = ComputeImage_call kk tk bo ''sense'' ops sample cd sd xd"
    using ty by (simp add: ComputeImage_call_def)
  have nv: "ComputeImage_call kk tk bo ty ops sample cd sd xd \<noteq> Inl ValueError"
    using ty
    by (auto simp: ComputeImage_call_def dict_get_def bind_result_def
          split: option.splits sum.splits dest: as_tensor_error torch_sum_error)
  have sense: "\<forall>k sm s. map_of sample kk = Some (Tensor k)
              \<and> map_of sample ''sensitivity_map'' = Some (Tensor sm)
              \<and> torch_sum (complex_multiplication ops (conjugate ops sm) (bo k (Some sd))) cd = Inr s \<longrightarrow>
            ComputeImage_call kk tk bo ty ops sample cd sd xd
              = Inr (AList.update tk (Tensor s) sample)"
    using S [THEN conjunct2, THEN conjunct2, THEN conjunct2, THEN conjunct2, THEN conjunct2] nm
    by simp
  have missing: "\<forall>k. map_of sample kk = Some (Tensor k) \<and> \<not> has_key sample ''sensitivity_map'' \<longrightarrow>
            ComputeImage_call kk tk bo ty ops sample cd sd xd
              = Inl (ItemNotFoundException ''sensitivity map'')"
    by (rule S [THEN conjunct2, THEN conjunct2, THEN conjunct1])
  have present: "has_key sample ''sensitivity_map'' \<longrightarrow>
            (\<forall>item. ComputeImage_call kk tk bo ty ops sample cd sd xd
                      \<noteq> Inl (ItemNotFoundException item))"
    using ComputeImage_sense_no_item_error [OF t] by blast
  have init: "ComputeImage_init ty = Inr ty" by (simp add: ComputeImage_init_def)
  have summed: "ComputeImage_call kk tk bo ty ops sample cd sd xd
              = Inr (AList.update tk (Tensor (sum_axis P c)) sample)
            \<and> shape (sum_axis P c) = take c (shape P) @ drop (Suc c) (shape P)
            \<and> (\<forall>blk j. wf_tensor P \<and> blk < outer_size c (shape P) \<and> j < inner_size c (shape P)
                  \<longrightarrow>
                  data (sum_axis P c) ! (blk * inner_size c (shape P) + j)
                  = (\<Sum>i<shape P ! c.
                       data P ! ((blk * (shape P ! c) + i) * inner_size c (shape P) + j)))"
    if h: "map_of sample kk = Some (Tensor k)
              \<and> map_of sample ''sensitivity_map'' = Some (Tensor sm)
              \<and> py_index cd (length (shape P)) = Some c"
      and P: "P = complex_multiplication ops (conjugate ops sm) (bo k (Some sd))"
    for k sm c and P :: "real tensor"
  proof -
    have c: "py_index cd (length (shape P)) = Some c" using h by simp
    have s: "torch_sum P cd = Inr (sum_axis P c)" using c by (rule torch_sum_axis)
    have call: "ComputeImage_call kk tk bo ty ops sample cd sd xd
              = Inr (AList.update tk (Tensor (sum_axis P c)) sample)"
      using sense [rule_format, of k sm "sum_axis P c"] h s unfolding P by blast
    have el: "\<forall>blk j. wf_tensor P \<and> blk < outer_size c (shape P) \<and> j < inner_size c (shape P)
                  \<longrightarrow>
                  data (sum_axis P c) ! (blk * inner_size c (shape P) + j)
                  = (\<Sum>i<shape P ! c.
                       data P ! ((blk * (shape P ! c) + i) * inner_size c (shape P) + j))"
      using sum_axis_nth [of P c] py_index_bound [OF c] by blast
    show ?thesis
      by (intro conjI) (rule call, rule shape_sum_axis, rule el)
  qed
  have summed': "\<forall>k sm c. map_of sample kk = Some (Tensor k)
              \<and> map_of sample ''sensitivity_map'' = Some (Tensor sm)
              \<and> py_index cd
                   (length (shape (complex_multiplication ops (conjugate ops sm) (bo k (Some sd)))))
                  = Some c \<longrightarrow>
            ComputeImage_call kk tk bo ty ops sample cd sd xd
              = Inr (AList.update tk
                       (Tensor (sum_axis
                                  (complex_multiplication ops (conjugate ops sm) (bo k (Some sd))) c))
                       sample)
            \<and> shape (sum_axis (complex_multiplication ops (conjugate ops sm) (bo k (Some sd))) c)
                = take c (shape (complex_multiplication ops (conjugate ops sm) (bo k (Some sd))))
                  @ drop (Suc c)
                      (shape (complex_multiplication ops (conjugate ops sm) (bo k (Some sd))))
            \<and> (\<forall>blk j.
                  wf_tensor (complex_multiplication ops (conjugate ops sm) (bo k (Some sd)))
                  \<and> blk < outer_size c
                            (shape (complex_multiplication ops (conjugate ops sm) (bo k (Some sd))))
                  \<and> j < inner_size c
                          (shape (complex_multiplication ops (conjugate ops sm) (bo k (Some sd))))
                  \<longrightarrow>
                  data (sum_axis (complex_multiplication ops (conjugate ops sm) (bo k (Some sd))) c)
                    ! (blk * inner_size c
                               (shape (complex_multiplication ops (conjugate ops sm)
                                         (bo k (Some sd)))) + j)
                  = (\<Sum>i<shape (complex_multiplication ops (conjugate ops sm) (bo k (Some sd))) ! c.
                       data (complex_multiplication ops (conjugate ops sm) (bo k (Some sd)))
                         ! ((blk * (shape (complex_multiplication ops (conjugate ops sm)
                                             (bo k (Some sd))) ! c) + i)
                              * inner_size c
                                  (shape (complex_multiplication ops (conjugate ops sm)
                                            (bo k (Some sd)))) + j)))"
  proof (intro allI impI)
    fix k sm c
    assume h: "map_of sample kk = Some (Tensor k)
              \<and> map_of sample ''sensitivity_map'' = Some (Tensor sm)
              \<and> py_index cd
                   (length (shape (complex_multiplication ops (conjugate ops sm) (bo k (Some sd)))))
                  = Some c"
    show "ComputeImage_call kk tk bo ty ops sample cd sd xd
              = Inr (AList.update tk
                       (Tensor (sum_axis
                                  (complex_multiplication ops (conjugate ops sm) (bo k (Some sd))) c))
                       sample)
            \<and> shape (sum_axis (complex_multiplication ops (conjugate ops sm) (bo k (Some sd))) c)
                = take c (shape (complex_multiplication ops (conjugate ops sm) (bo k (Some sd))))
                  @ drop (Suc c)
                      (shape (complex_multiplication ops (conjugate ops sm) (bo k (Some sd))))
            \<and> (\<forall>blk j.
                  wf_tensor (complex_multiplication ops (conjugate ops sm) (bo k (Some sd)))
                  \<and> blk < outer_size c
                            (shape (complex_multiplication ops (conjugate ops sm) (bo k (Some sd))))
                  \<and> j < inner_size c
                          (shape (complex_multiplication ops (conjugate ops sm) (bo k (Some sd))))
                  \<longrightarrow>
                  data (sum_axis (complex_multiplication ops (conjugate ops sm) (bo k (Some sd))) c)
                    ! (blk * inner_size c
                               (shape (complex_multiplication ops (conjugate ops sm)
                                         (bo k (Some sd)))) + j)
                  = (\<Sum>i<shape (complex_multiplication ops (conjugate ops sm) (bo k (Some sd))) ! c.
                       data (complex_multiplication ops (conjugate ops sm) (bo k (Some sd)))
                         ! ((blk * (shape (complex_multiplication ops (conjugate ops sm)
                                             (bo k (Some sd))) ! c) + i)
                              * inner_size c
                                  (shape (complex_multiplication ops (conjugate ops sm)
                                            (bo k (Some sd)))) + j)))"
      by (rule summed [OF h refl])
  qed
  show ?thesis
    by (intro conjI)
       (rule init, rule nv, rule same, rule missing, rule sense, rule present, rule summed')
qed

text \<open>
  The five reconstruction types on a sample with two coils and one pixel, the coil images
  \<open>1\<close> and \<open>0\<close> and the sensitivities \<open>i\<close> and \<open>1\<close>.
\<close>

theorem ComputeImage_combines_witness:
  "ComputeImage_call ''kspace'' ''target'' id_operator ''complex'' ref_ops image_sample 0 [1, 2] (- 1)
     = Inr (AList.update ''target'' (Tensor \<lparr>shape = [1, 1, 2], data = [1, 0]\<rparr>) image_sample)
   \<and> ComputeImage_call ''kspace'' ''target'' id_operator ''complex_mod'' ref_ops image_sample 0 [1, 2] (- 1)
     = Inr (AList.update ''target'' (Tensor \<lparr>shape = [1, 1], data = [1]\<rparr>) image_sample)
   \<and> ComputeImage_call ''kspace'' ''target'' id_operator ''rss'' ref_ops image_sample 0 [1, 2] (- 1)
     = Inr (AList.update ''target'' (Tensor \<lparr>shape = [1, 1], data = [1]\<rparr>) image_sample)
   \<and> ComputeImage_call ''kspace'' ''target'' id_operator ''sense'' ref_ops image_sample 0 [1, 2] (- 1)
     = Inr (AList.update ''target'' (Tensor \<lparr>shape = [1, 1, 2], data = [0, - 1]\<rparr>) image_sample)
   \<and> ComputeImage_call ''kspace'' ''target'' id_operator ''sense_mod'' ref_ops image_sample 0 [1, 2] (- 1)
     = Inr (AList.update ''target'' (Tensor \<lparr>shape = [1, 1], data = [1]\<rparr>) image_sample)"
proof -
  let ?k = "\<lparr>shape = [2, 1, 1, 2], data = [1, 0, 0, 0 :: real]\<rparr>"
  let ?m = "\<lparr>shape = [2, 1, 1, 2], data = [0, 1, 1, 0 :: real]\<rparr>"
  have k: "map_of image_sample ''kspace'' = Some (Tensor ?k)" by (simp add: image_sample_def)
  have sm: "map_of image_sample ''sensitivity_map'' = Some (Tensor ?m)"
    by (simp add: image_sample_def)
  have op: "id_operator ?k (Some [1, 2]) = ?k" by (simp only: id_operator_def)
  note T = ComputeImage_combines [OF k, where cd = 0 and ops = ref_ops and tk = "''target''"
             and xd = "- 1" and bo = id_operator and sd = "[1, 2]"]
  have s1: "torch_sum (id_operator ?k (Some [1, 2])) 0 = Inr \<lparr>shape = [1, 1, 2], data = [1, 0]\<rparr>"
    by (simp only: op image_sample_sums)
  have s2: "torch_sum (complex_multiplication ref_ops (conjugate ref_ops ?m)
                         (id_operator ?k (Some [1, 2]))) 0
              = Inr \<lparr>shape = [1, 1, 2], data = [0, - 1]\<rparr>"
    by (simp only: op image_sample_sums)
  have w1: "ComputeImage_call ''kspace'' ''target'' id_operator ''complex'' ref_ops image_sample 0 [1, 2] (- 1)
     = Inr (AList.update ''target'' (Tensor \<lparr>shape = [1, 1, 2], data = [1, 0]\<rparr>) image_sample)"
    by (rule T [where ty = "''complex''", THEN conjunct1, rule_format]) (rule conjI [OF refl s1])
  have "ComputeImage_call ''kspace'' ''target'' id_operator ''complex_mod'' ref_ops image_sample 0 [1, 2] (- 1)
     = Inr (AList.update ''target''
              (Tensor (modulus ref_ops \<lparr>shape = [1, 1, 2], data = [1, 0]\<rparr> (Some (- 1)))) image_sample)"
    by (rule T [where ty = "''complex_mod''", THEN conjunct2, THEN conjunct1, rule_format])
       (rule conjI [OF refl s1])
  then have w2: "ComputeImage_call ''kspace'' ''target'' id_operator ''complex_mod'' ref_ops image_sample 0 [1, 2] (- 1)
     = Inr (AList.update ''target'' (Tensor \<lparr>shape = [1, 1], data = [1]\<rparr>) image_sample)"
    by (simp only: image_sample_sums)
  have "ComputeImage_call ''kspace'' ''target'' id_operator ''rss'' ref_ops image_sample 0 [1, 2] (- 1)
     = Inr (AList.update ''target''
              (Tensor (root_sum_of_squares ref_ops (id_operator ?k (Some [1, 2])) 0)) image_sample)"
    by (rule T [where ty = "''rss''", THEN conjunct2, THEN conjunct2, THEN conjunct1, rule_format])
       (rule refl)
  then have w3: "ComputeImage_call ''kspace'' ''target'' id_operator ''rss'' ref_ops image_sample 0 [1, 2] (- 1)
     = Inr (AList.update ''target'' (Tensor \<lparr>shape = [1, 1], data = [1]\<rparr>) image_sample)"
    by (simp only: op image_sample_sums)
  have w4: "ComputeImage_call ''kspace'' ''target'' id_operator ''sense'' ref_ops image_sample 0 [1, 2] (- 1)
     = Inr (AList.update ''target'' (Tensor \<lparr>shape = [1, 1, 2], data = [0, - 1]\<rparr>) image_sample)"
    by (rule T [where ty = "''sense''", THEN conjunct2, THEN conjunct2, THEN conjunct2,
                THEN conjunct1, rule_format])
       (rule conjI [OF refl conjI [OF sm s2]])
  have "ComputeImage_call ''kspace'' ''target'' id_operator ''sense_mod'' ref_ops image_sample 0 [1, 2] (- 1)
     = Inr (AList.update ''target''
              (Tensor (modulus ref_ops \<lparr>shape = [1, 1, 2], data = [0, - 1]\<rparr> (Some (- 1))))
              image_sample)"
    by (rule T [where ty = "''sense_mod''", THEN conjunct2, THEN conjunct2, THEN conjunct2,
                THEN conjunct2, THEN conjunct1, rule_format])
       (rule conjI [OF refl conjI [OF sm s2]])
  then have w5: "ComputeImage_call ''kspace'' ''target'' id_operator ''sense_mod'' ref_ops image_sample 0 [1, 2] (- 1)
     = Inr (AList.update ''target'' (Tensor \<lparr>shape = [1, 1], data = [1]\<rparr>) image_sample)"
    by (simp only: image_sample_sums)
  show ?thesis by (intro conjI) (rule w1, rule w2, rule w3, rule w4, rule w5)
qed

theorem ComputeImage_sense_needs_map_witness:
  "ComputeImage_call ''kspace'' ''target'' id_operator ''sense'' ref_ops image_sample_no_map
       0 [1, 2] (- 1)
     = Inl (ItemNotFoundException ''sensitivity map'')
   \<and> ComputeImage_call ''kspace'' ''target'' id_operator ''sense_mod'' ref_ops image_sample_no_map
       0 [1, 2] (- 1)
     = Inl (ItemNotFoundException ''sensitivity map'')
   \<and> ComputeImage_call ''kspace'' ''target'' id_operator ''sense'' ref_ops image_sample
       0 [1, 2] (- 1)
     \<noteq> Inl (ItemNotFoundException ''sensitivity map'')"
proof -
  have no: "\<not> has_key image_sample_no_map ''sensitivity_map''"
    and k: "map_of image_sample_no_map ''kspace''
              = Some (Tensor \<lparr>shape = [2, 1, 1, 2], data = [1, 0, 0, 0]\<rparr>)"
    and yes: "has_key image_sample ''sensitivity_map''"
    by (simp_all add: has_key_def image_sample_no_map_def image_sample_def)
  have t1: "''sense'' = ''sense'' \<or> ''sense'' = ''sense_mod''"
    and t2: "''sense_mod'' = ''sense'' \<or> ''sense_mod'' = ''sense_mod''" by simp_all
  show ?thesis
    using ComputeImage_sense_needs_map [OF t1, of image_sample_no_map "''kspace''" "''target''"
            id_operator ref_ops 0 "[1, 2]" "- 1"]
      ComputeImage_sense_needs_map [OF t2, of image_sample_no_map "''kspace''" "''target''"
            id_operator ref_ops 0 "[1, 2]" "- 1"]
      ComputeImage_sense_needs_map [OF t1, of image_sample "''kspace''" "''target''"
            id_operator ref_ops 0 "[1, 2]" "- 1"]
      no k yes
    by blast
qed

text \<open>
  An unknown type on a sample with two coils and one pixel, the coil images \<open>1\<close> and
  \<open>2\<close> and the sensitivities \<open>i\<close> and \<open>1\<close>: the products are \<open>-i\<close> and \<open>2\<close>, and
  the stored target is their sum \<open>2 - i\<close>.
\<close>

theorem ComputeImage_unknown_type_is_sense_witness:
  "ComputeImage_init ''magic'' = Inr ''magic''
   \<and> ComputeImage_call ''kspace'' ''target'' id_operator ''magic'' ref_ops image_sample_no_map
       0 [1, 2] (- 1)
     = Inl (ItemNotFoundException ''sensitivity map'')
   \<and> complex_multiplication ref_ops
       (conjugate ref_ops \<lparr>shape = [2, 1, 1, 2], data = [0, 1, 1, 0]\<rparr>)
       (id_operator \<lparr>shape = [2, 1, 1, 2], data = [1, 0, 2, 0]\<rparr> (Some [1, 2]))
     = \<lparr>shape = [2, 1, 1, 2], data = [0, - 1, 2, 0]\<rparr>
   \<and> ComputeImage_call ''kspace'' ''target'' id_operator ''magic'' ref_ops sense_sample
       0 [1, 2] (- 1)
     = Inr (AList.update ''target'' (Tensor \<lparr>shape = [1, 1, 2], data = [2, - 1]\<rparr>) sense_sample)
   \<and> data (sum_axis \<lparr>shape = [2, 1, 1, 2], data = [0, - 1, 2, 0 :: real]\<rparr> 0) ! 1
       = (\<Sum>i<2. [0, - 1, 2, 0 :: real] ! (i * 2 + 1))"
proof -
  let ?k = "\<lparr>shape = [2, 1, 1, 2], data = [1, 0, 2, 0 :: real]\<rparr>"
  let ?sm = "\<lparr>shape = [2, 1, 1, 2], data = [0, 1, 1, 0 :: real]\<rparr>"
  let ?P = "\<lparr>shape = [2, 1, 1, 2], data = [0, - 1, 2, 0 :: real]\<rparr>"
  have ty: "''magic'' \<notin> {''complex'', ''complex_mod'', ''rss'', ''sense'', ''sense_mod''}"
    by simp
  have no: "\<not> has_key image_sample_no_map ''sensitivity_map''"
    and k0: "map_of image_sample_no_map ''kspace''
              = Some (Tensor \<lparr>shape = [2, 1, 1, 2], data = [1, 0, 0, 0]\<rparr>)"
    by (simp_all add: has_key_def image_sample_no_map_def)
  note T0 = ComputeImage_unknown_type_is_sense [OF ty, of "''kspace''" "''target''" id_operator
              ref_ops image_sample_no_map 0 "[1, 2]" "- 1"]
  note T1 = ComputeImage_unknown_type_is_sense [OF ty, of "''kspace''" "''target''" id_operator
              ref_ops sense_sample 0 "[1, 2]" "- 1"]
  have w1: "ComputeImage_init ''magic'' = Inr ''magic''" using T0 by simp
  have w2: "ComputeImage_call ''kspace'' ''target'' id_operator ''magic'' ref_ops image_sample_no_map
       0 [1, 2] (- 1) = Inl (ItemNotFoundException ''sensitivity map'')"
    using T0 [THEN conjunct2, THEN conjunct2, THEN conjunct2, THEN conjunct1] no k0 by simp
  have pre: "map_of sense_sample ''kspace'' = Some (Tensor ?k)
              \<and> map_of sense_sample ''sensitivity_map'' = Some (Tensor ?sm)
              \<and> py_index 0
                   (length (shape (complex_multiplication ref_ops (conjugate ref_ops ?sm)
                                     (id_operator ?k (Some [1, 2])))))
                  = Some 0"
    unfolding sense_sample_product by (simp add: sense_sample_def py_index_def)
  note R = T1 [THEN conjunct2, THEN conjunct2, THEN conjunct2, THEN conjunct2, THEN conjunct2,
               THEN conjunct2, rule_format, OF pre, unfolded sense_sample_product]
  have w3: "ComputeImage_call ''kspace'' ''target'' id_operator ''magic'' ref_ops sense_sample
       0 [1, 2] (- 1)
     = Inr (AList.update ''target'' (Tensor \<lparr>shape = [1, 1, 2], data = [2, - 1]\<rparr>) sense_sample)"
    using R [THEN conjunct1] by (simp only: sense_sample_sum)
  have idx: "wf_tensor ?P \<and> 0 < outer_size 0 (shape ?P) \<and> 1 < inner_size 0 (shape ?P)"
    by (simp add: wf_tensor_def outer_size_def inner_size_def)
  have "data (sum_axis ?P 0) ! (0 * inner_size 0 (shape ?P) + 1)
          = (\<Sum>i<shape ?P ! 0. data ?P ! ((0 * (shape ?P ! 0) + i) * inner_size 0 (shape ?P) + 1))"
    by (rule R [THEN conjunct2, THEN conjunct2, rule_format, OF idx])
  then have w4: "data (sum_axis ?P 0) ! 1 = (\<Sum>i<2. [0, - 1, 2, 0 :: real] ! (i * 2 + 1))"
    by (simp add: inner_size_def)
  show ?thesis
    by (intro conjI) (rule w1, rule w2, rule sense_sample_product, rule w3, rule w4)
qed

section \<open>Where the invalid-configuration errors are raised\<close>

text \<open>
  Claim C9, as amended. A crop that is neither iterable nor a string makes the constructor
  of \<open>CropKspace\<close> raise \<open>ValueError\<close>, and a sensitivity-map type other than
  \<open>unit\<close> and \<open>rss_estimate\<close> makes the constructor of \<open>EstimateSensitivityMap\<close>
  raise \<open>ValueError\<close>: both before any sample is seen, and with valid arguments both
  constructors succeed. Constructing \<open>ToTensor\<close> never raises: the unsupported
  dimensionality is raised when the stage is called, on a sample whose k-space has a
  number of axes, without the coil axis, that is neither 2 nor 3.
\<close>

theorem invalid_configuration_errors:
  "(\<not> is_iterable_or_str c \<longrightarrow> new_CropKspace c fo bo cc st us sg = Inl ValueError)
   \<and> (is_iterable_or_str c \<longrightarrow>
        new_CropKspace c fo bo cc st us sg = Inr (CropKspace c fo bo cc st us sg))
   \<and> (tm \<notin> {Some ''unit'', Some ''rss_estimate''} \<longrightarrow>
        new_EstimateSensitivityMap kk bo' tm gs = Inl ValueError)
   \<and> (tm \<in> {Some ''unit'', Some ''rss_estimate''} \<longrightarrow>
        new_EstimateSensitivityMap kk bo' tm gs = Inr (EstimateSensitivityMap kk bo' tm gs))
   \<and> new_ToTensor = Inr ToTensor
   \<and> (\<forall>v shp. map_of sample ''kspace'' = Some v \<and> val_shape v = Inr shp
          \<and> int (length shp) - 1 \<notin> {2, 3} \<longrightarrow>
        stage_call ops ToTensor (r, sample) = Inl ValueError)"
  by (auto simp: new_CropKspace_def CropKspace_init_def new_EstimateSensitivityMap_def
        EstimateSensitivityMap_init_def new_ToTensor_def ToTensor_call_def with_state_def
        dict_get_def val_ndim_def Let_def)

text \<open>
  Claim C9 as stated fails for the third condition. \<open>ToTensor\<close> is constructed without
  an error; the \<open>ValueError\<close> comes from the call on a sample with a one-dimensional
  k-space (plus coil), and the same stage object converts a two-dimensional one.
\<close>

theorem ToTensor_raises_at_call:
  "(new_ToTensor :: error + ref_state stage) = Inr ToTensor
   \<and> stage_call ref_ops ToTensor ((0, []), one_dim_sample) = Inl ValueError
   \<and> stage_call ref_ops ToTensor ((0, []), two_dim_sample)
       = Inr ((0, []),
              [(''kspace'', Tensor \<lparr>shape = [1, 1, 2, 2], data = [1, 0, 0, 1]\<rparr>),
               (''filename'', Str ''a.h5'')])"
  by (simp add: new_ToTensor_def ToTensor_call_def with_state_def dict_get_def val_ndim_def
        val_shape_def one_dim_sample_def two_dim_sample_def to_tensor_val_def ref_ops_def
        ref_to_tensor_def update_if_present_def)

theorem invalid_configuration_errors_witness:
  "(new_CropKspace (Float 3) id_operator id_operator True None None None
      :: error + ref_state stage) = Inl ValueError
   \<and> (new_CropKspace (IntTuple [2, 2]) id_operator id_operator True None None None
      :: error + ref_state stage)
       = Inr (CropKspace (IntTuple [2, 2]) id_operator id_operator True None None None)
   \<and> (new_EstimateSensitivityMap ''kspace'' id_operator (Some ''espirit'') None
      :: error + ref_state stage) = Inl ValueError
   \<and> stage_call ref_ops ToTensor ((0, []), one_dim_sample) = Inl ValueError"
proof -
  have c1: "\<not> is_iterable_or_str (Float 3)" and c2: "is_iterable_or_str (IntTuple [2, 2])"
    by (simp_all add: is_iterable_or_str_def)
  have t: "Some ''espirit'' \<notin> {Some ''unit'', Some ''rss_estimate''}" by simp
  have k: "map_of one_dim_sample ''kspace''
             = Some (NDArray \<lparr>shape = [2, 3], data = [1, 1, 1, 1, 1, 1]\<rparr>)
           \<and> val_shape (NDArray \<lparr>shape = [2, 3], data = [1, 1, 1, 1, 1, 1]\<rparr>) = Inr [2, 3]
           \<and> int (length [2 :: nat, 3]) - 1 \<notin> {2, 3}"
    by (simp add: one_dim_sample_def val_shape_def)
  note T = invalid_configuration_errors
  have w1: "(new_CropKspace (Float 3) id_operator id_operator True None None None
      :: error + ref_state stage) = Inl ValueError"
    by (rule T [THEN conjunct1, rule_format, OF c1])
  have w2: "(new_CropKspace (IntTuple [2, 2]) id_operator id_operator True None None None
      :: error + ref_state stage)
       = Inr (CropKspace (IntTuple [2, 2]) id_operator id_operator True None None None)"
    by (rule T [THEN conjunct2, THEN conjunct1, rule_format, OF c2])
  have w3: "(new_EstimateSensitivityMap ''kspace'' id_operator (Some ''espirit'') None
      :: error + ref_state stage) = Inl ValueError"
    by (rule T [THEN conjunct2, THEN conjunct2, THEN conjunct1, rule_format, OF t])
  have w4: "stage_call ref_ops ToTensor ((0, []), one_dim_sample) = Inl ValueError"
    by (rule T [THEN conjunct2, THEN conjunct2, THEN conjunct2, THEN conjunct2, THEN conjunct2,
                rule_format, OF k])
  show ?thesis by (intro conjI) (rule w1, rule w2, rule w3, rule w4)
qed

section \<open>The canonical pipeline\<close>

text \<open>
  Claim C1, as amended. For every configuration \<open>build_mri_transforms\<close> returns exactly
  this list of stages, each with the parameters shown: tensor materialization, then (if a
  crop is configured) k-space cropping, then (if a mask function is configured)
  zero-padding detection, zero-padding application and sampling-mask creation, then
  sensitivity-map estimation, then (if the ACS deletion flag is set) deletion of the ACS
  mask, then target-image computation, then mask application (from \<open>kspace\<close> and
  \<open>sampling_mask\<close> to \<open>masked_kspace\<close>), then (if the body-coil flag is set and a mask
  function is configured) body-coil image estimation, then scaling-factor computation,
  normalization, coil padding of the masked k-space and of the sensitivity map, then (if
  the k-space deletion flag is set) deletion of the raw k-space. \<open>Compose\<close> applies the
  stages from first to last: stage \<open>n + 1\<close> is applied to the sample that the first \<open>n\<close>
  stages returned, and the first exception ends the run.
\<close>

theorem build_mri_transforms_order:
  "build_mri_transforms a = Inr
      ([ToTensor]
       @ (case crop a of
            None \<Rightarrow> []
          | Some c \<Rightarrow>
              if crop_truthy (crop a)
              then [CropKspace (crop_val c) (forward_operator a) (backward_operator a)
                      (image_center_crop a) (crop_type a) (Some (use_seed a)) None]
              else [])
       @ (case mask_func a of
            None \<Rightarrow> []
          | Some mf \<Rightarrow>
              [ComputeZeroPadding ''kspace'' ''padding'' (padding_eps a),
               ApplyZeroPadding ''kspace'' ''padding'',
               CreateSamplingMask mf (sampling_mask_shape_arg (crop a)) (use_seed a)
                 (estimate_sensitivity_maps a)])
       @ [EstimateSensitivityMap ''kspace'' (backward_operator a)
            (Some (if estimate_sensitivity_maps a then ''rss_estimate'' else ''unit''))
            (sensitivity_maps_gaussian a)]
       @ (if delete_acs_mask a then [DeleteKeys [''acs_mask'']] else [])
       @ [ComputeImage ''kspace'' ''target'' (backward_operator a) (image_recon_type a),
          ApplyMask ''sampling_mask'' ''kspace'' ''masked_kspace'']
       @ (case mask_func a of
            None \<Rightarrow> []
          | Some mf \<Rightarrow>
              if estimate_body_coil_image a
              then [EstimateBodyCoilImage mf (backward_operator a) (use_seed a)]
              else [])
       @ [ComputeScalingFactor (scaling_key a) (scale_percentile a) ''scaling_factor'',
          Normalize ''scaling_factor''
            [''masked_kspace'', ''target'', ''kspace'', ''body_coil_image'', ''initial_image'',
             ''initial_kspace''],
          PadCoilDimension (pad_coils a) ''masked_kspace'' 0,
          PadCoilDimension (pad_coils a) ''sensitivity_map'' 0]
       @ (if delete_kspace a then [DeleteKeys [''kspace'']] else []))
   \<and> (\<exists>stages. build_mri_transforms a = Inr stages
          \<and> map kind_of stages = built_stage_order a
          \<and> (\<forall>ops st. Compose_call ops stages st
                 = foldl (\<lambda>m t. bind_result m (stage_call ops t)) (Inr st) stages)
          \<and> (\<forall>ops st. Compose_call ops (take 0 stages) st = Inr st)
          \<and> (\<forall>ops st n. n < length stages \<longrightarrow>
                 Compose_call ops (take (Suc n) stages) st
                   = bind_result (Compose_call ops (take n stages) st)
                       (stage_call ops (stages ! n)))
          \<and> (\<forall>ops st. Compose_call ops (take (length stages) stages) st
                 = Compose_call ops stages st))"
proof -
  from build_mri_transforms_succeeds [of a] obtain stages where
    s: "build_mri_transforms a = Inr stages" and k: "map kind_of stages = built_stage_order a"
    by blast
  have f: "\<forall>ops st. Compose_call ops stages st
                 = foldl (\<lambda>m t. bind_result m (stage_call ops t)) (Inr st) stages"
    by (simp add: Compose_call_foldl)
  have z: "\<forall>ops st. Compose_call ops (take 0 stages) st = Inr st"
    by simp
  have n: "\<forall>ops st n. n < length stages \<longrightarrow>
                 Compose_call ops (take (Suc n) stages) st
                   = bind_result (Compose_call ops (take n stages) st)
                       (stage_call ops (stages ! n))"
    using Compose_call_step by blast
  have l: "\<forall>ops st. Compose_call ops (take (length stages) stages) st
                 = Compose_call ops stages st"
    by simp
  have ex: "\<exists>stages. build_mri_transforms a = Inr stages
          \<and> map kind_of stages = built_stage_order a
          \<and> (\<forall>ops st. Compose_call ops stages st
                 = foldl (\<lambda>m t. bind_result m (stage_call ops t)) (Inr st) stages)
          \<and> (\<forall>ops st. Compose_call ops (take 0 stages) st = Inr st)
          \<and> (\<forall>ops st n. n < length stages \<longrightarrow>
                 Compose_call ops (take (Suc n) stages) st
                   = bind_result (Compose_call ops (take n stages) st)
                       (stage_call ops (stages ! n)))
          \<and> (\<forall>ops st. Compose_call ops (take (length stages) stages) st
                 = Compose_call ops stages st)"
    using s k f z n l by blast
  show ?thesis
    by (rule conjI [OF build_mri_transforms_stages ex])
qed

text \<open>
  Claim C1 as stated fails when the body-coil flag is set and no mask function is configured:
  the builder adds the body-coil stage only \<open>if estimate_body_coil_image and mask_func is
  not None\<close>, so the list it returns has no body-coil stage where the claimed order has one.
\<close>

theorem body_coil_stage_needs_mask_function:
  "estimate_body_coil_image body_coil_args
   \<and> map_sum id (map kind_of) (build_mri_transforms body_coil_args)
       = Inr [Materialize, SensitivityEstimate, DeleteFields [''acs_mask''], ComputeTarget,
              MaskApply, ScalingFactor, NormalizeFields, PadCoils ''masked_kspace'',
              PadCoils ''sensitivity_map'', DeleteFields [''kspace'']]
   \<and> claimed_stage_order body_coil_args
       = [Materialize, SensitivityEstimate, DeleteFields [''acs_mask''], ComputeTarget,
          MaskApply, BodyCoilEstimate, ScalingFactor, NormalizeFields,
          PadCoils ''masked_kspace'', PadCoils ''sensitivity_map'', DeleteFields [''kspace'']]"
  by (simp add: body_coil_args_def full_args_def build_mri_transforms_def
        claimed_stage_order_def stage_order_def crop_truthy_def
        new_EstimateSensitivityMap_def EstimateSensitivityMap_init_def new_ComputeImage_def
        ComputeImage_init_def new_Normalize_def Let_def)

theorem build_mri_transforms_order_witness:
  "build_mri_transforms full_args
     = Inr [ToTensor,
            CropKspace (IntTuple [1, 1]) id_operator id_operator True (Some ''uniform'')
              (Some True) None,
            ComputeZeroPadding ''kspace'' ''padding'' (1 / 10000),
            ApplyZeroPadding ''kspace'' ''padding'',
            CreateSamplingMask ref_mask_func (Some [Some 1, Some 1]) True True,
            EstimateSensitivityMap ''kspace'' id_operator (Some ''rss_estimate'') None,
            DeleteKeys [''acs_mask''],
            ComputeImage ''kspace'' ''target'' id_operator ''rss'',
            ApplyMask ''sampling_mask'' ''kspace'' ''masked_kspace'',
            EstimateBodyCoilImage ref_mask_func id_operator True,
            ComputeScalingFactor (Some ''masked_kspace'') (Some (Finite 4458563631096791 (- 52)))
              ''scaling_factor'',
            Normalize ''scaling_factor''
              [''masked_kspace'', ''target'', ''kspace'', ''body_coil_image'', ''initial_image'',
               ''initial_kspace''],
            PadCoilDimension None ''masked_kspace'' 0,
            PadCoilDimension None ''sensitivity_map'' 0,
            DeleteKeys [''kspace'']]
   \<and> (\<exists>stages. build_mri_transforms full_args = Inr stages
      \<and> map kind_of stages
          = [Materialize, Crop, PaddingDetect, PaddingApply, MaskCreate, SensitivityEstimate,
             DeleteFields [''acs_mask''], ComputeTarget, MaskApply, BodyCoilEstimate,
             ScalingFactor, NormalizeFields, PadCoils ''masked_kspace'',
             PadCoils ''sensitivity_map'', DeleteFields [''kspace'']]
      \<and> Compose_call ref_ops stages ((0, []), [])
          = foldl (\<lambda>m t. bind_result m (stage_call ref_ops t)) (Inr ((0, []), [])) stages
      \<and> Compose_call ref_ops (take (Suc 1) stages) ((0, []), [])
          = bind_result (Compose_call ref_ops (take 1 stages) ((0, []), []))
              (stage_call ref_ops (stages ! 1)))"
proof -
  have order: "built_stage_order full_args
          = [Materialize, Crop, PaddingDetect, PaddingApply, MaskCreate, SensitivityEstimate,
             DeleteFields [''acs_mask''], ComputeTarget, MaskApply, BodyCoilEstimate,
             ScalingFactor, NormalizeFields, PadCoils ''masked_kspace'',
             PadCoils ''sensitivity_map'', DeleteFields [''kspace'']]"
    by (simp add: built_stage_order_def stage_order_def full_args_def crop_truthy_def)
  have w1: "build_mri_transforms full_args
     = Inr [ToTensor,
            CropKspace (IntTuple [1, 1]) id_operator id_operator True (Some ''uniform'')
              (Some True) None,
            ComputeZeroPadding ''kspace'' ''padding'' (1 / 10000),
            ApplyZeroPadding ''kspace'' ''padding'',
            CreateSamplingMask ref_mask_func (Some [Some 1, Some 1]) True True,
            EstimateSensitivityMap ''kspace'' id_operator (Some ''rss_estimate'') None,
            DeleteKeys [''acs_mask''],
            ComputeImage ''kspace'' ''target'' id_operator ''rss'',
            ApplyMask ''sampling_mask'' ''kspace'' ''masked_kspace'',
            EstimateBodyCoilImage ref_mask_func id_operator True,
            ComputeScalingFactor (Some ''masked_kspace'') (Some (Finite 4458563631096791 (- 52)))
              ''scaling_factor'',
            Normalize ''scaling_factor''
              [''masked_kspace'', ''target'', ''kspace'', ''body_coil_image'', ''initial_image'',
               ''initial_kspace''],
            PadCoilDimension None ''masked_kspace'' 0,
            PadCoilDimension None ''sensitivity_map'' 0,
            DeleteKeys [''kspace'']]"
    using build_mri_transforms_order [of full_args, THEN conjunct1]
    by (simp add: full_args_def crop_truthy_def crop_val_def sampling_mask_shape_arg_def)
  from build_mri_transforms_order [of full_args, THEN conjunct2] obtain stages where
    s: "build_mri_transforms full_args = Inr stages"
    and k: "map kind_of stages = built_stage_order full_args"
    and c: "\<forall>ops st. Compose_call ops stages st
             = foldl (\<lambda>m t. bind_result m (stage_call ops t)) (Inr st) stages"
    and n: "\<forall>ops st n. n < length stages \<longrightarrow>
                 Compose_call ops (take (Suc n) stages) st
                   = bind_result (Compose_call ops (take n stages) st)
                       (stage_call ops (stages ! n))"
    by blast
  have len: "1 < length stages"
    using s w1 by auto
  from c have c': "Compose_call ref_ops stages ((0, []), [])
          = foldl (\<lambda>m t. bind_result m (stage_call ref_ops t)) (Inr ((0, []), [])) stages"
    by blast
  from n len have n': "Compose_call ref_ops (take (Suc 1) stages) ((0, []), [])
          = bind_result (Compose_call ref_ops (take 1 stages) ((0, []), []))
              (stage_call ref_ops (stages ! 1))"
    by blast
  have w2: "\<exists>stages. build_mri_transforms full_args = Inr stages
      \<and> map kind_of stages
          = [Materialize, Crop, PaddingDetect, PaddingApply, MaskCreate, SensitivityEstimate,
             DeleteFields [''acs_mask''], ComputeTarget, MaskApply, BodyCoilEstimate,
             ScalingFactor, NormalizeFields, PadCoils ''masked_kspace'',
             PadCoils ''sensitivity_map'', DeleteFields [''kspace'']]
      \<and> Compose_call ref_ops stages ((0, []), [])
          = foldl (\<lambda>m t. bind_result m (stage_call ref_ops t)) (Inr ((0, []), [])) stages
      \<and> Compose_call ref_ops (take (Suc 1) stages) ((0, []), [])
          = bind_result (Compose_call ref_ops (take 1 stages) ((0, []), []))
              (stage_call ref_ops (stages ! 1))"
    using s k order c' n' by (intro exI [of _ stages]) simp
  show ?thesis by (rule conjI [OF w1 w2])
qed

section \<open>Seeded mask generation and seeded random cropping\<close>

text \<open>
  Claim C7, as amended. Assume the mask generator is deterministic once it is given a seed
  (its result does not depend on the state of the random generator), the random cropper,
  given a seed, cuts the image at offsets that it draws from the shape of the image, the
  crop shape, the seed and the sampler parameters only, and the backward operator keeps
  the shape. With seeding enabled, the seed handed to the mask callable and to the random
  cropper is the tuple of the character codes of the sample's filename. So two
  invocations of the sampling-mask stage, in any two generator states, on samples with the
  same filename, the same k-space shape and the same padding field, store the same
  sampling mask (and the same ACS mask when one is requested); and two invocations of the
  random-crop stage on samples with the same filename, the same k-space shape and the same
  crop shape cut their images at the same offsets, whatever the two k-spaces hold.
\<close>

theorem seeded_stages_are_deterministic:
  assumes mask_det: "\<forall>r r' sh sd acs. fst (mf r sh (Some sd) acs) = fst (mf r' sh (Some sd) acs)"
    and crop_form: "\<forall>r t cs cont sd smp sig.
                      fst (complex_random_crop ops r [t] cs cont (Some sd) smp sig)
                        = crop_at t cs (fst (offsets (shape t) cs sd smp sig))
                            (snd (offsets (shape t) cs sd smp sig))"
    and bo_shape: "\<forall>k. shape (bo k None) = shape k"
    and fn: "map_of s1 ''filename'' = map_of s2 ''filename''"
  shows "(map_option val_shape (map_of s1 ''kspace'') = map_option val_shape (map_of s2 ''kspace'')
          \<and> map_of s1 ''padding'' = map_of s2 ''padding''
          \<and> CreateSamplingMask_call mf shp True ra ops (r1, s1) = Inr (r1', s1')
          \<and> CreateSamplingMask_call mf shp True ra ops (r2, s2) = Inr (r2', s2') \<longrightarrow>
            map_of s1' ''sampling_mask'' = map_of s2' ''sampling_mask''
            \<and> (ra \<longrightarrow> map_of s1' ''acs_mask'' = map_of s2' ''acs_mask''))
       \<and> (map_option val_shape (map_of s1 ''kspace'') = map_option val_shape (map_of s2 ''kspace'')
          \<and> crop_shape_of c s1 = crop_shape_of c s2
          \<and> CropKspace_call c fo bo False st (Some True) sg ops (r1, s1) = Inr (r1'', s1'')
          \<and> CropKspace_call c fo bo False st (Some True) sg ops (r2, s2) = Inr (r2'', s2'') \<longrightarrow>
            (\<exists>k1 k2 cs off_h off_w.
               map_of s1 ''kspace'' = Some (Tensor k1) \<and> map_of s2 ''kspace'' = Some (Tensor k2)
             \<and> map_of s1'' ''kspace''
                 = Some (Tensor (fo (crop_at (bo k1 None) cs off_h off_w) None))
             \<and> map_of s2'' ''kspace''
                 = Some (Tensor (fo (crop_at (bo k2 None) cs off_h off_w) None))))
       \<and> (\<forall>f. map_of s1 ''filename'' = Some (Str f) \<longrightarrow>
            CreateSamplingMask_call mf shp True ra ops (r1, s1)
              = CreateSamplingMask_call
                  (\<lambda>r sh sd acs. mf r sh (Some (map (\<lambda>c. int (of_char c)) f)) acs)
                  shp True ra ops (r1, s1)
            \<and> CropKspace_call c fo bo False st (Some True) sg ops (r1, s1)
              = CropKspace_call c fo bo False st (Some True) sg
                  (ops\<lparr>complex_random_crop :=
                         \<lambda>r ts cs cont sd. complex_random_crop ops r ts cs cont
                                              (Some (map (\<lambda>c. int (of_char c)) f))\<rparr>)
                  (r1, s1))"
proof -
  have A: "map_option val_shape (map_of s1 ''kspace'') = map_option val_shape (map_of s2 ''kspace'')
          \<and> map_of s1 ''padding'' = map_of s2 ''padding''
          \<and> CreateSamplingMask_call mf shp True ra ops (r1, s1) = Inr (r1', s1')
          \<and> CreateSamplingMask_call mf shp True ra ops (r2, s2) = Inr (r2', s2') \<longrightarrow>
            map_of s1' ''sampling_mask'' = map_of s2' ''sampling_mask''
            \<and> (ra \<longrightarrow> map_of s1' ''acs_mask'' = map_of s2' ''acs_mask'')"
  proof (intro impI)
    assume h: "map_option val_shape (map_of s1 ''kspace'') = map_option val_shape (map_of s2 ''kspace'')
          \<and> map_of s1 ''padding'' = map_of s2 ''padding''
          \<and> CreateSamplingMask_call mf shp True ra ops (r1, s1) = Inr (r1', s1')
          \<and> CreateSamplingMask_call mf shp True ra ops (r2, s2) = Inr (r2', s2')"
    from h have ms: "mask_shape shp s1 = mask_shape shp s2" by (intro mask_shape_cong) simp
    have sd: "filename_seed ops True s1 = filename_seed ops True s2"
      using fn by (rule filename_seed_cong)
    from h CreateSamplingMask_result [of mf shp True ra ops r1 s1 r1' s1']
    obtain m1 seed1 sm1 where
      a1: "mask_shape shp s1 = Inr m1" "filename_seed ops True s1 = Inr seed1"
      and p1: "(case map_of s1 ''padding'' of
               None \<Rightarrow> Inr (fst (mf r1 m1 seed1 False))
             | Some pv \<Rightarrow> bind_result (as_tensor pv)
                             (\<lambda>p. Inr (apply_padding ops (fst (mf r1 m1 seed1 False)) p))) = Inr sm1"
      and q1: "map_of s1' ''sampling_mask'' = Some (Tensor sm1)"
      and c1: "ra \<longrightarrow>
              (\<exists>k ks. map_of s1 ''kspace'' = Some k \<and> val_shape k = Inr ks
                 \<and> map_of s1' ''acs_mask''
                     = Some (Tensor (fst (mf (snd (mf r1 m1 seed1 False)) (map int (tl ks)) seed1 True))))"
      by blast
    from h CreateSamplingMask_result [of mf shp True ra ops r2 s2 r2' s2']
    obtain m2 seed2 sm2 where
      a2: "mask_shape shp s2 = Inr m2" "filename_seed ops True s2 = Inr seed2"
      and p2: "(case map_of s2 ''padding'' of
               None \<Rightarrow> Inr (fst (mf r2 m2 seed2 False))
             | Some pv \<Rightarrow> bind_result (as_tensor pv)
                             (\<lambda>p. Inr (apply_padding ops (fst (mf r2 m2 seed2 False)) p))) = Inr sm2"
      and q2: "map_of s2' ''sampling_mask'' = Some (Tensor sm2)"
      and c2: "ra \<longrightarrow>
              (\<exists>k ks. map_of s2 ''kspace'' = Some k \<and> val_shape k = Inr ks
                 \<and> map_of s2' ''acs_mask''
                     = Some (Tensor (fst (mf (snd (mf r2 m2 seed2 False)) (map int (tl ks)) seed2 True))))"
      by blast
    have m: "m2 = m1" using ms a1 a2 by simp
    have s: "seed2 = seed1" using sd a1 a2 by simp
    obtain code where code: "seed1 = Some code" using filename_seed_seeded a1(2) by blast
    have gen: "fst (mf r2 m1 (Some code) False) = fst (mf r1 m1 (Some code) False)"
      using mask_det by blast
    have pad: "map_of s2 ''padding'' = map_of s1 ''padding''" using h by simp
    have "Inr sm2 = (Inr sm1 :: error + real tensor)"
      using p1 p2 unfolding m s code pad gen by simp
    then have mask: "map_of s1' ''sampling_mask'' = map_of s2' ''sampling_mask''"
      using q1 q2 by simp
    have acs: "map_of s1' ''acs_mask'' = map_of s2' ''acs_mask''" if ra
    proof -
      from c1 that obtain k1 ks1 where
        k1: "map_of s1 ''kspace'' = Some k1" "val_shape k1 = Inr ks1"
        and e1: "map_of s1' ''acs_mask''
                   = Some (Tensor (fst (mf (snd (mf r1 m1 seed1 False)) (map int (tl ks1)) seed1 True)))"
        by blast
      from c2 that obtain k2 ks2 where
        k2: "map_of s2 ''kspace'' = Some k2" "val_shape k2 = Inr ks2"
        and e2: "map_of s2' ''acs_mask''
                   = Some (Tensor (fst (mf (snd (mf r2 m2 seed2 False)) (map int (tl ks2)) seed2 True)))"
        by blast
      have "ks2 = ks1" using h k1 k2 by simp
      then show ?thesis
        using e1 e2 mask_det unfolding m s code by metis
    qed
    show "map_of s1' ''sampling_mask'' = map_of s2' ''sampling_mask''
            \<and> (ra \<longrightarrow> map_of s1' ''acs_mask'' = map_of s2' ''acs_mask'')"
      using mask acs by blast
  qed
  have B: "map_option val_shape (map_of s1 ''kspace'') = map_option val_shape (map_of s2 ''kspace'')
          \<and> crop_shape_of c s1 = crop_shape_of c s2
          \<and> CropKspace_call c fo bo False st (Some True) sg ops (r1, s1) = Inr (r1'', s1'')
          \<and> CropKspace_call c fo bo False st (Some True) sg ops (r2, s2) = Inr (r2'', s2'') \<longrightarrow>
            (\<exists>k1 k2 cs off_h off_w.
               map_of s1 ''kspace'' = Some (Tensor k1) \<and> map_of s2 ''kspace'' = Some (Tensor k2)
             \<and> map_of s1'' ''kspace''
                 = Some (Tensor (fo (crop_at (bo k1 None) cs off_h off_w) None))
             \<and> map_of s2'' ''kspace''
                 = Some (Tensor (fo (crop_at (bo k2 None) cs off_h off_w) None)))"
  proof (intro impI)
    assume h: "map_option val_shape (map_of s1 ''kspace'') = map_option val_shape (map_of s2 ''kspace'')
          \<and> crop_shape_of c s1 = crop_shape_of c s2
          \<and> CropKspace_call c fo bo False st (Some True) sg ops (r1, s1) = Inr (r1'', s1'')
          \<and> CropKspace_call c fo bo False st (Some True) sg ops (r2, s2) = Inr (r2'', s2'')"
    have sd: "filename_seed ops True s1 = filename_seed ops True s2"
      using fn by (rule filename_seed_cong)
    from h CropKspace_random_result [of c fo bo st "Some True" sg ops r1 s1 r1'' s1'']
    obtain k1 cs1 seed1 where
      a1: "map_of s1 ''kspace'' = Some (Tensor k1)"
          "bind_result (crop_shape_of c s1) as_int_list = Inr cs1"
          "filename_seed ops True s1 = Inr seed1"
      and e1: "map_of s1'' ''kspace''
             = Some (Tensor (fo (fst (complex_random_crop ops r1 [bo k1 None] cs1 False seed1 st sg)) None))"
      by auto
    from h CropKspace_random_result [of c fo bo st "Some True" sg ops r2 s2 r2'' s2'']
    obtain k2 cs2 seed2 where
      a2: "map_of s2 ''kspace'' = Some (Tensor k2)"
          "bind_result (crop_shape_of c s2) as_int_list = Inr cs2"
          "filename_seed ops True s2 = Inr seed2"
      and e2: "map_of s2'' ''kspace''
             = Some (Tensor (fo (fst (complex_random_crop ops r2 [bo k2 None] cs2 False seed2 st sg)) None))"
      by auto
    have "shape k2 = shape k1" using h a1(1) a2(1) by (simp add: val_shape_def)
    then have shp: "shape (bo k2 None) = shape (bo k1 None)" using bo_shape by simp
    have cs: "cs2 = cs1" using h a1 a2 by simp
    have s: "seed2 = seed1" using sd a1 a2 by simp
    obtain code where code: "seed1 = Some code" using filename_seed_seeded a1(3) by blast
    let ?off = "offsets (shape (bo k1 None)) cs1 code st sg"
    have c1: "fst (complex_random_crop ops r1 [bo k1 None] cs1 False (Some code) st sg)
                = crop_at (bo k1 None) cs1 (fst ?off) (snd ?off)"
      using crop_form by blast
    have c2: "fst (complex_random_crop ops r2 [bo k2 None] cs1 False (Some code) st sg)
                = crop_at (bo k2 None) cs1 (fst ?off) (snd ?off)"
      using crop_form [rule_format, of r2 "bo k2 None" cs1 False code st sg] by (simp only: shp)
    have r1: "map_of s1'' ''kspace''
                = Some (Tensor (fo (crop_at (bo k1 None) cs1 (fst ?off) (snd ?off)) None))"
      using e1 unfolding code c1 .
    have r2: "map_of s2'' ''kspace''
                = Some (Tensor (fo (crop_at (bo k2 None) cs1 (fst ?off) (snd ?off)) None))"
      using e2 unfolding cs s code c2 .
    show "\<exists>k1 k2 cs off_h off_w.
               map_of s1 ''kspace'' = Some (Tensor k1) \<and> map_of s2 ''kspace'' = Some (Tensor k2)
             \<and> map_of s1'' ''kspace''
                 = Some (Tensor (fo (crop_at (bo k1 None) cs off_h off_w) None))
             \<and> map_of s2'' ''kspace''
                 = Some (Tensor (fo (crop_at (bo k2 None) cs off_h off_w) None))"
      using a1(1) a2(1) r1 r2 by blast
  qed
  have C: "\<forall>f. map_of s1 ''filename'' = Some (Str f) \<longrightarrow>
            CreateSamplingMask_call mf shp True ra ops (r1, s1)
              = CreateSamplingMask_call
                  (\<lambda>r sh sd acs. mf r sh (Some (map (\<lambda>c. int (of_char c)) f)) acs)
                  shp True ra ops (r1, s1)
            \<and> CropKspace_call c fo bo False st (Some True) sg ops (r1, s1)
              = CropKspace_call c fo bo False st (Some True) sg
                  (ops\<lparr>complex_random_crop :=
                         \<lambda>r ts cs cont sd. complex_random_crop ops r ts cs cont
                                              (Some (map (\<lambda>c. int (of_char c)) f))\<rparr>)
                  (r1, s1)"
  proof (intro allI impI)
    fix f
    assume f: "map_of s1 ''filename'' = Some (Str f)"
    have seed: "filename_seed ops' True s1 = Inr (Some (map (\<lambda>c. int (of_char c)) f))" for ops' :: "'a ops"
      using f by (rule filename_seed_of_string)
    have m: "CreateSamplingMask_call mf shp True ra ops (r1, s1)
              = CreateSamplingMask_call
                  (\<lambda>r sh sd acs. mf r sh (Some (map (\<lambda>c. int (of_char c)) f)) acs)
                  shp True ra ops (r1, s1)"
      by (simp add: CreateSamplingMask_call_def seed)
    have cr: "CropKspace_call c fo bo False st (Some True) sg ops (r1, s1)
              = CropKspace_call c fo bo False st (Some True) sg
                  (ops\<lparr>complex_random_crop :=
                         \<lambda>r ts cs cont sd. complex_random_crop ops r ts cs cont
                                              (Some (map (\<lambda>c. int (of_char c)) f))\<rparr>)
                  (r1, s1)"
      by (simp add: CropKspace_call_def seed)
    show "CreateSamplingMask_call mf shp True ra ops (r1, s1)
              = CreateSamplingMask_call
                  (\<lambda>r sh sd acs. mf r sh (Some (map (\<lambda>c. int (of_char c)) f)) acs)
                  shp True ra ops (r1, s1)
            \<and> CropKspace_call c fo bo False st (Some True) sg ops (r1, s1)
              = CropKspace_call c fo bo False st (Some True) sg
                  (ops\<lparr>complex_random_crop :=
                         \<lambda>r ts cs cont sd. complex_random_crop ops r ts cs cont
                                              (Some (map (\<lambda>c. int (of_char c)) f))\<rparr>)
                  (r1, s1)"
      using m cr by (rule conjI)
  qed
  show ?thesis by (intro conjI) (rule A, rule B, rule C)
qed

text \<open>
  Claim C7 as stated fails: the stored sampling mask is the generated mask combined with
  the sample's padding field. Two samples with the same filename and the same k-space, and
  a deterministic mask generator, get different sampling masks when their padding fields
  differ.
\<close>

theorem padding_changes_seeded_mask:
  "map_of padded_sample_a ''filename'' = map_of padded_sample_b ''filename''
   \<and> map_of padded_sample_a ''kspace'' = map_of padded_sample_b ''kspace''
   \<and> CreateSamplingMask_call ref_mask_func None True False ref_ops ((0, []), padded_sample_a)
       = Inr ((1, [([1, 2, 2], Some [97, 46, 104, 53], False)]),
              padded_sample_a
                @ [(''sampling_mask'', Tensor \<lparr>shape = [1, 1, 2, 1], data = [1, 0]\<rparr>)])
   \<and> CreateSamplingMask_call ref_mask_func None True False ref_ops ((0, []), padded_sample_b)
       = Inr ((1, [([1, 2, 2], Some [97, 46, 104, 53], False)]),
              padded_sample_b
                @ [(''sampling_mask'', Tensor \<lparr>shape = [1, 1, 2, 1], data = [0, 0]\<rparr>)])"
proof -
  have a: "CreateSamplingMask_call ref_mask_func None True False ref_ops ((0, []), padded_sample_a)
       = Inr ((1, [([1, 2, 2], Some [97, 46, 104, 53], False)]),
              padded_sample_a
                @ [(''sampling_mask'', Tensor \<lparr>shape = [1, 1, 2, 1], data = [1, 0]\<rparr>)])"
    by (simp add: CreateSamplingMask_call_def mask_shape_def dict_get_def val_shape_def
          filename_seed_def py_str_def padded_sample_a_def as_tensor_def
          ref_mask_examples ref_apply_padding_examples del: One_nat_def)
  have b: "CreateSamplingMask_call ref_mask_func None True False ref_ops ((0, []), padded_sample_b)
       = Inr ((1, [([1, 2, 2], Some [97, 46, 104, 53], False)]),
              padded_sample_b
                @ [(''sampling_mask'', Tensor \<lparr>shape = [1, 1, 2, 1], data = [0, 0]\<rparr>)])"
    by (simp add: CreateSamplingMask_call_def mask_shape_def dict_get_def val_shape_def
          filename_seed_def py_str_def padded_sample_b_def as_tensor_def
          ref_mask_examples ref_apply_padding_examples del: One_nat_def)
  show ?thesis
    using a b by (simp add: padded_sample_a_def padded_sample_b_def)
qed

theorem seeded_stages_are_deterministic_witness:
  "(\<exists>ra sa rc sc.
      CreateSamplingMask_call ref_mask_func None True True ref_ops ((0, []), padded_sample_a)
        = Inr (ra, sa)
    \<and> CreateSamplingMask_call ref_mask_func None True True ref_ops ((5, []), padded_sample_c)
        = Inr (rc, sc)
    \<and> map_of sa ''sampling_mask'' = map_of sc ''sampling_mask''
    \<and> map_of sa ''acs_mask'' = map_of sc ''acs_mask'')
   \<and> (\<exists>r1 s1 r2 s2 k1 k2 cs off_h off_w.
      CropKspace_call (IntTuple [1, 1]) id_operator id_operator False (Some ''uniform'')
          (Some True) None ref_ops ((0, []), padded_sample_a) = Inr (r1, s1)
    \<and> CropKspace_call (IntTuple [1, 1]) id_operator id_operator False (Some ''uniform'')
          (Some True) None ref_ops ((5, []), padded_sample_c) = Inr (r2, s2)
    \<and> map_of padded_sample_a ''kspace'' = Some (Tensor k1)
    \<and> map_of padded_sample_c ''kspace'' = Some (Tensor k2)
    \<and> k1 \<noteq> k2
    \<and> map_of s1 ''kspace''
        = Some (Tensor (id_operator (crop_at (id_operator k1 None) cs off_h off_w) None))
    \<and> map_of s2 ''kspace''
        = Some (Tensor (id_operator (crop_at (id_operator k2 None) cs off_h off_w) None)))"
proof -
  have md: "\<forall>r r' sh sd acs. fst (ref_mask_func r sh (Some sd) acs)
                               = fst (ref_mask_func r' sh (Some sd) acs)"
    using ref_mask_func_deterministic by blast
  have cf: "\<forall>r t cs cont sd smp sig.
              fst (complex_random_crop ref_ops r [t] cs cont (Some sd) smp sig)
                = crop_at t cs (fst (ref_crop_offsets (shape t) cs sd smp sig))
                    (snd (ref_crop_offsets (shape t) cs sd smp sig))"
    using ref_random_crop_form by blast
  have bs: "\<forall>k. shape (id_operator k None) = shape k"
    by (simp add: id_operator_def)
  have fn: "map_of padded_sample_a ''filename'' = map_of padded_sample_c ''filename''"
    by (simp add: padded_sample_a_def padded_sample_c_def)
  have pre: "map_option val_shape (map_of padded_sample_a ''kspace'')
               = map_option val_shape (map_of padded_sample_c ''kspace'')
             \<and> map_of padded_sample_a ''padding'' = map_of padded_sample_c ''padding''"
    by (simp add: padded_sample_a_def padded_sample_c_def val_shape_def)
  have shp: "map_option val_shape (map_of padded_sample_a ''kspace'')
               = map_option val_shape (map_of padded_sample_c ''kspace'')"
    using pre by blast
  have cso: "crop_shape_of (IntTuple [1, 1]) padded_sample_a
               = crop_shape_of (IntTuple [1, 1]) padded_sample_c"
    by (simp add: crop_shape_of_def)
  note T = seeded_stages_are_deterministic
             [where mf = ref_mask_func and ops = ref_ops and offsets = ref_crop_offsets
                and bo = id_operator, OF md cf bs fn]
  note M = T [THEN conjunct1, rule_format]
  note C = T [THEN conjunct2, THEN conjunct1, rule_format]
  have mask: "map_of sa ''sampling_mask'' = map_of sc ''sampling_mask''
              \<and> (True \<longrightarrow> map_of sa ''acs_mask'' = map_of sc ''acs_mask'')"
    if "CreateSamplingMask_call ref_mask_func None True True ref_ops ((0, []), padded_sample_a)
          = Inr (ra, sa)"
      and "CreateSamplingMask_call ref_mask_func None True True ref_ops ((5, []), padded_sample_c)
          = Inr (rc, sc)" for ra sa rc sc
    by (rule M) (use pre that in blast)
  have w1: "\<exists>ra sa rc sc.
      CreateSamplingMask_call ref_mask_func None True True ref_ops ((0, []), padded_sample_a)
        = Inr (ra, sa)
    \<and> CreateSamplingMask_call ref_mask_func None True True ref_ops ((5, []), padded_sample_c)
        = Inr (rc, sc)
    \<and> map_of sa ''sampling_mask'' = map_of sc ''sampling_mask''
    \<and> map_of sa ''acs_mask'' = map_of sc ''acs_mask''"
    using mask [OF seeded_mask_runs] seeded_mask_runs by blast
  obtain s2 where run2: "CropKspace_call (IntTuple [1, 1]) id_operator id_operator False
          (Some ''uniform'') (Some True) None ref_ops ((5, []), padded_sample_c)
        = Inr ((Suc 5, []), s2)"
    using seeded_crop_runs_c [of 5] by blast
  note run1 = seeded_crop_runs [of 0]
  from C [OF conjI [OF shp conjI [OF cso conjI [OF run1 run2]]]]
  obtain k1 k2 cs off_h off_w where
    k: "map_of padded_sample_a ''kspace'' = Some (Tensor k1)"
       "map_of padded_sample_c ''kspace'' = Some (Tensor k2)"
    and e1: "map_of [(''kspace'', Tensor \<lparr>shape = [1, 1, 1, 2], data = [1, 0]\<rparr>),
                     (''filename'', Str ''a.h5''),
                     (''padding'', Tensor \<lparr>shape = [1, 1, 2, 1], data = [0, 0]\<rparr>)] ''kspace''
        = Some (Tensor (id_operator (crop_at (id_operator k1 None) cs off_h off_w) None))"
    and e2: "map_of s2 ''kspace''
        = Some (Tensor (id_operator (crop_at (id_operator k2 None) cs off_h off_w) None))"
    by blast
  have ne: "k1 \<noteq> k2"
    using k by (auto simp: padded_sample_a_def padded_sample_c_def)
  have w2: "\<exists>r1 s1 r2 s2 k1 k2 cs off_h off_w.
      CropKspace_call (IntTuple [1, 1]) id_operator id_operator False (Some ''uniform'')
          (Some True) None ref_ops ((0, []), padded_sample_a) = Inr (r1, s1)
    \<and> CropKspace_call (IntTuple [1, 1]) id_operator id_operator False (Some ''uniform'')
          (Some True) None ref_ops ((5, []), padded_sample_c) = Inr (r2, s2)
    \<and> map_of padded_sample_a ''kspace'' = Some (Tensor k1)
    \<and> map_of padded_sample_c ''kspace'' = Some (Tensor k2)
    \<and> k1 \<noteq> k2
    \<and> map_of s1 ''kspace''
        = Some (Tensor (id_operator (crop_at (id_operator k1 None) cs off_h off_w) None))
    \<and> map_of s2 ''kspace''
        = Some (Tensor (id_operator (crop_at (id_operator k2 None) cs off_h off_w) None))"
    using run1 run2 k ne e1 e2 by blast
  show ?thesis by (rule conjI [OF w1 w2])
qed

section \<open>The shape handed to the ACS-mask generation\<close>

text \<open>
  Claim C2 as stated fails. A sample with a \<open>1 \<times> 2 \<times> 2\<close> complex k-space runs through
  the pipeline built with the crop \<open>(1, 1)\<close>; the reference mask generator records the
  arguments of every call. After tensor materialization, before the cropping stage, the
  k-space has shape \<open>(1, 2, 2, 2)\<close>, so the shape from before cropping is \<open>(2, 2, 2)\<close>.
  The ACS call (the second recorded call, with \<open>return_acs = True\<close>) received
  \<open>(1, 1, 2)\<close>, the shape of the cropped k-space.
\<close>

theorem acs_mask_shape_follows_crop:
  "run_pipeline_prefix 1 full_args ref_ops ((0, []), raw_sample)
     = Inr ((0, []),
            [(''kspace'', Tensor \<lparr>shape = [1, 2, 2, 2], data = [1, 0, 1, 0, 1, 0, 1, 0]\<rparr>),
             (''filename'', Str ''a.h5'')])
   \<and> run_pipeline_prefix 5 full_args ref_ops ((0, []), raw_sample)
     = Inr ((2, [([1, 1, 2], Some [97, 46, 104, 53], False),
                 ([1, 1, 2], Some [97, 46, 104, 53], True)]),
            [(''kspace'', Tensor \<lparr>shape = [1, 1, 1, 2], data = [1, 0]\<rparr>),
             (''filename'', Str ''a.h5''),
             (''padding'', Tensor \<lparr>shape = [1, 1, 1, 1], data = [0]\<rparr>),
             (''sampling_mask'', Tensor \<lparr>shape = [1, 1, 1, 1], data = [1]\<rparr>),
             (''acs_mask'', Tensor \<lparr>shape = [1, 1, 1, 1], data = [1]\<rparr>)])"
  by (rule conjI [OF raw_sample_after_ToTensor raw_sample_after_masks])

text \<open>
  Claim C2, as amended. In the canonical pipeline built with a crop and a mask function
  configured and sensitivity-map estimation switched on, the sampling-mask stage is the
  fifth stage, after tensor materialization, cropping, zero-padding detection and
  zero-padding application. Let \<open>sc\<close> be the sample that leaves the cropping stage and
  \<open>kc\<close> its (cropped) k-space. The ACS mask stored by the fifth stage is the result of
  calling the mask callable a second time, with \<open>return_acs = True\<close>, with the same
  filename-derived seed as the primary call, and with the shape, without the coil axis, of
  the k-space that is in the sample when the stage runs: the cropped k-space \<open>kc\<close> after
  the padding has been applied to it. It is not the shape the k-space had before the
  cropping stage.
\<close>

theorem acs_mask_uses_current_kspace_shape:
  assumes "crop a = Some c" and "crop_truthy (crop a)" and "mask_func a = Some mf"
      and "estimate_sensitivity_maps a"
      and "run_pipeline_prefix 2 a ops (r, s) = Inr (rc, sc)"
      and "run_pipeline_prefix 5 a ops (r, s) = Inr (r2, s2)"
  shows "\<exists>kc p ms seed.
           map_of sc ''kspace'' = Some (Tensor kc)
         \<and> mask_shape (sampling_mask_shape_arg (crop a))
             (AList.update ''kspace'' (Tensor (apply_padding ops kc p)) sc) = Inr ms
         \<and> filename_seed ops (use_seed a) sc = Inr seed
         \<and> map_of s2 ''acs_mask''
             = Some (Tensor (fst (mf (snd (mf rc ms seed False))
                                   (map int (tl (shape (apply_padding ops kc p)))) seed True)))
         \<and> r2 = snd (mf (snd (mf rc ms seed False))
                        (map int (tl (shape (apply_padding ops kc p)))) seed True)"
proof -
  let ?pad = "[ComputeZeroPadding ''kspace'' ''padding'' (padding_eps a),
               ApplyZeroPadding ''kspace'' ''padding'']"
  let ?csm = "CreateSamplingMask mf (sampling_mask_shape_arg (crop a)) (use_seed a) True"
  from built_prefix [OF assms(1,2,3)] obtain rest where
    built: "build_mri_transforms a
      = Inr ([ToTensor,
              CropKspace (crop_val c) (forward_operator a) (backward_operator a)
                (image_center_crop a) (crop_type a) (Some (use_seed a)) None,
              ComputeZeroPadding ''kspace'' ''padding'' (padding_eps a),
              ApplyZeroPadding ''kspace'' ''padding'',
              CreateSamplingMask mf (sampling_mask_shape_arg (crop a)) (use_seed a)
                (estimate_sensitivity_maps a)] @ rest)"
    by blast
  let ?two = "[ToTensor,
               CropKspace (crop_val c) (forward_operator a) (backward_operator a)
                 (image_center_crop a) (crop_type a) (Some (use_seed a)) None]"
  have two: "Compose_call ops ?two (r, s) = Inr (rc, sc)"
    using assms(5) by (simp add: run_pipeline_prefix_def built del: Compose_call.simps)
  have "Compose_call ops (?two @ (?pad @ [?csm])) (r, s) = Inr (r2, s2)"
    using assms(4,6) by (simp add: run_pipeline_prefix_def built del: Compose_call.simps)
  then have rest5: "Compose_call ops (?pad @ [?csm]) (rc, sc) = Inr (r2, s2)"
    unfolding Compose_call_append [of ops ?two] two by simp
  then obtain r1 s1 where
    four: "Compose_call ops ?pad (rc, sc) = Inr (r1, s1)" and
    five: "CreateSamplingMask_call mf (sampling_mask_shape_arg (crop a)) (use_seed a) True ops
             (r1, s1) = Inr (r2, s2)"
    unfolding Compose_call_append [of ops ?pad]
    by (cases "Compose_call ops ?pad (rc, sc)") (auto simp: bind_result_def split: sum.splits)
  from padding_stages_result [OF four] obtain kc p where
    r1: "r1 = rc" and
    kc: "map_of sc ''kspace'' = Some (Tensor kc)" and
    pad: "map_of s1 ''padding'' = Some (Tensor p)" and
    ksp: "map_of s1 ''kspace'' = Some (Tensor (apply_padding ops kc p))"
    by blast
  from CreateSamplingMask_result [OF five] obtain ms seed k ks where
    ms: "mask_shape (sampling_mask_shape_arg (crop a)) s1 = Inr ms" and
    seed: "filename_seed ops (use_seed a) s1 = Inr seed" and
    k: "map_of s1 ''kspace'' = Some k" and
    ks: "val_shape k = Inr ks" and
    acs: "map_of s2 ''acs_mask''
            = Some (Tensor (fst (mf (snd (mf r1 ms seed False)) (map int (tl ks)) seed True)))" and
    r2: "r2 = snd (mf (snd (mf r1 ms seed False)) (map int (tl ks)) seed True)"
    by auto
  have ks_eq: "ks = shape (apply_padding ops kc p)"
    using k ks ksp by (auto simp: val_shape_def)
  have fname: "map_of s1 ''filename'' = map_of sc ''filename''"
  proof -
    from four obtain sa where
      a: "ComputeZeroPadding_call ''kspace'' ''padding'' (padding_eps a) ops sc 0 = Inr sa" and
      b: "ApplyZeroPadding_call ''kspace'' ''padding'' ops sa = Inr s1"
      by (auto simp: with_state_def bind_result_def split: sum.splits)
    from ComputeZeroPadding_result [OF a] ApplyZeroPadding_result [OF b]
    show ?thesis by (auto simp: AList.update_conv')
  qed
  have seed': "filename_seed ops (use_seed a) sc = Inr seed"
    using seed filename_seed_cong [OF fname, of ops "use_seed a"] by simp
  have ms': "mask_shape (sampling_mask_shape_arg (crop a))
               (AList.update ''kspace'' (Tensor (apply_padding ops kc p)) sc) = Inr ms"
    using ms
      mask_shape_cong [of s1 "AList.update ''kspace'' (Tensor (apply_padding ops kc p)) sc"
        "sampling_mask_shape_arg (crop a)"]
    by (simp add: ksp AList.update_conv')
  show ?thesis
    using kc ms' seed' acs r2 unfolding r1 ks_eq by blast
qed

theorem acs_mask_uses_current_kspace_shape_witness:
  "crop full_args = Some (CropShape [1, 1]) \<and> crop_truthy (crop full_args)
   \<and> mask_func full_args = Some ref_mask_func \<and> estimate_sensitivity_maps full_args
   \<and> run_pipeline_prefix 2 full_args ref_ops ((0, []), raw_sample)
       = Inr ((0, []),
              [(''kspace'', Tensor \<lparr>shape = [1, 1, 1, 2], data = [1, 0]\<rparr>),
               (''filename'', Str ''a.h5'')])
   \<and> run_pipeline_prefix 5 full_args ref_ops ((0, []), raw_sample)
       = Inr ((2, [([1, 1, 2], Some [97, 46, 104, 53], False),
                   ([1, 1, 2], Some [97, 46, 104, 53], True)]),
              [(''kspace'', Tensor \<lparr>shape = [1, 1, 1, 2], data = [1, 0]\<rparr>),
               (''filename'', Str ''a.h5''),
               (''padding'', Tensor \<lparr>shape = [1, 1, 1, 1], data = [0]\<rparr>),
               (''sampling_mask'', Tensor \<lparr>shape = [1, 1, 1, 1], data = [1]\<rparr>),
               (''acs_mask'', Tensor \<lparr>shape = [1, 1, 1, 1], data = [1]\<rparr>)])
   \<and> (\<exists>kc p ms seed.
           map_of [(''kspace'', Tensor \<lparr>shape = [1, 1, 1, 2], data = [1, 0]\<rparr>),
                   (''filename'', Str ''a.h5'')] ''kspace'' = Some (Tensor kc)
         \<and> mask_shape (sampling_mask_shape_arg (crop full_args))
             (AList.update ''kspace'' (Tensor (apply_padding ref_ops kc p))
                [(''kspace'', Tensor \<lparr>shape = [1, 1, 1, 2], data = [1, 0]\<rparr>),
                 (''filename'', Str ''a.h5'')]) = Inr ms
         \<and> filename_seed ref_ops (use_seed full_args)
             [(''kspace'', Tensor \<lparr>shape = [1, 1, 1, 2], data = [1, 0]\<rparr>),
              (''filename'', Str ''a.h5'')] = Inr seed
         \<and> map_of [(''kspace'', Tensor \<lparr>shape = [1, 1, 1, 2], data = [1, 0]\<rparr>),
                    (''filename'', Str ''a.h5''),
                    (''padding'', Tensor \<lparr>shape = [1, 1, 1, 1], data = [0]\<rparr>),
                    (''sampling_mask'', Tensor \<lparr>shape = [1, 1, 1, 1], data = [1]\<rparr>),
                    (''acs_mask'', Tensor \<lparr>shape = [1, 1, 1, 1], data = [1]\<rparr>)] ''acs_mask''
             = Some (Tensor (fst (ref_mask_func (snd (ref_mask_func (0, []) ms seed False))
                                   (map int (tl (shape (apply_padding ref_ops kc p)))) seed True)))
         \<and> (2, [([1, 1, 2], Some [97, 46, 104, 53], False),
                 ([1, 1, 2], Some [97, 46, 104, 53], True)])
             = snd (ref_mask_func (snd (ref_mask_func (0, []) ms seed False))
                     (map int (tl (shape (apply_padding ref_ops kc p)))) seed True))"
proof -
  have h1: "crop full_args = Some (CropShape [1, 1])"
    by (simp add: full_args_def)
  have h2: "crop_truthy (crop full_args)"
    by (simp add: full_args_def crop_truthy_def)
  have h3: "mask_func full_args = Some ref_mask_func"
    by (simp add: full_args_def)
  have h4: "estimate_sensitivity_maps full_args"
    by (simp add: full_args_def)
  note T = acs_mask_uses_current_kspace_shape
             [OF h1 h2 h3 h4 raw_sample_after_crop raw_sample_after_masks]
  show ?thesis
    by (intro conjI)
       (rule h1, rule h2, rule h3, rule h4, rule raw_sample_after_crop,
        rule raw_sample_after_masks, rule T)
qed


end
